theory Spec2Isabelle
  imports Complex_Main "HOL-Library.Word"
begin

unbundle bit_operations_syntax

section \<open>Data model of gstvaapipostprocess.c\<close>

text \<open>
  The element state (\<^verbatim>\<open>GstVaapiPostprocess\<close>) and the GStreamer/VA-API values it handles.
  The header files are not part of the sources that are modelled, so enumerations are
  datatypes with one constructor per enumerator that the C file names, plus a catch-all
  constructor for every other value of the C enum where the C code has a
  \<^verbatim>\<open>default:\<close> branch.
\<close>

type_synonym guint = "32 word"
type_synonym GstClockTime = "64 word"

text \<open>
  \<^verbatim>\<open>gfloat\<close> levels are only stored, handed to the filter and compared with \<^verbatim>\<open>==\<close>;
  they are reals here, which agrees with \<^verbatim>\<open>==\<close> on every float that is not a NaN.
\<close>

type_synonym gfloat = real

datatype GstVaapiDeinterlaceMode =
    GST_VAAPI_DEINTERLACE_MODE_AUTO
  | GST_VAAPI_DEINTERLACE_MODE_INTERLACED
  | GST_VAAPI_DEINTERLACE_MODE_DISABLED

datatype GstVaapiHDRToneMap =
    GST_VAAPI_HDR_TONE_MAP_AUTO
  | GST_VAAPI_HDR_TONE_MAP_DISABLED

datatype GstVaapiDeinterlaceMethod =
    GST_VAAPI_DEINTERLACE_METHOD_NONE
  | GST_VAAPI_DEINTERLACE_METHOD_BOB
  | GST_VAAPI_DEINTERLACE_METHOD_MOTION_ADAPTIVE
  | GST_VAAPI_DEINTERLACE_METHOD_MOTION_COMPENSATED
  | GST_VAAPI_DEINTERLACE_METHOD_OTHER nat

datatype GstVideoInterlaceMode =
    GST_VIDEO_INTERLACE_MODE_PROGRESSIVE
  | GST_VIDEO_INTERLACE_MODE_INTERLEAVED
  | GST_VIDEO_INTERLACE_MODE_MIXED
  | GST_VIDEO_INTERLACE_MODE_OTHER nat

datatype GstVideoOrientationMethod =
    GST_VIDEO_ORIENTATION_IDENTITY
  | GST_VIDEO_ORIENTATION_90R
  | GST_VIDEO_ORIENTATION_180
  | GST_VIDEO_ORIENTATION_90L
  | GST_VIDEO_ORIENTATION_HORIZ
  | GST_VIDEO_ORIENTATION_VERT
  | GST_VIDEO_ORIENTATION_UL_LR
  | GST_VIDEO_ORIENTATION_UR_LL
  | GST_VIDEO_ORIENTATION_AUTO
  | GST_VIDEO_ORIENTATION_CUSTOM

datatype GstVideoFormat =
    GST_VIDEO_FORMAT_NV12
  | GST_VIDEO_FORMAT_YV12
  | GST_VIDEO_FORMAT_I420
  | GST_VIDEO_FORMAT_ENCODED
  | GST_VIDEO_FORMAT_OTHER nat

datatype GstFlowReturn =
    GST_FLOW_OK
  | GST_FLOW_NOT_SUPPORTED
  | GST_FLOW_ERROR
  | GST_FLOW_EOS
  | GST_FLOW_OTHER int

datatype GstVaapiFilterStatus =
    GST_VAAPI_FILTER_STATUS_SUCCESS
  | GST_VAAPI_FILTER_STATUS_ERROR nat

text \<open>
  \<^verbatim>\<open>postprocess->flags\<close> is a bit mask of \<^verbatim>\<open>GST_VAAPI_POSTPROCESS_FLAG_*\<close> values. Their
  bit positions are declared in a header outside the modelled sources; each flag is one
  bit of its own, so the mask is the set of the flags whose bit is set:
  \<^verbatim>\<open>flags & F\<close> is membership, \<^verbatim>\<open>flags |= F\<close> is insertion, \<^verbatim>\<open>flags &= ~F\<close> is removal and
  \<^verbatim>\<open>flags != 0\<close> is non-emptiness.
\<close>

datatype GstVaapiPostprocessFlags =
    GST_VAAPI_POSTPROCESS_FLAG_FORMAT
  | GST_VAAPI_POSTPROCESS_FLAG_DENOISE
  | GST_VAAPI_POSTPROCESS_FLAG_SHARPEN
  | GST_VAAPI_POSTPROCESS_FLAG_HUE
  | GST_VAAPI_POSTPROCESS_FLAG_SATURATION
  | GST_VAAPI_POSTPROCESS_FLAG_BRIGHTNESS
  | GST_VAAPI_POSTPROCESS_FLAG_CONTRAST
  | GST_VAAPI_POSTPROCESS_FLAG_DEINTERLACE
  | GST_VAAPI_POSTPROCESS_FLAG_SCALE
  | GST_VAAPI_POSTPROCESS_FLAG_VIDEO_DIRECTION
  | GST_VAAPI_POSTPROCESS_FLAG_CROP
  | GST_VAAPI_POSTPROCESS_FLAG_HDR_TONE_MAP
  | GST_VAAPI_POSTPROCESS_FLAG_SKINTONE
  | GST_VAAPI_POSTPROCESS_FLAG_SKINTONE_LEVEL
  | GST_VAAPI_POSTPROCESS_FLAG_SIZE

text \<open>The flags handed to \<^verbatim>\<open>gst_vaapi_filter_set_deinterlacing\<close>, a bit mask as well.\<close>

datatype GstVaapiDeinterlaceFlags =
    GST_VAAPI_DEINTERLACE_FLAG_TFF
  | GST_VAAPI_DEINTERLACE_FLAG_TOPFIELD

record GstVideoCropMeta =
  crop_x :: guint
  crop_y :: guint
  crop_width :: guint
  crop_height :: guint

record GstVideoMeta =
  vmeta_width :: guint
  vmeta_height :: guint

record GstVaapiRectangle =
  rect_x :: guint
  rect_y :: guint
  rect_width :: guint
  rect_height :: guint

text \<open>
  \<^verbatim>\<open>GstVideoInfo\<close>: width and height are \<^verbatim>\<open>gint\<close> and only take part in unsigned
  arithmetic and in comparisons for equality, so they are kept as their 32-bit patterns;
  the frame rate is the fraction \<^verbatim>\<open>fps_n / fps_d\<close> of two \<^verbatim>\<open>gint\<close>.
\<close>

record GstVideoInfo =
  vi_format :: GstVideoFormat
  vi_width :: guint
  vi_height :: guint
  vi_interlace_mode :: GstVideoInterlaceMode
  vi_fps_n :: int
  vi_fps_d :: int
  vi_colorimetry :: nat

text \<open>
  A surface is identified by a number; a \<^verbatim>\<open>GstVaapiSurface *\<close> that may be \<^verbatim>\<open>NULL\<close> is an
  option. \<^verbatim>\<open>GstVaapiVideoMeta\<close> carries the surface proxy of a buffer (absent until one is
  attached), its render flags and its render rectangle (\<^verbatim>\<open>NULL\<close> when none is set).
\<close>

type_synonym GstVaapiSurface = nat

record GstVaapiVideoMeta =
  meta_surface :: "GstVaapiSurface option"
  meta_render_flags :: guint
  meta_render_rect :: "GstVaapiRectangle option"

text \<open>
  A \<^verbatim>\<open>GstBuffer\<close> with the metadata the element reads and writes: presentation timestamp
  and duration, the buffer flags \<^verbatim>\<open>GST_VIDEO_BUFFER_FLAG_TFF\<close>,
  \<^verbatim>\<open>GST_VIDEO_BUFFER_FLAG_INTERLACED\<close> and \<^verbatim>\<open>GST_BUFFER_FLAG_DISCONT\<close>, and the attached
  metas (\<open>None\<close> where \<^verbatim>\<open>gst_buffer_get_*_meta\<close> returns \<^verbatim>\<open>NULL\<close>).
\<close>

record GstBuffer =
  buf_timestamp :: GstClockTime
  buf_duration :: GstClockTime
  buf_flag_tff :: bool
  buf_flag_interlaced :: bool
  buf_flag_discont :: bool
  buf_vaapi_meta :: "GstVaapiVideoMeta option"
  buf_video_meta :: "GstVideoMeta option"
  buf_crop_meta :: "GstVideoCropMeta option"

text \<open>
  \<^verbatim>\<open>GstVaapiDeinterlaceStateEss\<close>: the ring of the most recent input buffers, the write
  cursor, the surfaces handed to the filter as references and their number, and the
  deinterlacing decision and field order of the previous frame. The length of \<open>ds_buffers\<close>
  is \<^verbatim>\<open>G_N_ELEMENTS (ds->buffers)\<close>, the capacity the header fixes.
\<close>

record GstVaapiDeinterlaceStateEss =
  ds_buffers :: "GstBuffer option list"
  ds_buffers_index :: nat
  ds_surfaces :: "GstVaapiSurface option list"
  ds_num_surfaces :: nat
  ds_deint :: bool
  ds_tff :: bool

text \<open>
  The element. \<open>have_filter\<close>, \<open>have_filter_ops\<close>, \<open>have_filter_formats\<close> and
  \<open>have_filter_pool\<close> say whether the pointers \<^verbatim>\<open>filter\<close>, \<^verbatim>\<open>filter_ops\<close>, \<^verbatim>\<open>filter_formats\<close>
  and \<^verbatim>\<open>filter_pool\<close> are set; \<open>passthrough\<close> is the passthrough switch of the base class.
\<close>

record GstVaapiPostprocess =
  flags :: "GstVaapiPostprocessFlags set"
  has_vpp :: bool
  use_vpp :: bool
  have_filter :: bool
  have_filter_ops :: bool
  have_filter_formats :: bool
  have_filter_pool :: bool
  filter_pool_info :: GstVideoInfo
  passthrough :: bool
  forward_crop :: bool
  same_caps :: bool
  get_va_surfaces :: bool
  format :: GstVideoFormat
  hdr_tone_map :: GstVaapiHDRToneMap
  deinterlace_mode :: GstVaapiDeinterlaceMode
  deinterlace_method :: GstVaapiDeinterlaceMethod
  deinterlace_state :: GstVaapiDeinterlaceStateEss
  field_duration :: GstClockTime
  denoise_level :: gfloat
  sharpen_level :: gfloat
  hue :: gfloat
  saturation :: gfloat
  brightness :: gfloat
  contrast :: gfloat
  scale_method :: nat
  video_direction :: GstVideoOrientationMethod
  tag_video_direction :: GstVideoOrientationMethod
  crop_left :: guint
  crop_right :: guint
  crop_top :: guint
  crop_bottom :: guint
  skintone_enhance :: bool
  skintone_value :: guint
  sinkpad_info :: GstVideoInfo
  srcpad_info :: GstVideoInfo

subsection \<open>The Filter Engine\<close>

text \<open>
  The filter (\<^verbatim>\<open>GstVaapiFilter\<close>) is an external collaborator. What the element sees of it
  is, for every \<^verbatim>\<open>gst_vaapi_filter_set_*\<close> call, whether the engine accepts the value, the
  default the engine reports for each operation, the direction it currently applies
  (\<^verbatim>\<open>gst_vaapi_filter_get_video_direction\<close>) and the status of \<^verbatim>\<open>gst_vaapi_filter_process\<close>. A call is a value of \<open>filter_call\<close>; the
  model functions return the calls they made, in order, next to their result.
\<close>

datatype filter_call =
    Set_format GstVideoFormat
  | Set_denoising_level gfloat
  | Set_sharpening_level gfloat
  | Set_hue gfloat
  | Set_saturation gfloat
  | Set_brightness gfloat
  | Set_contrast gfloat
  | Set_scaling nat
  | Set_video_direction GstVideoOrientationMethod
  | Set_skintone_level guint
  | Set_skintone bool
  | Set_deinterlacing GstVaapiDeinterlaceMethod "GstVaapiDeinterlaceFlags set"
  | Set_deinterlacing_references "GstVaapiSurface option list"
  | Set_cropping_rectangle "GstVaapiRectangle option"
  | Set_colorimetry nat nat
  | Set_hdr_tone_map bool
  | Set_hdr_tone_map_meta
  | Process "GstVaapiSurface option" "GstVaapiSurface option" guint

record GstVaapiFilter =
  accepts :: "filter_call \<Rightarrow> bool"
  process_status ::
    "GstVaapiSurface option \<Rightarrow> GstVaapiSurface option \<Rightarrow> guint \<Rightarrow> GstVaapiFilterStatus"
  denoising_level_default :: gfloat
  sharpening_level_default :: gfloat
  hue_default :: gfloat
  saturation_default :: gfloat
  brightness_default :: gfloat
  contrast_default :: gfloat
  scaling_default :: nat
  video_direction_default :: GstVideoOrientationMethod
  video_direction_now :: GstVideoOrientationMethod
  skintone_level_default :: guint
  skintone_default :: bool

section \<open>Crop metadata rotation\<close>

text \<open>
  \<^verbatim>\<open>rotate_crop_meta\<close> (lines 797-847). The direction is what
  \<^verbatim>\<open>gst_vaapi_filter_get_video_direction\<close> returns. All fields are \<^verbatim>\<open>guint\<close>, so the
  subtractions wrap around.
\<close>

fun rotate_crop :: "GstVideoOrientationMethod \<Rightarrow> GstVideoMeta \<Rightarrow> GstVideoCropMeta \<Rightarrow> GstVideoCropMeta" where
  "rotate_crop GST_VIDEO_ORIENTATION_HORIZ vmeta crop =
     crop\<lparr>crop_x := vmeta_width vmeta - crop_width crop - crop_x crop\<rparr>"
| "rotate_crop GST_VIDEO_ORIENTATION_VERT vmeta crop =
     crop\<lparr>crop_y := vmeta_height vmeta - crop_height crop - crop_y crop\<rparr>"
| "rotate_crop GST_VIDEO_ORIENTATION_90R vmeta crop =
     \<lparr>crop_x = vmeta_height vmeta - crop_height crop - crop_y crop,
      crop_y = crop_x crop,
      crop_width = crop_height crop,
      crop_height = crop_width crop\<rparr>"
| "rotate_crop GST_VIDEO_ORIENTATION_180 vmeta crop =
     crop\<lparr>crop_x := vmeta_width vmeta - crop_width crop - crop_x crop,
          crop_y := vmeta_height vmeta - crop_height crop - crop_y crop\<rparr>"
| "rotate_crop GST_VIDEO_ORIENTATION_90L vmeta crop =
     \<lparr>crop_x = crop_y crop,
      crop_y = vmeta_width vmeta - crop_width crop - crop_x crop,
      crop_width = crop_height crop,
      crop_height = crop_width crop\<rparr>"
| "rotate_crop GST_VIDEO_ORIENTATION_UR_LL vmeta crop =
     \<lparr>crop_x = vmeta_height vmeta - crop_height crop - crop_y crop,
      crop_y = vmeta_width vmeta - crop_width crop - crop_x crop,
      crop_width = crop_height crop,
      crop_height = crop_width crop\<rparr>"
| "rotate_crop GST_VIDEO_ORIENTATION_UL_LR vmeta crop =
     \<lparr>crop_x = crop_y crop,
      crop_y = crop_x crop,
      crop_width = crop_height crop,
      crop_height = crop_width crop\<rparr>"
| "rotate_crop _ vmeta crop = crop"

text \<open>
  The function itself: nothing happens without VPP (\<^verbatim>\<open>g_return_if_fail\<close>) or when the
  video meta or the crop meta is \<^verbatim>\<open>NULL\<close>; otherwise the crop meta is rewritten in place.
\<close>

definition rotate_crop_meta ::
  "GstVaapiPostprocess \<Rightarrow> GstVideoOrientationMethod \<Rightarrow> GstVideoMeta option \<Rightarrow>
   GstVideoCropMeta option \<Rightarrow> GstVideoCropMeta option" where
  "rotate_crop_meta postprocess direction vmeta crop =
     (if \<not> has_vpp postprocess then crop
      else case (vmeta, crop) of
        (Some vm, Some c) \<Rightarrow> Some (rotate_crop direction vm c)
      | _ \<Rightarrow> crop)"

section \<open>The per-frame deinterlacing decision\<close>

text \<open>\<^verbatim>\<open>should_deinterlace_buffer\<close> (lines 374-401).\<close>

definition should_deinterlace_buffer :: "GstVaapiPostprocess \<Rightarrow> GstBuffer \<Rightarrow> bool" where
  "should_deinterlace_buffer postprocess buf =
     (if GST_VAAPI_POSTPROCESS_FLAG_DEINTERLACE \<notin> flags postprocess
         \<or> deinterlace_mode postprocess = GST_VAAPI_DEINTERLACE_MODE_DISABLED
      then False
      else if deinterlace_mode postprocess = GST_VAAPI_DEINTERLACE_MODE_INTERLACED
      then True
      else (case vi_interlace_mode (sinkpad_info postprocess) of
              GST_VIDEO_INTERLACE_MODE_INTERLEAVED \<Rightarrow> True
            | GST_VIDEO_INTERLACE_MODE_PROGRESSIVE \<Rightarrow> False
            | GST_VIDEO_INTERLACE_MODE_MIXED \<Rightarrow> buf_flag_interlaced buf
            | GST_VIDEO_INTERLACE_MODE_OTHER _ \<Rightarrow> False))"

section \<open>Deinterlacing method selection\<close>

text \<open>\<^verbatim>\<open>deint_method_is_advanced\<close> (lines 493-508).\<close>

fun deint_method_is_advanced :: "GstVaapiDeinterlaceMethod \<Rightarrow> bool" where
  "deint_method_is_advanced GST_VAAPI_DEINTERLACE_METHOD_MOTION_ADAPTIVE = True"
| "deint_method_is_advanced GST_VAAPI_DEINTERLACE_METHOD_MOTION_COMPENSATED = True"
| "deint_method_is_advanced _ = False"

text \<open>\<^verbatim>\<open>get_next_deint_method\<close> (lines 510-523).\<close>

fun get_next_deint_method :: "GstVaapiDeinterlaceMethod \<Rightarrow> GstVaapiDeinterlaceMethod" where
  "get_next_deint_method GST_VAAPI_DEINTERLACE_METHOD_MOTION_COMPENSATED =
     GST_VAAPI_DEINTERLACE_METHOD_MOTION_ADAPTIVE"
| "get_next_deint_method _ = GST_VAAPI_DEINTERLACE_METHOD_BOB"

text \<open>
  The \<^verbatim>\<open>for (;;)\<close> loop of \<^verbatim>\<open>set_best_deint_method\<close> (lines 532-538), started at
  \<open>deint_method\<close>. It returns \<^verbatim>\<open>success\<close>, the method it stopped at and the
  \<^verbatim>\<open>gst_vaapi_filter_set_deinterlacing\<close> calls it made. The loop has no bound of its own;
  that it ends is the termination proof below.
\<close>

fun deint_method_rank :: "GstVaapiDeinterlaceMethod \<Rightarrow> nat" where
  "deint_method_rank GST_VAAPI_DEINTERLACE_METHOD_MOTION_COMPENSATED = 2"
| "deint_method_rank GST_VAAPI_DEINTERLACE_METHOD_BOB = 0"
| "deint_method_rank _ = 1"

function set_best_deint_loop ::
  "GstVaapiFilter \<Rightarrow> GstVaapiDeinterlaceFlags set \<Rightarrow> GstVaapiDeinterlaceMethod \<Rightarrow>
   bool \<times> GstVaapiDeinterlaceMethod \<times> filter_call list" where
  "set_best_deint_loop flt dflags deint_method =
     (if accepts flt (Set_deinterlacing deint_method dflags)
         \<or> deint_method = GST_VAAPI_DEINTERLACE_METHOD_BOB
      then (accepts flt (Set_deinterlacing deint_method dflags), deint_method,
            [Set_deinterlacing deint_method dflags])
      else (case set_best_deint_loop flt dflags (get_next_deint_method deint_method) of
              (success, m, calls) \<Rightarrow>
                (success, m, Set_deinterlacing deint_method dflags # calls)))"
  by pat_completeness auto
termination
proof (relation "measure (\<lambda>(flt, dflags, m). deint_method_rank m)")
  show "wf (measure (\<lambda>(flt, dflags, m). deint_method_rank m))"
    by simp
next
  fix flt :: GstVaapiFilter and dflags deint_method
  assume "\<not> (accepts flt (Set_deinterlacing deint_method dflags)
             \<or> deint_method = GST_VAAPI_DEINTERLACE_METHOD_BOB)"
  then show "((flt, dflags, get_next_deint_method deint_method), (flt, dflags, deint_method))
               \<in> measure (\<lambda>(flt, dflags, m). deint_method_rank m)"
    by (cases deint_method) simp_all
qed

declare set_best_deint_loop.simps [simp del]

text \<open>\<^verbatim>\<open>set_best_deint_method\<close> (lines 525-541).\<close>

definition set_best_deint_method ::
  "GstVaapiPostprocess \<Rightarrow> GstVaapiFilter \<Rightarrow> GstVaapiDeinterlaceFlags set \<Rightarrow>
   bool \<times> GstVaapiDeinterlaceMethod \<times> filter_call list" where
  "set_best_deint_method postprocess flt dflags =
     set_best_deint_loop flt dflags (deinterlace_method postprocess)"


section \<open>Deinterlacing history\<close>

text \<open>\<^verbatim>\<open>ds_reset\<close> (lines 188-199): every slot is emptied, the surfaces array is left alone.\<close>

definition ds_reset :: "GstVaapiDeinterlaceStateEss \<Rightarrow> GstVaapiDeinterlaceStateEss" where
  "ds_reset ds =
     ds\<lparr>ds_buffers := map (\<lambda>_. None) (ds_buffers ds),
        ds_buffers_index := 0,
        ds_num_surfaces := 0,
        ds_deint := False,
        ds_tff := False\<rparr>"

text \<open>\<^verbatim>\<open>ds_add_buffer\<close> (lines 201-206).\<close>

definition ds_add_buffer :: "GstVaapiDeinterlaceStateEss \<Rightarrow> GstBuffer \<Rightarrow> GstVaapiDeinterlaceStateEss" where
  "ds_add_buffer ds buf =
     ds\<lparr>ds_buffers := (ds_buffers ds)[ds_buffers_index ds := Some buf],
        ds_buffers_index := (ds_buffers_index ds + 1) mod length (ds_buffers ds)\<rparr>"

text \<open>
  \<^verbatim>\<open>ds_get_buffer\<close> (lines 208-217); \<open>index\<close> counts back from the most recent buffer. The
  callers keep \<open>index\<close> below the capacity, so the \<^verbatim>\<open>guint\<close> expression does not wrap.
\<close>

definition ds_get_buffer :: "GstVaapiDeinterlaceStateEss \<Rightarrow> nat \<Rightarrow> GstBuffer option" where
  "ds_get_buffer ds index =
     (let n = ds_buffers_index ds + length (ds_buffers ds) - index - 1
      in ds_buffers ds ! (n mod length (ds_buffers ds)))"

text \<open>
  \<^verbatim>\<open>gst_vaapi_video_meta_get_surface (gst_buffer_get_vaapi_video_meta (buf))\<close>: the surface
  of a buffer, \<^verbatim>\<open>NULL\<close> when the buffer has no meta or the meta no proxy.
\<close>

definition buffer_surface :: "GstBuffer \<Rightarrow> GstVaapiSurface option" where
  "buffer_surface buf = (case buf_vaapi_meta buf of None \<Rightarrow> None | Some m \<Rightarrow> meta_surface m)"

text \<open>
  The loop of \<^verbatim>\<open>ds_set_surfaces\<close> (lines 226-233) from index \<open>i\<close> on: it stops at the first
  empty slot or at the capacity.
\<close>

function ds_collect_surfaces :: "GstVaapiDeinterlaceStateEss \<Rightarrow> nat \<Rightarrow> GstVaapiSurface option list" where
  "ds_collect_surfaces ds i =
     (if i < length (ds_buffers ds)
      then (case ds_get_buffer ds i of
              None \<Rightarrow> []
            | Some buf \<Rightarrow> buffer_surface buf # ds_collect_surfaces ds (i + 1))
      else [])"
  by pat_completeness auto
termination
  by (relation "measure (\<lambda>(ds, i). length (ds_buffers ds) - i)") auto

declare ds_collect_surfaces.simps [simp del]

text \<open>\<^verbatim>\<open>ds_set_surfaces\<close> (lines 219-234): the collected surfaces overwrite the head of the array.\<close>

definition ds_set_surfaces :: "GstVaapiDeinterlaceStateEss \<Rightarrow> GstVaapiDeinterlaceStateEss" where
  "ds_set_surfaces ds =
     (let found = ds_collect_surfaces ds 0
      in ds\<lparr>ds_surfaces := found @ drop (length found) (ds_surfaces ds),
             ds_num_surfaces := length found\<rparr>)"

text \<open>The references handed to the filter: \<^verbatim>\<open>ds->surfaces, ds->num_surfaces\<close>.\<close>

definition ds_references :: "GstVaapiDeinterlaceStateEss \<Rightarrow> GstVaapiSurface option list" where
  "ds_references ds = take (ds_num_surfaces ds) (ds_surfaces ds)"

section \<open>Applying the pending operations\<close>

text \<open>
  \<^verbatim>\<open>update_filter\<close> (lines 618-748) is a sequence of blocks, one per operation; a block that
  fails returns \<^verbatim>\<open>FALSE\<close> at once and keeps what the blocks before it did. The state
  threaded through the blocks is the element and the filter calls made so far.
\<close>

type_synonym update_state = "GstVaapiPostprocess \<times> filter_call list"

definition and_then ::
  "bool \<times> update_state \<Rightarrow> (update_state \<Rightarrow> bool \<times> update_state) \<Rightarrow> bool \<times> update_state" where
  "and_then r next_block = (if fst r then next_block (snd r) else r)"

text \<open>
  The block shared by denoise, sharpen, hue, saturation, brightness, contrast and scale:
  when the flag is set, push the value; fail if the filter refuses; clear the flag when
  the filter's default equals the value.
\<close>

definition push_op ::
  "GstVaapiFilter \<Rightarrow> GstVaapiPostprocessFlags \<Rightarrow> filter_call \<Rightarrow> bool \<Rightarrow>
   update_state \<Rightarrow> bool \<times> update_state" where
  "push_op flt flag call is_default s =
     (if flag \<in> flags (fst s) then
        (if \<not> accepts flt call then (False, (fst s, snd s @ [call]))
         else (True, ((if is_default then (fst s)\<lparr>flags := flags (fst s) - {flag}\<rparr> else fst s),
                      snd s @ [call])))
      else (True, s))"

text \<open>The format block (lines 622-624): pushed, never compared with a default.\<close>

definition push_format :: "GstVaapiFilter \<Rightarrow> update_state \<Rightarrow> bool \<times> update_state" where
  "push_format flt s =
     (if GST_VAAPI_POSTPROCESS_FLAG_FORMAT \<in> flags (fst s) then
        (accepts flt (Set_format (format (fst s))), (fst s, snd s @ [Set_format (format (fst s))]))
      else (True, s))"

text \<open>
  The direction block (lines 693-711): \<^verbatim>\<open>auto\<close> is replaced by the direction of the stream
  tags; a refusal is only warned about; the flag is cleared when the default equals the
  direction.
\<close>

definition effective_video_direction :: "GstVaapiPostprocess \<Rightarrow> GstVideoOrientationMethod" where
  "effective_video_direction postprocess =
     (if video_direction postprocess = GST_VIDEO_ORIENTATION_AUTO
      then tag_video_direction postprocess else video_direction postprocess)"

definition push_video_direction :: "GstVaapiFilter \<Rightarrow> update_state \<Rightarrow> bool \<times> update_state" where
  "push_video_direction flt s =
     (if GST_VAAPI_POSTPROCESS_FLAG_VIDEO_DIRECTION \<in> flags (fst s) then
        (let method = effective_video_direction (fst s)
         in (True,
             ((if video_direction_default flt = method
               then (fst s)\<lparr>flags := flags (fst s) - {GST_VAAPI_POSTPROCESS_FLAG_VIDEO_DIRECTION}\<rparr>
               else fst s),
              snd s @ [Set_video_direction method])))
      else (True, s))"

text \<open>The crop block (lines 713-716): no filter call; the flag goes when all margins are zero.\<close>

definition check_crop :: "update_state \<Rightarrow> bool \<times> update_state" where
  "check_crop s =
     (if GST_VAAPI_POSTPROCESS_FLAG_CROP \<in> flags (fst s)
         \<and> (crop_left (fst s) OR crop_right (fst s) OR crop_top (fst s) OR crop_bottom (fst s)) = 0
      then (True, ((fst s)\<lparr>flags := flags (fst s) - {GST_VAAPI_POSTPROCESS_FLAG_CROP}\<rparr>, snd s))
      else (True, s))"

text \<open>
  The skin tone block (lines 718-745), in a build that keeps the deprecated property: with
  the level flag set, the level is pushed and the flag of the deprecated property is
  cleared in any case; otherwise the deprecated property is handled like the other
  operations.
\<close>

definition push_skintone :: "GstVaapiFilter \<Rightarrow> update_state \<Rightarrow> bool \<times> update_state" where
  "push_skintone flt s =
     (if GST_VAAPI_POSTPROCESS_FLAG_SKINTONE_LEVEL \<in> flags (fst s) then
        (if \<not> accepts flt (Set_skintone_level (skintone_value (fst s)))
         then (False, (fst s, snd s @ [Set_skintone_level (skintone_value (fst s))]))
         else (True,
               ((fst s)\<lparr>flags :=
                   (if skintone_level_default flt = skintone_value (fst s)
                    then flags (fst s) - {GST_VAAPI_POSTPROCESS_FLAG_SKINTONE_LEVEL}
                    else flags (fst s)) - {GST_VAAPI_POSTPROCESS_FLAG_SKINTONE}\<rparr>,
                snd s @ [Set_skintone_level (skintone_value (fst s))])))
      else push_op flt GST_VAAPI_POSTPROCESS_FLAG_SKINTONE
             (Set_skintone (skintone_enhance (fst s)))
             (skintone_default flt = skintone_enhance (fst s)) s)"

definition update_filter_blocks :: "GstVaapiFilter \<Rightarrow> update_state \<Rightarrow> bool \<times> update_state" where
  "update_filter_blocks flt s0 =
     and_then (push_format flt s0) (\<lambda>s.
     and_then (push_op flt GST_VAAPI_POSTPROCESS_FLAG_DENOISE
                 (Set_denoising_level (denoise_level (fst s)))
                 (denoising_level_default flt = denoise_level (fst s)) s) (\<lambda>s.
     and_then (push_op flt GST_VAAPI_POSTPROCESS_FLAG_SHARPEN
                 (Set_sharpening_level (sharpen_level (fst s)))
                 (sharpening_level_default flt = sharpen_level (fst s)) s) (\<lambda>s.
     and_then (push_op flt GST_VAAPI_POSTPROCESS_FLAG_HUE
                 (Set_hue (hue (fst s)))
                 (hue_default flt = hue (fst s)) s) (\<lambda>s.
     and_then (push_op flt GST_VAAPI_POSTPROCESS_FLAG_SATURATION
                 (Set_saturation (saturation (fst s)))
                 (saturation_default flt = saturation (fst s)) s) (\<lambda>s.
     and_then (push_op flt GST_VAAPI_POSTPROCESS_FLAG_BRIGHTNESS
                 (Set_brightness (brightness (fst s)))
                 (brightness_default flt = brightness (fst s)) s) (\<lambda>s.
     and_then (push_op flt GST_VAAPI_POSTPROCESS_FLAG_CONTRAST
                 (Set_contrast (contrast (fst s)))
                 (contrast_default flt = contrast (fst s)) s) (\<lambda>s.
     and_then (push_op flt GST_VAAPI_POSTPROCESS_FLAG_SCALE
                 (Set_scaling (scale_method (fst s)))
                 (scaling_default flt = scale_method (fst s)) s) (\<lambda>s.
     and_then (push_video_direction flt s) (\<lambda>s.
     and_then (check_crop s) (\<lambda>s.
     push_skintone flt s))))))))))"

text \<open>
  \<^verbatim>\<open>update_filter\<close>: the result, the element afterwards and the filter calls made, in order.
\<close>

definition update_filter ::
  "GstVaapiFilter \<Rightarrow> GstVaapiPostprocess \<Rightarrow> bool \<times> GstVaapiPostprocess \<times> filter_call list" where
  "update_filter flt postprocess =
     (case update_filter_blocks flt (postprocess, []) of
        (ok, (postprocess', calls)) \<Rightarrow> (ok, postprocess', calls))"


section \<open>Per-frame processing\<close>

subsection \<open>What the frame functions get from outside\<close>

text \<open>
  The picture structure bits of the render flags (\<^verbatim>\<open>GST_VAAPI_PICTURE_STRUCTURE_*\<close>) are
  constants of a header outside the modelled sources; the frame functions take them as a
  parameter.
\<close>

record picture_structure_bits =
  PICTURE_STRUCTURE_TOP_FIELD :: guint
  PICTURE_STRUCTURE_BOTTOM_FIELD :: guint
  PICTURE_STRUCTURE_FRAME :: guint
  PICTURE_STRUCTURE_MASK :: guint

text \<open>
  The outcome of every call that leaves the file while one frame is transformed:
  \<^item> \<open>env_get_input_buffer\<close>: \<^verbatim>\<open>gst_vaapi_plugin_base_get_input_buffer\<close>, \<open>None\<close> when it does
    not return \<^verbatim>\<open>GST_FLOW_OK\<close>;
  \<^item> \<open>env_copy_output_frame\<close>: \<^verbatim>\<open>GST_VAAPI_PLUGIN_BASE_COPY_OUTPUT_FRAME\<close>;
  \<^item> \<open>env_create_va_buffer\<close>, \<open>env_create_field_buffer\<close>: \<^verbatim>\<open>create_output_buffer\<close> as called by
    the transform function and for the first field, \<open>None\<close> for \<^verbatim>\<open>NULL\<close>;
  \<^item> \<open>env_create_dump_buffer\<close>: \<^verbatim>\<open>create_output_dump_buffer\<close>;
  \<^item> \<open>env_copy_va_buffer src dst\<close>: \<^verbatim>\<open>gst_vaapi_plugin_copy_va_buffer\<close>, the destination
    afterwards, \<open>None\<close> when it fails;
  \<^item> \<open>env_copy_metadata inbuf outbuf\<close>: the base class hook \<^verbatim>\<open>copy_metadata\<close> as wrapped by
    lines 448-464, the output buffer afterwards;
  \<^item> \<open>env_pool_surface_field\<close>, \<open>env_pool_surface_out\<close>:
    \<^verbatim>\<open>gst_vaapi_surface_proxy_new_from_pool\<close> for the first and for the second field;
  \<^item> \<open>env_proxy_copy\<close>: \<^verbatim>\<open>gst_vaapi_surface_proxy_copy\<close>;
  \<^item> \<open>env_pad_push\<close>: \<^verbatim>\<open>gst_pad_push\<close> on the source pad.
\<close>

record frame_env =
  env_get_input_buffer :: "GstBuffer \<Rightarrow> GstBuffer option"
  env_copy_output_frame :: bool
  env_create_va_buffer :: "GstBuffer option"
  env_create_field_buffer :: "GstBuffer option"
  env_create_dump_buffer :: "GstBuffer option"
  env_copy_va_buffer :: "GstBuffer \<Rightarrow> GstBuffer \<Rightarrow> GstBuffer option"
  env_copy_metadata :: "GstBuffer \<Rightarrow> GstBuffer \<Rightarrow> GstBuffer"
  env_pool_surface_field :: "GstVaapiSurface option"
  env_pool_surface_out :: "GstVaapiSurface option"
  env_proxy_copy :: "GstVaapiSurface \<Rightarrow> GstVaapiSurface option"
  env_pad_push :: "GstBuffer \<Rightarrow> GstFlowReturn"

text \<open>
  What a frame function leaves behind: its return value, the element, the filter calls it
  made, the buffers it handed to \<^verbatim>\<open>gst_pad_push\<close> and the output buffer.
\<close>

record proc_result =
  res_ret :: GstFlowReturn
  res_postprocess :: GstVaapiPostprocess
  res_calls :: "filter_call list"
  res_pushed :: "GstBuffer list"
  res_outbuf :: GstBuffer

subsection \<open>Buffer helpers\<close>

text \<open>
  \<^verbatim>\<open>gst_buffer_copy_into (dest, src, flags, 0, -1)\<close> of GStreamer, for the two copy flags the
  file uses: \<^verbatim>\<open>GST_BUFFER_COPY_FLAGS\<close> copies the buffer flags, \<^verbatim>\<open>GST_BUFFER_COPY_TIMESTAMPS\<close>
  the timestamp and the duration.
\<close>

definition gst_buffer_copy_into :: "GstBuffer \<Rightarrow> GstBuffer \<Rightarrow> bool \<Rightarrow> bool \<Rightarrow> GstBuffer" where
  "gst_buffer_copy_into dest src copy_flags copy_timestamps =
     (let d1 = (if copy_flags
                then dest\<lparr>buf_flag_tff := buf_flag_tff src,
                          buf_flag_interlaced := buf_flag_interlaced src,
                          buf_flag_discont := buf_flag_discont src\<rparr>
                else dest)
      in if copy_timestamps
         then d1\<lparr>buf_timestamp := buf_timestamp src, buf_duration := buf_duration src\<rparr>
         else d1)"

text \<open>\<^verbatim>\<open>gst_vaapi_video_meta_set_render_flags\<close> on the meta of a buffer; nothing without a meta.\<close>

definition buffer_set_render_flags :: "GstBuffer \<Rightarrow> guint \<Rightarrow> GstBuffer" where
  "buffer_set_render_flags buf rflags =
     buf\<lparr>buf_vaapi_meta := map_option (\<lambda>m. m\<lparr>meta_render_flags := rflags\<rparr>) (buf_vaapi_meta buf)\<rparr>"

text \<open>
  \<^verbatim>\<open>append_output_buffer_metadata\<close> (lines 466-491); \<open>copy_timestamps\<close> says whether the
  \<^verbatim>\<open>flags\<close> argument holds \<^verbatim>\<open>GST_BUFFER_COPY_TIMESTAMPS\<close>.
\<close>

definition append_output_buffer_metadata ::
  "frame_env \<Rightarrow> GstBuffer \<Rightarrow> GstBuffer \<Rightarrow> bool \<Rightarrow> bool \<times> GstBuffer" where
  "append_output_buffer_metadata env outbuf inbuf copy_timestamps =
     (let ob = env_copy_metadata env inbuf (gst_buffer_copy_into outbuf inbuf True copy_timestamps)
      in case buf_vaapi_meta inbuf of
           None \<Rightarrow> (False, ob)
         | Some inbuf_meta \<Rightarrow>
             (case buf_vaapi_meta ob of
                None \<Rightarrow> (False, ob)
              | Some outbuf_meta \<Rightarrow>
                  (case Option.bind (meta_surface inbuf_meta) (env_proxy_copy env) of
                     None \<Rightarrow> (False, ob)
                   | Some proxy \<Rightarrow>
                       (True, ob\<lparr>buf_vaapi_meta := Some (outbuf_meta\<lparr>meta_surface := Some proxy\<rparr>)\<rparr>))))"

text \<open>\<^verbatim>\<open>replace_to_dumb_buffer_if_required\<close> (lines 765-788): the field buffer afterwards.\<close>

definition replace_to_dumb_buffer_if_required :: "frame_env \<Rightarrow> GstBuffer \<Rightarrow> GstBuffer option" where
  "replace_to_dumb_buffer_if_required env fieldbuf =
     (if \<not> env_copy_output_frame env then Some fieldbuf
      else case env_create_dump_buffer env of
             None \<Rightarrow> None
           | Some newbuf \<Rightarrow> env_copy_va_buffer env fieldbuf newbuf)"

text \<open>
  The surface proxy check of lines 934-942 and 1001-1009: a meta without a proxy gets one
  from the pool; \<open>None\<close> is \<^verbatim>\<open>error_create_proxy\<close>.
\<close>

definition ensure_surface_proxy ::
  "GstVaapiVideoMeta \<Rightarrow> GstVaapiSurface option \<Rightarrow> GstVaapiVideoMeta option" where
  "ensure_surface_proxy m from_pool =
     (case meta_surface m of
        Some _ \<Rightarrow> Some m
      | None \<Rightarrow> (case from_pool of
                   None \<Rightarrow> None
                 | Some proxy \<Rightarrow> Some (m\<lparr>meta_surface := Some proxy\<rparr>)))"

subsection \<open>The basic path\<close>

text \<open>\<^verbatim>\<open>gst_vaapipostprocess_process\<close> (lines 1106-1191).\<close>

definition gst_vaapipostprocess_process ::
  "picture_structure_bits \<Rightarrow> GstVaapiPostprocess \<Rightarrow> frame_env \<Rightarrow> GstBuffer \<Rightarrow> GstBuffer \<Rightarrow>
   proc_result" where
  "gst_vaapipostprocess_process ps postprocess env inbuf outbuf =
     (let fail = (\<lambda>r pushed. \<lparr>res_ret = r, res_postprocess = postprocess, res_calls = [],
                               res_pushed = pushed, res_outbuf = outbuf\<rparr>)
      in case buf_vaapi_meta inbuf of
        None \<Rightarrow> fail GST_FLOW_ERROR []
      | Some meta \<Rightarrow>
         (let timestamp = buf_timestamp inbuf;
              tff = buf_flag_tff inbuf;
              deint = should_deinterlace_buffer postprocess inbuf;
              rflags = meta_render_flags meta AND NOT (PICTURE_STRUCTURE_MASK ps)
          in case env_create_field_buffer env of
            None \<Rightarrow> fail GST_FLOW_EOS []
          | Some fb0 \<Rightarrow>
             (let fb1 = snd (append_output_buffer_metadata env fb0 inbuf False);
                  fieldbuf_flags = rflags OR
                    (if deint then (if tff then PICTURE_STRUCTURE_TOP_FIELD ps
                                    else PICTURE_STRUCTURE_BOTTOM_FIELD ps)
                     else PICTURE_STRUCTURE_FRAME ps);
                  fb2 = (buffer_set_render_flags fb1 fieldbuf_flags)
                          \<lparr>buf_timestamp := timestamp, buf_duration := field_duration postprocess\<rparr>
              in case replace_to_dumb_buffer_if_required env fb2 of
                None \<Rightarrow> fail GST_FLOW_ERROR []
              | Some fieldbuf \<Rightarrow>
                 (if env_pad_push env fieldbuf \<noteq> GST_FLOW_OK
                  then fail (env_pad_push env fieldbuf) [fieldbuf]
                  else
                   (let ob1 = snd (append_output_buffer_metadata env outbuf inbuf False);
                        outbuf_flags = rflags OR
                          (if deint then (if tff then PICTURE_STRUCTURE_BOTTOM_FIELD ps
                                          else PICTURE_STRUCTURE_TOP_FIELD ps)
                           else PICTURE_STRUCTURE_FRAME ps);
                        ob2 = (buffer_set_render_flags ob1 outbuf_flags)
                                \<lparr>buf_timestamp := timestamp + field_duration postprocess,
                                 buf_duration := field_duration postprocess\<rparr>
                    in \<lparr>res_ret = GST_FLOW_OK, res_postprocess = postprocess, res_calls = [],
                        res_pushed = [fieldbuf], res_outbuf = ob2\<rparr>)))))"

subsection \<open>The passthrough path\<close>

text \<open>\<^verbatim>\<open>gst_vaapipostprocess_passthrough\<close> (lines 1193-1215).\<close>

definition gst_vaapipostprocess_passthrough ::
  "GstVaapiPostprocess \<Rightarrow> frame_env \<Rightarrow> GstBuffer \<Rightarrow> GstBuffer \<Rightarrow> proc_result" where
  "gst_vaapipostprocess_passthrough postprocess env inbuf outbuf =
     (case buf_vaapi_meta inbuf of
        None \<Rightarrow> \<lparr>res_ret = GST_FLOW_ERROR, res_postprocess = postprocess, res_calls = [],
                  res_pushed = [], res_outbuf = outbuf\<rparr>
      | Some meta \<Rightarrow>
          \<lparr>res_ret = GST_FLOW_OK, res_postprocess = postprocess, res_calls = [],
           res_pushed = [],
           res_outbuf = snd (append_output_buffer_metadata env outbuf inbuf True)\<rparr>)"


subsection \<open>The hardware path\<close>

text \<open>\<^verbatim>\<open>use_vpp_crop\<close> (lines 790-795).\<close>

definition use_vpp_crop :: "GstVaapiPostprocess \<Rightarrow> bool" where
  "use_vpp_crop postprocess =
     (\<not> (forward_crop postprocess \<and> GST_VAAPI_POSTPROCESS_FLAG_CROP \<notin> flags postprocess))"

text \<open>The crop rectangle of lines 874-892; \<open>None\<close> is a \<^verbatim>\<open>NULL\<close> render rectangle.\<close>

definition vpp_crop_rect ::
  "GstVaapiPostprocess \<Rightarrow> GstBuffer \<Rightarrow> GstVaapiVideoMeta \<Rightarrow> GstVaapiRectangle option" where
  "vpp_crop_rect postprocess inbuf inbuf_meta =
     (if use_vpp_crop postprocess then
        (let r = \<lparr>rect_x = crop_left postprocess,
                  rect_y = crop_top postprocess,
                  rect_width = vi_width (sinkpad_info postprocess)
                                 - (crop_left postprocess + crop_right postprocess),
                  rect_height = vi_height (sinkpad_info postprocess)
                                 - (crop_top postprocess + crop_bottom postprocess)\<rparr>
         in Some (case buf_crop_meta inbuf of
                    None \<Rightarrow> r
                  | Some crop_meta \<Rightarrow> r\<lparr>rect_x := rect_x r + crop_x crop_meta,
                                         rect_y := rect_y r + crop_y crop_meta\<rparr>))
      else meta_render_rect inbuf_meta)"

text \<open>
  Lines 899-919: the references are dropped when the deinterlacing decision changed, or
  when \<^verbatim>\<open>ds->num_surfaces > 0\<close> and the field order changed; then the decision and the field
  order of this frame are stored. The block guarded by \<^verbatim>\<open>deint_refs && 0\<close> never runs.
\<close>

definition vpp_drop_references ::
  "GstVaapiDeinterlaceStateEss \<Rightarrow> bool \<Rightarrow> bool \<Rightarrow> GstVaapiDeinterlaceStateEss" where
  "vpp_drop_references ds deint tff =
     (let deint_changed = (deint \<noteq> ds_deint ds);
          ds1 = (if deint_changed \<or> (0 < ds_num_surfaces ds \<and> tff \<noteq> ds_tff ds)
                 then ds_reset ds else ds)
      in ds1\<lparr>ds_deint := deint, ds_tff := tff\<rparr>)"

text \<open>
  The deinterlacing set-up of the first field (lines 944-970). It returns whether it
  succeeded (\<open>False\<close> is \<^verbatim>\<open>error_op_deinterlace\<close>), the element, the filter calls, and the
  locals \<^verbatim>\<open>deint_method\<close> and \<^verbatim>\<open>deint_refs\<close>.
\<close>

definition vpp_first_field_deint ::
  "GstVaapiPostprocess \<Rightarrow> GstVaapiFilter \<Rightarrow> bool \<Rightarrow> bool \<Rightarrow> bool \<Rightarrow>
   bool \<times> GstVaapiPostprocess \<times> filter_call list \<times> GstVaapiDeinterlaceMethod \<times> bool" where
  "vpp_first_field_deint postprocess flt deint deint_changed tff =
     (let deint_method = deinterlace_method postprocess;
          deint_refs = deint_method_is_advanced deint_method
      in if deint then
           (let deint_flags = (if tff then {GST_VAAPI_DEINTERLACE_FLAG_TOPFIELD} else {})
                                \<union> (if tff then {GST_VAAPI_DEINTERLACE_FLAG_TFF} else {})
            in case set_best_deint_method postprocess flt deint_flags of
                 (success, m, calls) \<Rightarrow>
                   if \<not> success then (False, postprocess, calls, m, deint_refs)
                   else
                    (let p1 = (if m \<noteq> deinterlace_method postprocess
                               then postprocess\<lparr>deinterlace_method := m\<rparr> else postprocess);
                         refs1 = (if m \<noteq> deinterlace_method postprocess
                                  then deint_method_is_advanced m else deint_refs)
                     in if refs1 then
                          (let p2 = p1\<lparr>deinterlace_state := ds_set_surfaces (deinterlace_state p1)\<rparr>;
                               c = Set_deinterlacing_references (ds_references (deinterlace_state p2))
                           in (accepts flt c, p2, calls @ [c], m, refs1))
                        else (True, p1, calls, m, refs1)))
         else if deint_changed then
           (accepts flt (Set_deinterlacing GST_VAAPI_DEINTERLACE_METHOD_NONE {}), postprocess,
            [Set_deinterlacing GST_VAAPI_DEINTERLACE_METHOD_NONE {}],
            GST_VAAPI_DEINTERLACE_METHOD_NONE, deint_refs)
         else (True, postprocess, [], deint_method, deint_refs))"

text \<open>The deinterlacing set-up of the second field (lines 1011-1026).\<close>

definition vpp_second_field_deint ::
  "GstVaapiPostprocess \<Rightarrow> GstVaapiFilter \<Rightarrow> bool \<Rightarrow> bool \<Rightarrow> bool \<Rightarrow>
   GstVaapiDeinterlaceMethod \<Rightarrow> bool \<Rightarrow> bool \<times> filter_call list" where
  "vpp_second_field_deint postprocess flt deint deint_changed tff deint_method deint_refs =
     (if deint then
        (let deint_flags = (if tff then {} else {GST_VAAPI_DEINTERLACE_FLAG_TOPFIELD})
                             \<union> (if tff then {GST_VAAPI_DEINTERLACE_FLAG_TFF} else {});
             c1 = Set_deinterlacing deint_method deint_flags;
             c2 = Set_deinterlacing_references (ds_references (deinterlace_state postprocess))
         in if \<not> accepts flt c1 then (False, [c1])
            else if deint_refs then (accepts flt c2, [c1, c2])
            else (True, [c1]))
      else if deint_changed then
        (accepts flt (Set_deinterlacing deint_method {}), [Set_deinterlacing deint_method {}])
      else (True, []))"

text \<open>
  The first field (lines 924-994). \<open>Inl\<close> is a return through one of the error labels;
  \<open>Inr\<close> carries on with the element, the calls, the pushed buffers and the two locals.
\<close>

definition vpp_first_field ::
  "GstVaapiPostprocess \<Rightarrow> GstVaapiFilter \<Rightarrow> frame_env \<Rightarrow> GstBuffer \<Rightarrow> GstBuffer \<Rightarrow>
   GstVaapiSurface option \<Rightarrow> GstVaapiRectangle option \<Rightarrow> guint \<Rightarrow> bool \<Rightarrow> bool \<Rightarrow>
   proc_result +
   (GstVaapiPostprocess \<times> filter_call list \<times> GstBuffer list \<times> GstVaapiDeinterlaceMethod \<times> bool)" where
  "vpp_first_field postprocess flt env inbuf outbuf inbuf_surface crop_rect rflags deint deint_changed =
     (let fail = (\<lambda>r p calls pushed. Inl \<lparr>res_ret = r, res_postprocess = p, res_calls = calls,
                                          res_pushed = pushed, res_outbuf = outbuf\<rparr>)
      in if GST_VAAPI_POSTPROCESS_FLAG_DEINTERLACE \<notin> flags postprocess
         then Inr (postprocess, [], [], deinterlace_method postprocess,
                   deint_method_is_advanced (deinterlace_method postprocess))
         else case env_create_field_buffer env of
           None \<Rightarrow> fail GST_FLOW_ERROR postprocess [] []
         | Some fb \<Rightarrow>
           (case buf_vaapi_meta fb of
              None \<Rightarrow> fail GST_FLOW_ERROR postprocess [] []
            | Some m0 \<Rightarrow>
              (case ensure_surface_proxy m0 (env_pool_surface_field env) of
                 None \<Rightarrow> fail GST_FLOW_ERROR postprocess [] []
               | Some outbuf_meta \<Rightarrow>
                 (case vpp_first_field_deint postprocess flt deint deint_changed (buf_flag_tff inbuf) of
                    (ok, p1, calls, deint_method, deint_refs) \<Rightarrow>
                      if \<not> ok then fail GST_FLOW_NOT_SUPPORTED p1 calls []
                      else
                       (let calls2 = calls @ [Set_cropping_rectangle crop_rect,
                                              Process inbuf_surface (meta_surface outbuf_meta) rflags]
                        in if process_status flt inbuf_surface (meta_surface outbuf_meta) rflags
                                \<noteq> GST_VAAPI_FILTER_STATUS_SUCCESS
                           then fail GST_FLOW_ERROR p1 calls2 []
                           else
                            (let fb1 = env_copy_metadata env inbuf (fb\<lparr>buf_vaapi_meta := Some outbuf_meta\<rparr>);
                                 fb2 = fb1\<lparr>buf_timestamp := buf_timestamp inbuf,
                                           buf_duration := field_duration p1\<rparr>;
                                 fb3 = (if buf_flag_discont inbuf
                                        then fb2\<lparr>buf_flag_discont := True\<rparr> else fb2)
                             in case replace_to_dumb_buffer_if_required env fb3 of
                                  None \<Rightarrow> fail GST_FLOW_ERROR p1 calls2 []
                                | Some fieldbuf \<Rightarrow>
                                    if env_pad_push env fieldbuf \<noteq> GST_FLOW_OK
                                    then fail (env_pad_push env fieldbuf) p1 calls2 [fieldbuf]
                                    else Inr (p1, calls2, [fieldbuf], deint_method, deint_refs)))))))"

text \<open>The second field and the end of the function (lines 996-1054).\<close>

definition vpp_second_field ::
  "GstVaapiPostprocess \<Rightarrow> GstVaapiFilter \<Rightarrow> frame_env \<Rightarrow> GstBuffer \<Rightarrow> GstBuffer \<Rightarrow>
   GstVaapiSurface option \<Rightarrow> GstVaapiRectangle option \<Rightarrow> guint \<Rightarrow> bool \<Rightarrow> bool \<Rightarrow>
   filter_call list \<Rightarrow> GstBuffer list \<Rightarrow> GstVaapiDeinterlaceMethod \<Rightarrow> bool \<Rightarrow> proc_result" where
  "vpp_second_field postprocess flt env inbuf outbuf inbuf_surface crop_rect rflags deint deint_changed
       calls pushed deint_method deint_refs =
     (let fail = (\<lambda>r cs ob. \<lparr>res_ret = r, res_postprocess = postprocess, res_calls = cs,
                             res_pushed = pushed, res_outbuf = ob\<rparr>)
      in case buf_vaapi_meta outbuf of
        None \<Rightarrow> fail GST_FLOW_ERROR calls outbuf
      | Some m0 \<Rightarrow>
        (case ensure_surface_proxy m0 (env_pool_surface_out env) of
           None \<Rightarrow> fail GST_FLOW_ERROR calls outbuf
         | Some outbuf_meta \<Rightarrow>
           (let ob = outbuf\<lparr>buf_vaapi_meta := Some outbuf_meta\<rparr>
            in case vpp_second_field_deint postprocess flt deint deint_changed (buf_flag_tff inbuf)
                      deint_method deint_refs of
              (ok, dcalls) \<Rightarrow>
                if \<not> ok then fail GST_FLOW_NOT_SUPPORTED (calls @ dcalls) ob
                else
                 (let calls2 = calls @ dcalls @
                                 [Set_cropping_rectangle crop_rect,
                                  Process inbuf_surface (meta_surface outbuf_meta) rflags]
                  in if process_status flt inbuf_surface (meta_surface outbuf_meta) rflags
                          \<noteq> GST_VAAPI_FILTER_STATUS_SUCCESS
                     then fail GST_FLOW_ERROR calls2 ob
                     else
                      (let ob1 = (if GST_VAAPI_POSTPROCESS_FLAG_DEINTERLACE \<notin> flags postprocess
                                  then gst_buffer_copy_into ob inbuf False True
                                  else ob\<lparr>buf_timestamp := buf_timestamp inbuf + field_duration postprocess,
                                          buf_duration := field_duration postprocess\<rparr>);
                           ob2 = env_copy_metadata env inbuf ob1;
                           ob3 = ob2\<lparr>buf_crop_meta :=
                                   rotate_crop_meta postprocess (video_direction_now flt)
                                     (buf_video_meta inbuf) (buf_crop_meta ob2)\<rparr>;
                           p1 = (if deint \<and> deint_refs
                                 then postprocess\<lparr>deinterlace_state :=
                                        ds_add_buffer (deinterlace_state postprocess) inbuf\<rparr>
                                 else postprocess)
                       in \<lparr>res_ret = GST_FLOW_OK, res_postprocess = p1\<lparr>use_vpp := True\<rparr>,
                           res_calls = calls2, res_pushed = pushed, res_outbuf = ob3\<rparr>)))))"

text \<open>\<^verbatim>\<open>gst_vaapipostprocess_process_vpp\<close> (lines 849-1104).\<close>

definition gst_vaapipostprocess_process_vpp ::
  "picture_structure_bits \<Rightarrow> GstVaapiPostprocess \<Rightarrow> GstVaapiFilter \<Rightarrow> frame_env \<Rightarrow>
   GstBuffer \<Rightarrow> GstBuffer \<Rightarrow> proc_result" where
  "gst_vaapipostprocess_process_vpp ps postprocess flt env inbuf outbuf =
     (case buf_vaapi_meta inbuf of
        None \<Rightarrow> \<lparr>res_ret = GST_FLOW_ERROR, res_postprocess = postprocess, res_calls = [],
                  res_pushed = [], res_outbuf = outbuf\<rparr>
      | Some inbuf_meta \<Rightarrow>
         (let inbuf_surface = meta_surface inbuf_meta;
              crop_rect = vpp_crop_rect postprocess inbuf inbuf_meta;
              deint = should_deinterlace_buffer postprocess inbuf;
              deint_changed = (deint \<noteq> ds_deint (deinterlace_state postprocess));
              p0 = postprocess\<lparr>deinterlace_state :=
                     vpp_drop_references (deinterlace_state postprocess) deint (buf_flag_tff inbuf)\<rparr>;
              rflags = meta_render_flags inbuf_meta AND NOT (PICTURE_STRUCTURE_MASK ps)
          in case vpp_first_field p0 flt env inbuf outbuf inbuf_surface crop_rect rflags
                    deint deint_changed of
               Inl r \<Rightarrow> r
             | Inr (p1, calls, pushed, deint_method, deint_refs) \<Rightarrow>
                 vpp_second_field p1 flt env inbuf outbuf inbuf_surface crop_rect rflags
                   deint deint_changed calls pushed deint_method deint_refs))"


subsection \<open>The transform function\<close>

datatype frame_path = PATH_VPP | PATH_BASIC | PATH_PASSTHROUGH

record transform_result = proc_result +
  res_paths :: "frame_path list"

definition with_paths :: "proc_result \<Rightarrow> frame_path list \<Rightarrow> transform_result" where
  "with_paths r paths =
     \<lparr>res_ret = res_ret r, res_postprocess = res_postprocess r, res_calls = res_calls r,
      res_pushed = res_pushed r, res_outbuf = res_outbuf r, res_paths = paths\<rparr>"

text \<open>
  Lines 1559-1578 of \<^verbatim>\<open>gst_vaapipostprocess_transform\<close>: the choice among the three paths,
  up to the label \<^verbatim>\<open>done\<close>. \<open>res_paths\<close> lists the path functions that were called, in
  order. A later path starts from what the earlier one left: the element, and the calls and
  pushed buffers so far.
\<close>

definition transform_fallback ::
  "GstVaapiPostprocess \<Rightarrow> frame_env \<Rightarrow> GstBuffer \<Rightarrow> GstBuffer \<Rightarrow>
   filter_call list \<Rightarrow> GstBuffer list \<Rightarrow> frame_path list \<Rightarrow> transform_result" where
  "transform_fallback postprocess env buf outbuf calls pushed paths =
     (let r = gst_vaapipostprocess_passthrough postprocess env buf outbuf
      in with_paths (r\<lparr>res_calls := calls, res_pushed := pushed @ res_pushed r\<rparr>)
           (paths @ [PATH_PASSTHROUGH]))"

definition transform_basic ::
  "picture_structure_bits \<Rightarrow> GstVaapiPostprocess \<Rightarrow> frame_env \<Rightarrow> GstBuffer \<Rightarrow> GstBuffer \<Rightarrow>
   filter_call list \<Rightarrow> GstBuffer list \<Rightarrow> frame_path list \<Rightarrow> transform_result" where
  "transform_basic ps postprocess env buf outbuf calls pushed paths =
     (if GST_VAAPI_POSTPROCESS_FLAG_DEINTERLACE \<in> flags postprocess then
        (let r = gst_vaapipostprocess_process ps postprocess env buf outbuf
         in if res_ret r \<noteq> GST_FLOW_NOT_SUPPORTED
            then with_paths (r\<lparr>res_calls := calls, res_pushed := pushed @ res_pushed r\<rparr>)
                   (paths @ [PATH_BASIC])
            else transform_fallback (res_postprocess r) env buf (res_outbuf r) calls
                   (pushed @ res_pushed r) (paths @ [PATH_BASIC]))
      else transform_fallback postprocess env buf outbuf calls pushed paths)"

definition transform_paths ::
  "picture_structure_bits \<Rightarrow> GstVaapiPostprocess \<Rightarrow> GstVaapiFilter \<Rightarrow> frame_env \<Rightarrow>
   GstBuffer \<Rightarrow> GstBuffer \<Rightarrow> transform_result" where
  "transform_paths ps postprocess flt env buf outbuf =
     (if flags postprocess \<noteq> {} then
        (if has_vpp postprocess then
           (let r = gst_vaapipostprocess_process_vpp ps postprocess flt env buf outbuf
            in if res_ret r \<noteq> GST_FLOW_NOT_SUPPORTED
               then with_paths r [PATH_VPP]
               else transform_basic ps (res_postprocess r) env buf (res_outbuf r)
                      (res_calls r) (res_pushed r) [PATH_VPP])
         else transform_basic ps postprocess env buf outbuf [] [] [])
      else transform_fallback postprocess env buf outbuf [] [] [])"

text \<open>
  \<^verbatim>\<open>gst_vaapipostprocess_transform\<close> (lines 1536-1592): the input buffer is fetched, a VA
  buffer stands in for the output buffer when the output frame has to be copied, one of
  the paths runs, and the VA buffer is copied into the output buffer at the end.
\<close>

definition gst_vaapipostprocess_transform ::
  "picture_structure_bits \<Rightarrow> GstVaapiPostprocess \<Rightarrow> GstVaapiFilter \<Rightarrow> frame_env \<Rightarrow>
   GstBuffer \<Rightarrow> GstBuffer \<Rightarrow> transform_result" where
  "gst_vaapipostprocess_transform ps postprocess flt env inbuf outbuf =
     (let stop = (\<lambda>r. \<lparr>res_ret = r, res_postprocess = postprocess, res_calls = [],
                        res_pushed = [], res_outbuf = outbuf, res_paths = []\<rparr>)
      in case env_get_input_buffer env inbuf of
        None \<Rightarrow> stop GST_FLOW_ERROR
      | Some buf \<Rightarrow>
          if env_copy_output_frame env then
            (case env_create_va_buffer env of
               None \<Rightarrow> stop GST_FLOW_ERROR
             | Some va_buf \<Rightarrow>
                 (let r = transform_paths ps postprocess flt env buf va_buf
                  in case env_copy_va_buffer env (res_outbuf r) outbuf of
                       None \<Rightarrow> r\<lparr>res_ret := GST_FLOW_ERROR, res_outbuf := outbuf\<rparr>
                     | Some sys_buf \<Rightarrow> r\<lparr>res_outbuf := sys_buf\<rparr>))
          else transform_paths ps postprocess flt env buf outbuf)"

section \<open>Caps negotiation\<close>

text \<open>
  A \<^verbatim>\<open>GstCaps\<close> as the element reads it: what \<^verbatim>\<open>gst_video_info_from_caps\<close> makes of it
  (\<open>None\<close> when it fails), whether it has the VA surface feature
  (\<^verbatim>\<open>gst_caps_has_vaapi_surface\<close>), whether it carries mastering display information, and
  whatever else tells two caps apart.
\<close>

record GstCaps =
  caps_video_info :: "GstVideoInfo option"
  caps_has_vaapi_surface :: bool
  caps_has_mastering_info :: bool
  caps_rest :: nat

text \<open>
  What the negotiation gets from outside the file:
  \<^item> \<open>cenv_is_deinterlace_enabled\<close>: \<^verbatim>\<open>is_deinterlace_enabled\<close>, defined in another file;
  \<^item> \<open>cenv_default_format\<close>: the macro \<^verbatim>\<open>DEFAULT_FORMAT\<close>;
  \<^item> \<open>cenv_op_flags\<close>: the flags whose bits \<^verbatim>\<open>check_filter_update\<close> walks over, from
    \<^verbatim>\<open>GST_VAAPI_FILTER_OP_DENOISE\<close> to \<^verbatim>\<open>GST_VAAPI_FILTER_OP_SKINTONE_LEVEL\<close>;
  \<^item> \<open>cenv_plugin_open\<close>, \<open>cenv_ensure_display\<close>, \<open>cenv_filter_new\<close>, \<open>cenv_plugin_set_caps\<close>,
    \<open>cenv_surface_pool_new\<close>: whether \<^verbatim>\<open>gst_vaapi_plugin_base_open\<close>,
    \<^verbatim>\<open>gst_vaapi_plugin_base_ensure_display\<close>, \<^verbatim>\<open>gst_vaapi_filter_new\<close>,
    \<^verbatim>\<open>gst_vaapi_plugin_base_set_caps\<close> and \<^verbatim>\<open>gst_vaapi_surface_pool_new_full\<close> succeed;
  \<^item> \<open>cenv_sinkpad_colorimetry\<close>, \<open>cenv_srcpad_colorimetry\<close>, \<open>cenv_sinkpad_caps\<close>: the
    colorimetry of the pad infos and the sink pad caps that the plugin base class holds.
\<close>

record caps_env =
  cenv_is_deinterlace_enabled :: "GstVaapiPostprocess \<Rightarrow> GstVideoInfo \<Rightarrow> bool"
  cenv_default_format :: GstVideoFormat
  cenv_op_flags :: "GstVaapiPostprocessFlags set"
  cenv_plugin_open :: bool
  cenv_ensure_display :: bool
  cenv_filter_new :: bool
  cenv_plugin_set_caps :: bool
  cenv_surface_pool_new :: bool
  cenv_sinkpad_colorimetry :: nat
  cenv_srcpad_colorimetry :: nat
  cenv_sinkpad_caps :: GstCaps

text \<open>What happens to the filter binding during a negotiation step.\<close>

datatype binding_event = FILTER_DESTROYED | FILTER_CREATED | POOL_CREATED


text \<open>\<^verbatim>\<open>native_formats\<close> (lines 105-106) and \<^verbatim>\<open>is_native_video_format\<close> (lines 1688-1696).\<close>

definition native_formats :: "GstVideoFormat list" where
  "native_formats = [GST_VIDEO_FORMAT_NV12, GST_VIDEO_FORMAT_YV12, GST_VIDEO_FORMAT_I420]"

definition is_native_video_format :: "GstVideoFormat \<Rightarrow> bool" where
  "is_native_video_format fmt = (fmt \<in> set native_formats)"

text \<open>
  Modelled from the spec: \<^verbatim>\<open>gst_video_info_changed\<close> is defined in another file of the
  plugin. The spec says a negotiated format changes when its pixel format or its size
  changes (the interlace mode is compared by \<^verbatim>\<open>video_info_changed\<close> below).
\<close>

definition gst_video_info_changed :: "GstVideoInfo \<Rightarrow> GstVideoInfo \<Rightarrow> bool" where
  "gst_video_info_changed old new =
     (vi_format old \<noteq> vi_format new \<or> vi_width old \<noteq> vi_width new
      \<or> vi_height old \<noteq> vi_height new)"

text \<open>\<^verbatim>\<open>video_info_changed\<close> (lines 1217-1226).\<close>

definition video_info_changed :: "GstVideoInfo \<Rightarrow> GstVideoInfo \<Rightarrow> bool" where
  "video_info_changed old_vip new_vip =
     (if gst_video_info_changed old_vip new_vip then True
      else if vi_interlace_mode old_vip \<noteq> vi_interlace_mode new_vip then True
      else False)"

text \<open>
  \<^verbatim>\<open>video_info_update\<close> (lines 1228-1244): \<open>None\<close> when the caps cannot be parsed, otherwise
  \<^verbatim>\<open>*caps_changed_ptr\<close> and the video info afterwards.
\<close>

definition video_info_update :: "GstCaps \<Rightarrow> GstVideoInfo \<Rightarrow> (bool \<times> GstVideoInfo) option" where
  "video_info_update caps info =
     (case caps_video_info caps of
        None \<Rightarrow> None
      | Some vi \<Rightarrow> if video_info_changed info vi then Some (True, vi) else Some (False, info))"

text \<open>
  \<^verbatim>\<open>GST_SECOND\<close> and \<^verbatim>\<open>gst_util_uint64_scale (val, num, denom)\<close> of GStreamer: \<^verbatim>\<open>val * num / denom\<close>
  rounded down, computed without intermediate overflow; \<^verbatim>\<open>G_MAXUINT64\<close> when the result
  does not fit or \<^verbatim>\<open>denom\<close> is zero.
\<close>

definition GST_SECOND :: GstClockTime where
  "GST_SECOND = 1000000000"

definition gst_util_uint64_scale :: "64 word \<Rightarrow> 64 word \<Rightarrow> 64 word \<Rightarrow> 64 word" where
  "gst_util_uint64_scale val num denom =
     (if denom = 0 then - 1
      else if unat val * unat num div unat denom < 2 ^ 64
           then word_of_nat (unat val * unat num div unat denom)
           else - 1)"

text \<open>
  The product of two \<^verbatim>\<open>gint\<close>: the low 32 bits of the exact product, read in two's
  complement.
\<close>

definition gint_mult :: "int \<Rightarrow> int \<Rightarrow> int" where
  "gint_mult a b = signed_take_bit 31 (a * b)"

text \<open>
  The field duration of lines 1262-1264. The product \<^verbatim>\<open>(1 + deinterlace) * fps_n\<close> is a
  \<^verbatim>\<open>gint\<close> and wraps around as such; it is then converted to \<^verbatim>\<open>guint64\<close> for the call
  (a negative value becomes a large one), as is \<^verbatim>\<open>fps_d\<close>.
\<close>

definition sink_field_duration :: "GstVideoInfo \<Rightarrow> bool \<Rightarrow> GstClockTime" where
  "sink_field_duration vi deinterlace =
     (if 0 < vi_fps_n vi
      then gst_util_uint64_scale GST_SECOND (word_of_int (vi_fps_d vi))
             (word_of_int (gint_mult (1 + (if deinterlace then 1 else 0)) (vi_fps_n vi)))
      else 0)"

text \<open>
  \<^verbatim>\<open>gst_vaapipostprocess_update_sink_caps\<close> (lines 1246-1268): \<open>None\<close> for \<^verbatim>\<open>FALSE\<close>, otherwise
  \<^verbatim>\<open>*caps_changed_ptr\<close> and the element afterwards.
\<close>

definition gst_vaapipostprocess_update_sink_caps ::
  "caps_env \<Rightarrow> GstVaapiPostprocess \<Rightarrow> GstCaps \<Rightarrow> (bool \<times> GstVaapiPostprocess) option" where
  "gst_vaapipostprocess_update_sink_caps cenv postprocess caps =
     (case video_info_update caps (sinkpad_info postprocess) of
        None \<Rightarrow> None
      | Some (caps_changed, info) \<Rightarrow>
          (let p1 = postprocess\<lparr>sinkpad_info := info\<rparr>;
               vi = sinkpad_info p1;
               deinterlace = cenv_is_deinterlace_enabled cenv p1 vi;
               p2 = (if deinterlace
                     then p1\<lparr>flags := insert GST_VAAPI_POSTPROCESS_FLAG_DEINTERLACE (flags p1)\<rparr>
                     else p1)
           in Some (caps_changed,
                    p2\<lparr>field_duration := sink_field_duration vi deinterlace,
                       get_va_surfaces := caps_has_vaapi_surface caps\<rparr>)))"

text \<open>\<^verbatim>\<open>gst_vaapipostprocess_update_src_caps\<close> (lines 1270-1290).\<close>

definition gst_vaapipostprocess_update_src_caps ::
  "caps_env \<Rightarrow> GstVaapiPostprocess \<Rightarrow> GstCaps \<Rightarrow> (bool \<times> GstVaapiPostprocess) option" where
  "gst_vaapipostprocess_update_src_caps cenv postprocess caps =
     (case video_info_update caps (srcpad_info postprocess) of
        None \<Rightarrow> None
      | Some (caps_changed, info) \<Rightarrow>
          (let p1 = postprocess\<lparr>srcpad_info := info\<rparr>;
               p2 = (if format p1 \<noteq> vi_format (sinkpad_info p1)
                        \<and> format p1 \<noteq> cenv_default_format cenv
                     then p1\<lparr>flags := insert GST_VAAPI_POSTPROCESS_FLAG_FORMAT (flags p1)\<rparr>
                     else p1);
               p3 = (if vi_width (srcpad_info p2) \<noteq> vi_width (sinkpad_info p2)
                        \<or> vi_height (srcpad_info p2) \<noteq> vi_height (sinkpad_info p2)
                     then p2\<lparr>flags := insert GST_VAAPI_POSTPROCESS_FLAG_SIZE (flags p2)\<rparr>
                     else p2)
           in Some (caps_changed, p3)))"

text \<open>\<^verbatim>\<open>gst_vaapipostprocess_ensure_filter\<close> (lines 258-275).\<close>

definition gst_vaapipostprocess_ensure_filter ::
  "caps_env \<Rightarrow> GstVaapiPostprocess \<Rightarrow> bool \<times> GstVaapiPostprocess \<times> binding_event list" where
  "gst_vaapipostprocess_ensure_filter cenv postprocess =
     (if have_filter postprocess then (True, postprocess, [])
      else if \<not> cenv_ensure_display cenv then (False, postprocess, [])
      else if \<not> cenv_filter_new cenv then (False, postprocess, [])
      else (True, postprocess\<lparr>have_filter := True\<rparr>, [FILTER_CREATED]))"

text \<open>\<^verbatim>\<open>gst_vaapipostprocess_create\<close> (lines 297-308).\<close>

definition gst_vaapipostprocess_create ::
  "caps_env \<Rightarrow> GstVaapiPostprocess \<Rightarrow> bool \<times> GstVaapiPostprocess \<times> binding_event list" where
  "gst_vaapipostprocess_create cenv postprocess =
     (if \<not> cenv_plugin_open cenv then (False, postprocess, [])
      else if \<not> cenv_ensure_display cenv then (False, postprocess, [])
      else (case gst_vaapipostprocess_ensure_filter cenv (postprocess\<lparr>use_vpp := False\<rparr>) of
              (ok, p1, events) \<Rightarrow> (True, p1\<lparr>has_vpp := ok\<rparr>, events)))"

text \<open>
  \<^verbatim>\<open>gst_vaapipostprocess_destroy\<close> with \<^verbatim>\<open>gst_vaapipostprocess_destroy_filter\<close>
  (lines 310-339).
\<close>

definition gst_vaapipostprocess_destroy :: "GstVaapiPostprocess \<Rightarrow> GstVaapiPostprocess" where
  "gst_vaapipostprocess_destroy postprocess =
     postprocess\<lparr>deinterlace_state := ds_reset (deinterlace_state postprocess),
                 have_filter_formats := False,
                 have_filter_ops := False,
                 have_filter := False,
                 have_filter_pool := False\<rparr>"

text \<open>\<^verbatim>\<open>should_hdr_tone_map\<close> (lines 543-559) and \<^verbatim>\<open>configure_hdr_tone_map\<close> (lines 561-596).\<close>

definition should_hdr_tone_map :: "GstVaapiPostprocess \<Rightarrow> GstCaps \<Rightarrow> bool" where
  "should_hdr_tone_map postprocess caps =
     (case hdr_tone_map postprocess of
        GST_VAAPI_HDR_TONE_MAP_AUTO \<Rightarrow> caps_has_mastering_info caps
      | GST_VAAPI_HDR_TONE_MAP_DISABLED \<Rightarrow> False)"

definition configure_hdr_tone_map ::
  "GstVaapiPostprocess \<Rightarrow> GstVaapiFilter \<Rightarrow> GstCaps \<Rightarrow>
   bool \<times> GstVaapiPostprocess \<times> filter_call list" where
  "configure_hdr_tone_map postprocess flt caps =
     (let off = postprocess\<lparr>flags := flags postprocess - {GST_VAAPI_POSTPROCESS_FLAG_HDR_TONE_MAP}\<rparr>;
          enable = should_hdr_tone_map postprocess caps
      in if \<not> has_vpp postprocess then (False, postprocess, [])
         else if \<not> accepts flt (Set_hdr_tone_map enable) then (False, off, [Set_hdr_tone_map enable])
         else if enable then
           (if \<not> accepts flt Set_hdr_tone_map_meta
            then (False, off, [Set_hdr_tone_map enable, Set_hdr_tone_map_meta])
            else (True,
                  postprocess\<lparr>flags := insert GST_VAAPI_POSTPROCESS_FLAG_HDR_TONE_MAP (flags postprocess)\<rparr>,
                  [Set_hdr_tone_map enable, Set_hdr_tone_map_meta]))
         else (True, off, [Set_hdr_tone_map enable]))"

text \<open>\<^verbatim>\<open>check_filter_update\<close> (lines 598-616).\<close>

definition check_filter_update :: "caps_env \<Rightarrow> GstVaapiPostprocess \<Rightarrow> bool" where
  "check_filter_update cenv postprocess =
     (if \<not> has_vpp postprocess then False
      else flags postprocess \<inter> cenv_op_flags cenv \<noteq> {})"

text \<open>\<^verbatim>\<open>gst_vaapipostprocess_set_passthrough\<close> (lines 750-763).\<close>

definition gst_vaapipostprocess_set_passthrough ::
  "caps_env \<Rightarrow> GstVaapiPostprocess \<Rightarrow> GstVaapiFilter \<Rightarrow> GstVaapiPostprocess \<times> filter_call list" where
  "gst_vaapipostprocess_set_passthrough cenv postprocess flt =
     (if check_filter_update cenv postprocess then
        (case update_filter flt postprocess of
           (ok, p1, calls) \<Rightarrow>
             (let filter_updated = (if ok then check_filter_update cenv p1 else False)
              in (p1\<lparr>passthrough := (same_caps p1 \<and> \<not> filter_updated)\<rparr>, calls)))
      else (postprocess\<lparr>passthrough := same_caps postprocess\<rparr>, []))"

text \<open>
  \<^verbatim>\<open>ensure_buffer_pool\<close> (lines 1594-1619) and \<^verbatim>\<open>ensure_srcpad_buffer_pool\<close>
  (lines 1677-1686); \<^verbatim>\<open>gst_video_info_change_format\<close> puts the element's format into the
  video info.
\<close>

definition ensure_buffer_pool ::
  "caps_env \<Rightarrow> GstVaapiPostprocess \<Rightarrow> GstVideoInfo \<Rightarrow>
   bool \<times> GstVaapiPostprocess \<times> binding_event list" where
  "ensure_buffer_pool cenv postprocess vi0 =
     (let vi = vi0\<lparr>vi_format := format postprocess\<rparr>
      in if have_filter_pool postprocess \<and> \<not> video_info_changed (filter_pool_info postprocess) vi
         then (True, postprocess, [])
         else if \<not> cenv_surface_pool_new cenv
              then (False, postprocess\<lparr>filter_pool_info := vi\<rparr>, [])
              else (True, postprocess\<lparr>filter_pool_info := vi, have_filter_pool := True\<rparr>,
                    [POOL_CREATED]))"

definition ensure_srcpad_buffer_pool ::
  "caps_env \<Rightarrow> GstVaapiPostprocess \<Rightarrow> GstCaps \<Rightarrow>
   bool \<times> GstVaapiPostprocess \<times> binding_event list" where
  "ensure_srcpad_buffer_pool cenv postprocess caps =
     (case caps_video_info caps of
        None \<Rightarrow> (False, postprocess, [])
      | Some vi \<Rightarrow> ensure_buffer_pool cenv postprocess vi)"


text \<open>
  \<^verbatim>\<open>gst_vaapipostprocess_set_caps\<close> (lines 1698-1771) in three parts. What it returns: the
  result, the element afterwards, what happened to the filter binding and the filter
  calls made.
\<close>

record caps_result =
  cr_ret :: bool
  cr_postprocess :: GstVaapiPostprocess
  cr_events :: "binding_event list"
  cr_calls :: "filter_call list"

text \<open>Lines 1727-1734: the binding is torn down and rebuilt when either caps changed.\<close>

definition set_caps_rebuild ::
  "caps_env \<Rightarrow> GstVaapiPostprocess \<Rightarrow> bool \<Rightarrow> bool \<times> GstVaapiPostprocess \<times> binding_event list" where
  "set_caps_rebuild cenv postprocess caps_changed =
     (if caps_changed then
        (case gst_vaapipostprocess_create cenv (gst_vaapipostprocess_destroy postprocess) of
           (ok, p1, events) \<Rightarrow>
             if \<not> ok then (False, p1, FILTER_DESTROYED # events)
             else if \<not> cenv_plugin_set_caps cenv then (False, p1, FILTER_DESTROYED # events)
             else (True, p1, FILTER_DESTROYED # events))
      else (True, postprocess, []))"

text \<open>Lines 1736-1749: colorimetry and HDR tone mapping, with VPP only.\<close>

definition set_caps_colorimetry ::
  "caps_env \<Rightarrow> GstVaapiPostprocess \<Rightarrow> GstVaapiFilter \<Rightarrow>
   bool \<times> GstVaapiPostprocess \<times> filter_call list" where
  "set_caps_colorimetry cenv postprocess flt =
     (let c = Set_colorimetry (cenv_sinkpad_colorimetry cenv) (cenv_srcpad_colorimetry cenv)
      in if has_vpp postprocess then
           (if \<not> accepts flt c then (False, postprocess, [c])
            else (case configure_hdr_tone_map postprocess flt (cenv_sinkpad_caps cenv) of
                    (ok, p1, calls) \<Rightarrow> (True, p1, c # calls)))
         else (True, postprocess, []))"

text \<open>Lines 1751-1761: the source pad pool, \<^verbatim>\<open>same_caps\<close> and the passthrough switch.\<close>

definition set_caps_finish ::
  "caps_env \<Rightarrow> GstVaapiPostprocess \<Rightarrow> GstVaapiFilter \<Rightarrow> GstCaps \<Rightarrow> GstCaps \<Rightarrow> bool \<Rightarrow>
   binding_event list \<Rightarrow> filter_call list \<Rightarrow> caps_result" where
  "set_caps_finish cenv postprocess flt caps out_caps src_caps_changed events calls =
     (case ensure_srcpad_buffer_pool cenv postprocess out_caps of
        (ok, p1, pool_events) \<Rightarrow>
          if \<not> ok
          then \<lparr>cr_ret = False, cr_postprocess = p1, cr_events = events @ pool_events,
                cr_calls = calls\<rparr>
          else
           (let p2 = p1\<lparr>same_caps := (caps = out_caps)\<rparr>
            in if \<not> src_caps_changed then
                 (case gst_vaapipostprocess_set_passthrough cenv p2 flt of
                    (p3, pcalls) \<Rightarrow>
                      \<lparr>cr_ret = True, cr_postprocess = p3, cr_events = events @ pool_events,
                       cr_calls = calls @ pcalls\<rparr>)
               else \<lparr>cr_ret = True, cr_postprocess = p2, cr_events = events @ pool_events,
                     cr_calls = calls\<rparr>))"

definition gst_vaapipostprocess_set_caps ::
  "caps_env \<Rightarrow> GstVaapiPostprocess \<Rightarrow> GstVaapiFilter \<Rightarrow> GstCaps \<Rightarrow> GstCaps \<Rightarrow> caps_result" where
  "gst_vaapipostprocess_set_caps cenv postprocess flt caps out_caps =
     (let stop = (\<lambda>p events calls.
                    \<lparr>cr_ret = False, cr_postprocess = p, cr_events = events, cr_calls = calls\<rparr>)
      in case gst_vaapipostprocess_update_sink_caps cenv postprocess caps of
        None \<Rightarrow> stop postprocess [] []
      | Some (sink_caps_changed, p1) \<Rightarrow>
         (case caps_video_info caps of
            None \<Rightarrow> stop p1 [] []
          | Some vinfo \<Rightarrow>
             if deint_method_is_advanced (deinterlace_method p1)
                \<and> \<not> is_native_video_format (vi_format vinfo)
             then stop p1 [] []
             else
              (case gst_vaapipostprocess_update_src_caps cenv p1 out_caps of
                 None \<Rightarrow> stop p1 [] []
               | Some (src_caps_changed, p2) \<Rightarrow>
                  (case set_caps_rebuild cenv p2 (sink_caps_changed \<or> src_caps_changed) of
                     (ok, p3, events) \<Rightarrow>
                       if \<not> ok then stop p3 events []
                       else
                        (case set_caps_colorimetry cenv p3 flt of
                           (ok, p4, calls) \<Rightarrow>
                             if \<not> ok then stop p4 events calls
                             else set_caps_finish cenv p4 flt caps out_caps src_caps_changed
                                    events calls)))))"


section \<open>Reference notions and concrete inputs\<close>

text \<open>
  The degradation order as the specification words it: motion-compensated, then
  motion-adaptive, then bob; any other method is followed by bob.
\<close>

fun deint_ladder :: "GstVaapiDeinterlaceMethod \<Rightarrow> GstVaapiDeinterlaceMethod list" where
  "deint_ladder GST_VAAPI_DEINTERLACE_METHOD_MOTION_COMPENSATED =
     [GST_VAAPI_DEINTERLACE_METHOD_MOTION_COMPENSATED,
      GST_VAAPI_DEINTERLACE_METHOD_MOTION_ADAPTIVE,
      GST_VAAPI_DEINTERLACE_METHOD_BOB]"
| "deint_ladder GST_VAAPI_DEINTERLACE_METHOD_BOB = [GST_VAAPI_DEINTERLACE_METHOD_BOB]"
| "deint_ladder m = [m, GST_VAAPI_DEINTERLACE_METHOD_BOB]"

text \<open>A video meta with width and height exchanged, as after a quarter turn.\<close>

definition swap_dims :: "GstVideoMeta \<Rightarrow> GstVideoMeta" where
  "swap_dims vm = \<lparr>vmeta_width = vmeta_height vm, vmeta_height = vmeta_width vm\<rparr>"

text \<open>A filter that accepts every call, and one whose only deinterlacing method is bob.\<close>

definition accept_all_filter :: GstVaapiFilter where
  "accept_all_filter =
     \<lparr>accepts = (\<lambda>c. True),
      process_status = (\<lambda>src dst rflags. GST_VAAPI_FILTER_STATUS_SUCCESS),
      denoising_level_default = 0,
      sharpening_level_default = 0,
      hue_default = 0,
      saturation_default = 1,
      brightness_default = 0,
      contrast_default = 1,
      scaling_default = 0,
      video_direction_default = GST_VIDEO_ORIENTATION_IDENTITY,
      video_direction_now = GST_VIDEO_ORIENTATION_IDENTITY,
      skintone_level_default = 3,
      skintone_default = False\<rparr>"

definition bob_only_filter :: GstVaapiFilter where
  "bob_only_filter =
     accept_all_filter\<lparr>accepts :=
       (\<lambda>c. case c of Set_deinterlacing m dflags \<Rightarrow> m = GST_VAAPI_DEINTERLACE_METHOD_BOB
                    | _ \<Rightarrow> True)\<rparr>"

text \<open>An interleaved 640x480 NV12 stream at 25 frames per second.\<close>

definition example_info :: GstVideoInfo where
  "example_info =
     \<lparr>vi_format = GST_VIDEO_FORMAT_NV12, vi_width = 640, vi_height = 480,
      vi_interlace_mode = GST_VIDEO_INTERLACE_MODE_INTERLEAVED,
      vi_fps_n = 25, vi_fps_d = 1, vi_colorimetry = 0\<rparr>"

text \<open>
  An element with an empty history of capacity two, set to deinterlace every frame with the
  motion-adaptive method, VPP available.
\<close>

definition example_postprocess :: GstVaapiPostprocess where
  "example_postprocess =
     \<lparr>flags = {GST_VAAPI_POSTPROCESS_FLAG_DEINTERLACE},
      has_vpp = True,
      use_vpp = False,
      have_filter = True,
      have_filter_ops = True,
      have_filter_formats = True,
      have_filter_pool = True,
      filter_pool_info = example_info,
      passthrough = False,
      forward_crop = False,
      same_caps = False,
      get_va_surfaces = True,
      format = GST_VIDEO_FORMAT_ENCODED,
      hdr_tone_map = GST_VAAPI_HDR_TONE_MAP_AUTO,
      deinterlace_mode = GST_VAAPI_DEINTERLACE_MODE_INTERLACED,
      deinterlace_method = GST_VAAPI_DEINTERLACE_METHOD_MOTION_ADAPTIVE,
      deinterlace_state =
        \<lparr>ds_buffers = [None, None], ds_buffers_index = 0, ds_surfaces = [None, None],
         ds_num_surfaces = 0, ds_deint = False, ds_tff = False\<rparr>,
      field_duration = 20000000,
      denoise_level = 0,
      sharpen_level = 0,
      hue = 0,
      saturation = 1,
      brightness = 0,
      contrast = 1,
      scale_method = 0,
      video_direction = GST_VIDEO_ORIENTATION_IDENTITY,
      tag_video_direction = GST_VIDEO_ORIENTATION_AUTO,
      crop_left = 0,
      crop_right = 0,
      crop_top = 0,
      crop_bottom = 0,
      skintone_enhance = False,
      skintone_value = 3,
      sinkpad_info = example_info,
      srcpad_info = example_info\<rparr>"

text \<open>
  An input buffer backed by surface \<open>sfc\<close>, stamped \<open>ts\<close>, with the given field order; and
  an empty output buffer from the pool, with a meta but no surface proxy yet.
\<close>

definition example_inbuf :: "GstVaapiSurface \<Rightarrow> GstClockTime \<Rightarrow> bool \<Rightarrow> GstBuffer" where
  "example_inbuf sfc ts tff =
     \<lparr>buf_timestamp = ts, buf_duration = 40000000,
      buf_flag_tff = tff, buf_flag_interlaced = True, buf_flag_discont = False,
      buf_vaapi_meta = Some \<lparr>meta_surface = Some sfc, meta_render_flags = 0,
                              meta_render_rect = None\<rparr>,
      buf_video_meta = None, buf_crop_meta = None\<rparr>"

definition example_outbuf :: GstBuffer where
  "example_outbuf =
     \<lparr>buf_timestamp = 0, buf_duration = 0,
      buf_flag_tff = False, buf_flag_interlaced = False, buf_flag_discont = False,
      buf_vaapi_meta = Some \<lparr>meta_surface = None, meta_render_flags = 0,
                              meta_render_rect = None\<rparr>,
      buf_video_meta = None, buf_crop_meta = None\<rparr>"

text \<open>The values of the picture structure bits as the VA-API headers have them.\<close>

definition example_ps :: picture_structure_bits where
  "example_ps = \<lparr>PICTURE_STRUCTURE_TOP_FIELD = 1, PICTURE_STRUCTURE_BOTTOM_FIELD = 2,
                  PICTURE_STRUCTURE_FRAME = 3, PICTURE_STRUCTURE_MASK = 3\<rparr>"

text \<open>
  An environment in which nothing fails: no output copy is required, the pool hands out
  empty buffers and the surfaces 100 and 101, the base class leaves the output buffer as
  it is, and downstream takes every buffer.
\<close>

definition example_env :: frame_env where
  "example_env =
     \<lparr>env_get_input_buffer = (\<lambda>b. Some b),
      env_copy_output_frame = False,
      env_create_va_buffer = Some example_outbuf,
      env_create_field_buffer = Some example_outbuf,
      env_create_dump_buffer = None,
      env_copy_va_buffer = (\<lambda>src dst. None),
      env_copy_metadata = (\<lambda>inbuf outbuf. outbuf),
      env_pool_surface_field = Some 100,
      env_pool_surface_out = Some 101,
      env_proxy_copy = (\<lambda>sfc. Some sfc),
      env_pad_push = (\<lambda>b. GST_FLOW_OK)\<rparr>"




text \<open>
  Assumption on the copy into a system memory buffer, which is made outside the file: that
  the copy carries the timestamp and the duration of its source.
\<close>

definition copy_keeps_times :: "frame_env \<Rightarrow> bool" where
  "copy_keeps_times env =
     (\<forall>src dst b. env_copy_va_buffer env src dst = Some b \<longrightarrow>
        buf_timestamp b = buf_timestamp src \<and> buf_duration b = buf_duration src)"

text \<open>
  The \<^verbatim>\<open>copy_metadata\<close> of \<^verbatim>\<open>GstBaseTransform\<close>. The class installs no hook of its own
  (lines 2266-2280), so this default is what the wrapper of lines 448-464 calls. It is
  library code; its documentation says that it copies the flags, timestamps and offsets of
  the input buffer to the output buffer, which for the fields of a buffer kept here is
  \<^verbatim>\<open>gst_buffer_copy_into\<close> with \<^verbatim>\<open>GST_BUFFER_COPY_FLAGS | GST_BUFFER_COPY_TIMESTAMPS\<close>. The
  metas of the output buffer are left as they are. \<open>base_class_env\<close> is the example
  environment with this hook.
\<close>

definition base_transform_copy_metadata :: "GstBuffer \<Rightarrow> GstBuffer \<Rightarrow> GstBuffer" where
  "base_transform_copy_metadata inbuf outbuf = gst_buffer_copy_into outbuf inbuf True True"

definition base_class_env :: frame_env where
  "base_class_env = example_env\<lparr>env_copy_metadata := base_transform_copy_metadata\<rparr>"

text \<open>
  The frame duration of a stream as the specification has it: one second times
  \<^verbatim>\<open>fps_d / fps_n\<close>.
\<close>

definition stream_frame_duration :: "GstVideoInfo \<Rightarrow> GstClockTime" where
  "stream_frame_duration vi =
     gst_util_uint64_scale GST_SECOND (word_of_int (vi_fps_d vi)) (word_of_int (vi_fps_n vi))"


text \<open>Caps of the example stream, and a negotiation environment in which nothing fails.\<close>

definition example_caps :: GstCaps where
  "example_caps =
     \<lparr>caps_video_info = Some example_info, caps_has_vaapi_surface = True,
      caps_has_mastering_info = False, caps_rest = 0\<rparr>"

definition example_cenv :: caps_env where
  "example_cenv =
     \<lparr>cenv_is_deinterlace_enabled =
        (\<lambda>p vi. case deinterlace_mode p of
                   GST_VAAPI_DEINTERLACE_MODE_AUTO \<Rightarrow>
                     vi_interlace_mode vi \<noteq> GST_VIDEO_INTERLACE_MODE_PROGRESSIVE
                 | GST_VAAPI_DEINTERLACE_MODE_INTERLACED \<Rightarrow> True
                 | GST_VAAPI_DEINTERLACE_MODE_DISABLED \<Rightarrow> False),
      cenv_default_format = GST_VIDEO_FORMAT_ENCODED,
      cenv_op_flags =
        {GST_VAAPI_POSTPROCESS_FLAG_DENOISE, GST_VAAPI_POSTPROCESS_FLAG_SHARPEN,
         GST_VAAPI_POSTPROCESS_FLAG_HUE, GST_VAAPI_POSTPROCESS_FLAG_SATURATION,
         GST_VAAPI_POSTPROCESS_FLAG_BRIGHTNESS, GST_VAAPI_POSTPROCESS_FLAG_CONTRAST,
         GST_VAAPI_POSTPROCESS_FLAG_DEINTERLACE, GST_VAAPI_POSTPROCESS_FLAG_SCALE,
         GST_VAAPI_POSTPROCESS_FLAG_VIDEO_DIRECTION, GST_VAAPI_POSTPROCESS_FLAG_HDR_TONE_MAP,
         GST_VAAPI_POSTPROCESS_FLAG_SKINTONE, GST_VAAPI_POSTPROCESS_FLAG_SKINTONE_LEVEL},
      cenv_plugin_open = True,
      cenv_ensure_display = True,
      cenv_filter_new = True,
      cenv_plugin_set_caps = True,
      cenv_surface_pool_new = True,
      cenv_sinkpad_colorimetry = 0,
      cenv_srcpad_colorimetry = 0,
      cenv_sinkpad_caps = example_caps\<rparr>"

text \<open>
  The run of the basic path that follows the hardware path in the transform function: it
  starts from the element and the output buffer the hardware path left; without VPP it
  starts from the element and the output buffer as given.
\<close>

definition basic_after_vpp ::
  "picture_structure_bits \<Rightarrow> GstVaapiPostprocess \<Rightarrow> GstVaapiFilter \<Rightarrow> frame_env \<Rightarrow>
   GstBuffer \<Rightarrow> GstBuffer \<Rightarrow> proc_result" where
  "basic_after_vpp ps p flt env buf outbuf =
     (if has_vpp p
      then gst_vaapipostprocess_process ps
             (res_postprocess (gst_vaapipostprocess_process_vpp ps p flt env buf outbuf)) env buf
             (res_outbuf (gst_vaapipostprocess_process_vpp ps p flt env buf outbuf))
      else gst_vaapipostprocess_process ps p env buf outbuf)"


text \<open>A filter that refuses every deinterlacing method.\<close>

definition no_deint_filter :: GstVaapiFilter where
  "no_deint_filter =
     accept_all_filter\<lparr>accepts :=
       (\<lambda>c. case c of Set_deinterlacing m dflags \<Rightarrow> False | _ \<Rightarrow> True)\<rparr>"

text \<open>
  Two elements have the same values when they differ at most in their flags.
\<close>

definition same_values :: "GstVaapiPostprocess \<Rightarrow> GstVaapiPostprocess \<Rightarrow> bool" where
  "same_values a b = (a\<lparr>flags := {}\<rparr> = b\<lparr>flags := {}\<rparr>)"


text \<open>
  What a successful \<^verbatim>\<open>update_filter\<close> does, read off the blocks of the code: for each flag,
  the condition under which the flag is cleared; and the filter calls made for the flags
  that are set, in order.
\<close>

fun cleared_on_success ::
  "GstVaapiFilter \<Rightarrow> GstVaapiPostprocess \<Rightarrow> GstVaapiPostprocessFlags \<Rightarrow> bool" where
  "cleared_on_success flt p GST_VAAPI_POSTPROCESS_FLAG_DENOISE =
     (denoising_level_default flt = denoise_level p)"
| "cleared_on_success flt p GST_VAAPI_POSTPROCESS_FLAG_SHARPEN =
     (sharpening_level_default flt = sharpen_level p)"
| "cleared_on_success flt p GST_VAAPI_POSTPROCESS_FLAG_HUE = (hue_default flt = hue p)"
| "cleared_on_success flt p GST_VAAPI_POSTPROCESS_FLAG_SATURATION =
     (saturation_default flt = saturation p)"
| "cleared_on_success flt p GST_VAAPI_POSTPROCESS_FLAG_BRIGHTNESS =
     (brightness_default flt = brightness p)"
| "cleared_on_success flt p GST_VAAPI_POSTPROCESS_FLAG_CONTRAST =
     (contrast_default flt = contrast p)"
| "cleared_on_success flt p GST_VAAPI_POSTPROCESS_FLAG_SCALE =
     (scaling_default flt = scale_method p)"
| "cleared_on_success flt p GST_VAAPI_POSTPROCESS_FLAG_VIDEO_DIRECTION =
     (video_direction_default flt = effective_video_direction p)"
| "cleared_on_success flt p GST_VAAPI_POSTPROCESS_FLAG_CROP =
     ((crop_left p OR crop_right p OR crop_top p OR crop_bottom p) = 0)"
| "cleared_on_success flt p GST_VAAPI_POSTPROCESS_FLAG_SKINTONE_LEVEL =
     (skintone_level_default flt = skintone_value p)"
| "cleared_on_success flt p GST_VAAPI_POSTPROCESS_FLAG_SKINTONE =
     (GST_VAAPI_POSTPROCESS_FLAG_SKINTONE_LEVEL \<in> flags p
      \<or> skintone_default flt = skintone_enhance p)"
| "cleared_on_success flt p _ = False"

definition pending_calls :: "GstVaapiPostprocess \<Rightarrow> filter_call list" where
  "pending_calls p =
     (if GST_VAAPI_POSTPROCESS_FLAG_FORMAT \<in> flags p then [Set_format (format p)] else [])
     @ (if GST_VAAPI_POSTPROCESS_FLAG_DENOISE \<in> flags p
        then [Set_denoising_level (denoise_level p)] else [])
     @ (if GST_VAAPI_POSTPROCESS_FLAG_SHARPEN \<in> flags p
        then [Set_sharpening_level (sharpen_level p)] else [])
     @ (if GST_VAAPI_POSTPROCESS_FLAG_HUE \<in> flags p then [Set_hue (hue p)] else [])
     @ (if GST_VAAPI_POSTPROCESS_FLAG_SATURATION \<in> flags p
        then [Set_saturation (saturation p)] else [])
     @ (if GST_VAAPI_POSTPROCESS_FLAG_BRIGHTNESS \<in> flags p
        then [Set_brightness (brightness p)] else [])
     @ (if GST_VAAPI_POSTPROCESS_FLAG_CONTRAST \<in> flags p
        then [Set_contrast (contrast p)] else [])
     @ (if GST_VAAPI_POSTPROCESS_FLAG_SCALE \<in> flags p
        then [Set_scaling (scale_method p)] else [])
     @ (if GST_VAAPI_POSTPROCESS_FLAG_VIDEO_DIRECTION \<in> flags p
        then [Set_video_direction (effective_video_direction p)] else [])
     @ (if GST_VAAPI_POSTPROCESS_FLAG_SKINTONE_LEVEL \<in> flags p
        then [Set_skintone_level (skintone_value p)]
        else if GST_VAAPI_POSTPROCESS_FLAG_SKINTONE \<in> flags p
        then [Set_skintone (skintone_enhance p)] else [])"


text \<open>
  The specification's view of an operation: the call that pushes its stored value (for the
  direction, the value that is really applied), and whether that value equals the default
  the filter reports. Format, crop, size, deinterlacing and tone mapping have no default
  that \<^verbatim>\<open>update_filter\<close> compares. \<open>default_compared_ops\<close> are the operations pushed and
  compared with the default of the filter.
\<close>

fun op_push :: "GstVaapiPostprocess \<Rightarrow> GstVaapiPostprocessFlags \<Rightarrow> filter_call option" where
  "op_push p GST_VAAPI_POSTPROCESS_FLAG_FORMAT = Some (Set_format (format p))"
| "op_push p GST_VAAPI_POSTPROCESS_FLAG_DENOISE = Some (Set_denoising_level (denoise_level p))"
| "op_push p GST_VAAPI_POSTPROCESS_FLAG_SHARPEN = Some (Set_sharpening_level (sharpen_level p))"
| "op_push p GST_VAAPI_POSTPROCESS_FLAG_HUE = Some (Set_hue (hue p))"
| "op_push p GST_VAAPI_POSTPROCESS_FLAG_SATURATION = Some (Set_saturation (saturation p))"
| "op_push p GST_VAAPI_POSTPROCESS_FLAG_BRIGHTNESS = Some (Set_brightness (brightness p))"
| "op_push p GST_VAAPI_POSTPROCESS_FLAG_CONTRAST = Some (Set_contrast (contrast p))"
| "op_push p GST_VAAPI_POSTPROCESS_FLAG_SCALE = Some (Set_scaling (scale_method p))"
| "op_push p GST_VAAPI_POSTPROCESS_FLAG_VIDEO_DIRECTION =
     Some (Set_video_direction (effective_video_direction p))"
| "op_push p GST_VAAPI_POSTPROCESS_FLAG_SKINTONE_LEVEL =
     Some (Set_skintone_level (skintone_value p))"
| "op_push p GST_VAAPI_POSTPROCESS_FLAG_SKINTONE = Some (Set_skintone (skintone_enhance p))"
| "op_push p _ = None"




text \<open>
  Filters that refuse one kind of call, and elements with some operations pending: denoise
  at its default and hue away from it; both skin tone properties; the direction; the
  direction together with hue.
\<close>

definition no_hue_filter :: GstVaapiFilter where
  "no_hue_filter =
     accept_all_filter\<lparr>accepts := (\<lambda>c. case c of Set_hue v \<Rightarrow> False | _ \<Rightarrow> True)\<rparr>"

definition no_direction_filter :: GstVaapiFilter where
  "no_direction_filter =
     accept_all_filter\<lparr>accepts := (\<lambda>c. case c of Set_video_direction d \<Rightarrow> False | _ \<Rightarrow> True)\<rparr>"

definition example_levels :: GstVaapiPostprocess where
  "example_levels =
     example_postprocess\<lparr>flags := {GST_VAAPI_POSTPROCESS_FLAG_DENOISE, GST_VAAPI_POSTPROCESS_FLAG_HUE},
                          hue := 10\<rparr>"


definition example_direction :: GstVaapiPostprocess where
  "example_direction =
     example_postprocess\<lparr>flags := {GST_VAAPI_POSTPROCESS_FLAG_VIDEO_DIRECTION},
                          video_direction := GST_VIDEO_ORIENTATION_90R\<rparr>"

definition example_direction_hue :: GstVaapiPostprocess where
  "example_direction_hue =
     example_postprocess\<lparr>flags := {GST_VAAPI_POSTPROCESS_FLAG_HUE,
                                   GST_VAAPI_POSTPROCESS_FLAG_VIDEO_DIRECTION},
                          hue := 10,
                          video_direction := GST_VIDEO_ORIENTATION_90R\<rparr>"

text \<open>Caps of a 1280x720 stream at 30 frames per second in a format that is not native.\<close>

definition example_yuy2_info :: GstVideoInfo where
  "example_yuy2_info =
     \<lparr>vi_format = GST_VIDEO_FORMAT_OTHER 4, vi_width = 1280, vi_height = 720,
      vi_interlace_mode = GST_VIDEO_INTERLACE_MODE_INTERLEAVED,
      vi_fps_n = 30, vi_fps_d = 1, vi_colorimetry = 0\<rparr>"

definition example_yuy2_caps :: GstCaps where
  "example_yuy2_caps =
     \<lparr>caps_video_info = Some example_yuy2_info, caps_has_vaapi_surface = False,
      caps_has_mastering_info = False, caps_rest = 1\<rparr>"

text \<open>
  A sequence of frames through the hardware path: every frame starts from the element the
  frame before left. The result of every frame is kept.
\<close>

fun process_frames ::
  "picture_structure_bits \<Rightarrow> GstVaapiPostprocess \<Rightarrow> GstVaapiFilter \<Rightarrow> frame_env \<Rightarrow>
   GstBuffer \<Rightarrow> GstBuffer list \<Rightarrow> proc_result list" where
  "process_frames ps postprocess flt env outbuf [] = []"
| "process_frames ps postprocess flt env outbuf (inbuf # rest) =
     (let r = gst_vaapipostprocess_process_vpp ps postprocess flt env inbuf outbuf
      in r # process_frames ps (res_postprocess r) flt env outbuf rest)"

text \<open>The reference surfaces of the \<^verbatim>\<open>gst_vaapi_filter_set_deinterlacing_references\<close> calls.\<close>

fun references_of :: "filter_call list \<Rightarrow> GstVaapiSurface option list list" where
  "references_of [] = []"
| "references_of (Set_deinterlacing_references refs # calls) = refs # references_of calls"
| "references_of (c # calls) = references_of calls"

text \<open>
  Three interlaced frames on the surfaces 1, 2 and 3: the first is top field first, the
  second and the third are bottom field first.
\<close>

definition example_frames :: "GstBuffer list" where
  "example_frames =
     [example_inbuf 1 0 True, example_inbuf 2 40000000 False, example_inbuf 3 80000000 False]"

text \<open>
  The history stays within a capacity \<open>n\<close>: the ring has \<open>n\<close> slots and at most \<open>n\<close>
  surfaces count as references; and every list of references handed to the filter has at
  most \<open>n\<close> entries.
\<close>

definition history_within_capacity :: "nat \<Rightarrow> GstVaapiDeinterlaceStateEss \<Rightarrow> bool" where
  "history_within_capacity n ds =
     (length (ds_buffers ds) = n \<and> ds_num_surfaces ds \<le> n)"


definition references_within :: "nat \<Rightarrow> filter_call list \<Rightarrow> bool" where
  "references_within n calls = (\<forall>refs \<in> set (references_of calls). length refs \<le> n)"

section \<open>Verified properties\<close>

subsection \<open>Crop metadata rotation\<close>

text \<open>
  C9. With direction identity \<^verbatim>\<open>rotate_crop_meta\<close> leaves the crop rectangle as it is, and
  the 90-degrees-right transform followed by the 90-degrees-left transform on the frame
  with width and height exchanged gives the original rectangle back. This holds for every
  rectangle and frame size (the \<^verbatim>\<open>guint\<close> subtractions wrap around and cancel), with or
  without VPP, and also when the video meta or the crop meta is missing.
\<close>

theorem rotate_crop_meta_roundtrip:
  "rotate_crop_meta postprocess GST_VIDEO_ORIENTATION_IDENTITY vmeta crop = crop
   \<and> rotate_crop_meta postprocess GST_VIDEO_ORIENTATION_90L (map_option swap_dims vmeta)
        (rotate_crop_meta postprocess GST_VIDEO_ORIENTATION_90R vmeta crop) = crop"
  by (cases vmeta; cases crop) (simp_all add: rotate_crop_meta_def swap_dims_def)

theorem rotate_crop_meta_roundtrip_witness:
  "rotate_crop_meta example_postprocess GST_VIDEO_ORIENTATION_90L
     (Some \<lparr>vmeta_width = 480, vmeta_height = 640\<rparr>)
     (rotate_crop_meta example_postprocess GST_VIDEO_ORIENTATION_90R
        (Some \<lparr>vmeta_width = 640, vmeta_height = 480\<rparr>)
        (Some \<lparr>crop_x = 10, crop_y = 20, crop_width = 300, crop_height = 200\<rparr>)) =
   Some \<lparr>crop_x = 10, crop_y = 20, crop_width = 300, crop_height = 200\<rparr>
   \<and> rotate_crop_meta example_postprocess GST_VIDEO_ORIENTATION_90R
        (Some \<lparr>vmeta_width = 640, vmeta_height = 480\<rparr>)
        (Some \<lparr>crop_x = 10, crop_y = 20, crop_width = 300, crop_height = 200\<rparr>) =
      Some \<lparr>crop_x = 260, crop_y = 10, crop_width = 200, crop_height = 300\<rparr>"
  using rotate_crop_meta_roundtrip[of example_postprocess
      "Some \<lparr>vmeta_width = 640, vmeta_height = 480\<rparr>"
      "Some \<lparr>crop_x = 10, crop_y = 20, crop_width = 300, crop_height = 200\<rparr>"]
  by (simp add: swap_dims_def rotate_crop_meta_def example_postprocess_def)

subsection \<open>The per-frame deinterlacing decision\<close>

text \<open>
  C5. \<^verbatim>\<open>should_deinterlace_buffer\<close> returns true exactly when the element-level deinterlace
  flag is set, the mode is not disabled, and either the mode is forced (interlaced) or, in
  auto mode, the sink interlace mode is interleaved, or mixed with the interlaced flag on
  the buffer. So it is false without the flag or with the mode disabled, true for the
  forced mode, and false in auto mode for progressive and every other interlace mode.
\<close>

theorem should_deinterlace_buffer_decision:
  "should_deinterlace_buffer postprocess buf =
   (GST_VAAPI_POSTPROCESS_FLAG_DEINTERLACE \<in> flags postprocess
    \<and> deinterlace_mode postprocess \<noteq> GST_VAAPI_DEINTERLACE_MODE_DISABLED
    \<and> (deinterlace_mode postprocess = GST_VAAPI_DEINTERLACE_MODE_INTERLACED
       \<or> vi_interlace_mode (sinkpad_info postprocess) = GST_VIDEO_INTERLACE_MODE_INTERLEAVED
       \<or> vi_interlace_mode (sinkpad_info postprocess) = GST_VIDEO_INTERLACE_MODE_MIXED
          \<and> buf_flag_interlaced buf))"
  by (simp add: should_deinterlace_buffer_def split: GstVideoInterlaceMode.splits)

theorem should_deinterlace_buffer_decision_witness:
  "should_deinterlace_buffer example_postprocess (example_inbuf 1 0 True)
   \<and> \<not> should_deinterlace_buffer
         (example_postprocess\<lparr>deinterlace_mode := GST_VAAPI_DEINTERLACE_MODE_DISABLED\<rparr>)
         (example_inbuf 1 0 True)
   \<and> \<not> should_deinterlace_buffer
         (example_postprocess\<lparr>deinterlace_mode := GST_VAAPI_DEINTERLACE_MODE_AUTO,
            sinkpad_info := example_info\<lparr>vi_interlace_mode := GST_VIDEO_INTERLACE_MODE_PROGRESSIVE\<rparr>\<rparr>)
         (example_inbuf 1 0 True)"
  using should_deinterlace_buffer_decision[of example_postprocess "example_inbuf 1 0 True"]
        should_deinterlace_buffer_decision[of
          "example_postprocess\<lparr>deinterlace_mode := GST_VAAPI_DEINTERLACE_MODE_DISABLED\<rparr>"
          "example_inbuf 1 0 True"]
        should_deinterlace_buffer_decision[of
          "example_postprocess\<lparr>deinterlace_mode := GST_VAAPI_DEINTERLACE_MODE_AUTO,
            sinkpad_info := example_info\<lparr>vi_interlace_mode := GST_VIDEO_INTERLACE_MODE_PROGRESSIVE\<rparr>\<rparr>"
          "example_inbuf 1 0 True"]
  by (simp add: example_postprocess_def example_info_def)

subsection \<open>Deinterlacing method selection\<close>

lemma set_best_deint_loop_accepted:
  "accepts flt (Set_deinterlacing m dflags) \<Longrightarrow>
   set_best_deint_loop flt dflags m = (True, m, [Set_deinterlacing m dflags])"
  by (subst set_best_deint_loop.simps) simp

lemma set_best_deint_loop_rejected:
  "\<not> accepts flt (Set_deinterlacing m dflags) \<Longrightarrow> m \<noteq> GST_VAAPI_DEINTERLACE_METHOD_BOB \<Longrightarrow>
   set_best_deint_loop flt dflags m =
     (case set_best_deint_loop flt dflags (get_next_deint_method m) of
        (success, m', calls) \<Rightarrow> (success, m', Set_deinterlacing m dflags # calls))"
  by (subst set_best_deint_loop.simps) simp

lemma set_best_deint_loop_one_step:
  assumes bob: "accepts flt (Set_deinterlacing GST_VAAPI_DEINTERLACE_METHOD_BOB dflags)"
    and nxt: "get_next_deint_method start = GST_VAAPI_DEINTERLACE_METHOD_BOB"
    and lad: "deint_ladder start = [start, GST_VAAPI_DEINTERLACE_METHOD_BOB]"
    and ne: "start \<noteq> GST_VAAPI_DEINTERLACE_METHOD_BOB"
  shows "\<exists>tried m rest.
      set_best_deint_loop flt dflags start =
        (True, m, map (\<lambda>x. Set_deinterlacing x dflags) (tried @ [m]))
    \<and> deint_ladder start = tried @ [m] @ rest
    \<and> distinct (deint_ladder start)
    \<and> (\<forall>x \<in> set tried. \<not> accepts flt (Set_deinterlacing x dflags))
    \<and> accepts flt (Set_deinterlacing m dflags)"
proof (cases "accepts flt (Set_deinterlacing start dflags)")
  case True
  show ?thesis
    by (rule exI[of _ "[]"], rule exI[of _ start],
        rule exI[of _ "[GST_VAAPI_DEINTERLACE_METHOD_BOB]"])
       (simp add: True set_best_deint_loop_accepted lad ne)
next
  case False
  show ?thesis
    by (rule exI[of _ "[start]"], rule exI[of _ GST_VAAPI_DEINTERLACE_METHOD_BOB],
        rule exI[of _ "[]"])
       (simp add: False set_best_deint_loop_rejected set_best_deint_loop_accepted bob nxt lad ne)
qed

lemma set_best_deint_loop_ladder:
  assumes bob: "accepts flt (Set_deinterlacing GST_VAAPI_DEINTERLACE_METHOD_BOB dflags)"
  shows "\<exists>tried m rest.
      set_best_deint_loop flt dflags start =
        (True, m, map (\<lambda>x. Set_deinterlacing x dflags) (tried @ [m]))
    \<and> deint_ladder start = tried @ [m] @ rest
    \<and> distinct (deint_ladder start)
    \<and> (\<forall>x \<in> set tried. \<not> accepts flt (Set_deinterlacing x dflags))
    \<and> accepts flt (Set_deinterlacing m dflags)"
proof (cases start)
  case GST_VAAPI_DEINTERLACE_METHOD_BOB
  show ?thesis
    by (rule exI[of _ "[]"], rule exI[of _ GST_VAAPI_DEINTERLACE_METHOD_BOB], rule exI[of _ "[]"])
       (simp add: GST_VAAPI_DEINTERLACE_METHOD_BOB bob set_best_deint_loop_accepted)
next
  case GST_VAAPI_DEINTERLACE_METHOD_NONE
  then show ?thesis by (intro set_best_deint_loop_one_step[OF bob]) simp_all
next
  case GST_VAAPI_DEINTERLACE_METHOD_MOTION_ADAPTIVE
  then show ?thesis by (intro set_best_deint_loop_one_step[OF bob]) simp_all
next
  case (GST_VAAPI_DEINTERLACE_METHOD_OTHER n)
  then show ?thesis by (intro set_best_deint_loop_one_step[OF bob]) simp_all
next
  case mc: GST_VAAPI_DEINTERLACE_METHOD_MOTION_COMPENSATED
  let ?MC = GST_VAAPI_DEINTERLACE_METHOD_MOTION_COMPENSATED
  let ?MA = GST_VAAPI_DEINTERLACE_METHOD_MOTION_ADAPTIVE
  let ?BOB = GST_VAAPI_DEINTERLACE_METHOD_BOB
  consider (a) "accepts flt (Set_deinterlacing ?MC dflags)"
    | (b) "\<not> accepts flt (Set_deinterlacing ?MC dflags)" "accepts flt (Set_deinterlacing ?MA dflags)"
    | (c) "\<not> accepts flt (Set_deinterlacing ?MC dflags)" "\<not> accepts flt (Set_deinterlacing ?MA dflags)"
    by blast
  then show ?thesis
  proof cases
    case a
    show ?thesis
      by (rule exI[of _ "[]"], rule exI[of _ ?MC], rule exI[of _ "[?MA, ?BOB]"])
         (simp add: mc a set_best_deint_loop_accepted)
  next
    case b
    show ?thesis
      by (rule exI[of _ "[?MC]"], rule exI[of _ ?MA], rule exI[of _ "[?BOB]"])
         (simp add: mc b set_best_deint_loop_accepted set_best_deint_loop_rejected)
  next
    case c
    show ?thesis
      by (rule exI[of _ "[?MC, ?MA]"], rule exI[of _ ?BOB], rule exI[of _ "[]"])
         (simp add: mc c bob set_best_deint_loop_accepted set_best_deint_loop_rejected)
  qed
qed

lemma set_best_deint_loop_bob_only:
  assumes "accepts flt (Set_deinterlacing GST_VAAPI_DEINTERLACE_METHOD_BOB dflags)"
    and "\<not> accepts flt (Set_deinterlacing GST_VAAPI_DEINTERLACE_METHOD_MOTION_COMPENSATED dflags)"
    and "\<not> accepts flt (Set_deinterlacing GST_VAAPI_DEINTERLACE_METHOD_MOTION_ADAPTIVE dflags)"
  shows "set_best_deint_loop flt dflags GST_VAAPI_DEINTERLACE_METHOD_MOTION_COMPENSATED =
           (True, GST_VAAPI_DEINTERLACE_METHOD_BOB,
            [Set_deinterlacing GST_VAAPI_DEINTERLACE_METHOD_MOTION_COMPENSATED dflags,
             Set_deinterlacing GST_VAAPI_DEINTERLACE_METHOD_MOTION_ADAPTIVE dflags,
             Set_deinterlacing GST_VAAPI_DEINTERLACE_METHOD_BOB dflags])"
  using assms by (simp add: set_best_deint_loop_accepted set_best_deint_loop_rejected)

text \<open>
  C3. The model of the loop is a total function: its termination is proved with the
  definition, for every starting method and every filter. When the filter accepts bob,
  \<^verbatim>\<open>set_best_deint_method\<close> succeeds; the methods it hands to the filter are an initial
  piece \<open>tried @ [m]\<close> of the degradation order of the configured method, which has no
  repetition; every method in \<open>tried\<close> was refused and \<open>m\<close>, the method it reports, is
  accepted. Starting from motion-compensated on a filter that refuses motion-compensated
  and motion-adaptive, it tries those two and ends with bob.
\<close>

theorem set_best_deint_method_ladder:
  assumes "accepts flt (Set_deinterlacing GST_VAAPI_DEINTERLACE_METHOD_BOB dflags)"
  shows "(\<exists>tried m rest.
      set_best_deint_method postprocess flt dflags =
        (True, m, map (\<lambda>x. Set_deinterlacing x dflags) (tried @ [m]))
    \<and> deint_ladder (deinterlace_method postprocess) = tried @ [m] @ rest
    \<and> distinct (deint_ladder (deinterlace_method postprocess))
    \<and> (\<forall>x \<in> set tried. \<not> accepts flt (Set_deinterlacing x dflags))
    \<and> accepts flt (Set_deinterlacing m dflags))
   \<and> (deinterlace_method postprocess = GST_VAAPI_DEINTERLACE_METHOD_MOTION_COMPENSATED
      \<and> \<not> accepts flt (Set_deinterlacing GST_VAAPI_DEINTERLACE_METHOD_MOTION_COMPENSATED dflags)
      \<and> \<not> accepts flt (Set_deinterlacing GST_VAAPI_DEINTERLACE_METHOD_MOTION_ADAPTIVE dflags)
      \<longrightarrow> set_best_deint_method postprocess flt dflags =
            (True, GST_VAAPI_DEINTERLACE_METHOD_BOB,
             [Set_deinterlacing GST_VAAPI_DEINTERLACE_METHOD_MOTION_COMPENSATED dflags,
              Set_deinterlacing GST_VAAPI_DEINTERLACE_METHOD_MOTION_ADAPTIVE dflags,
              Set_deinterlacing GST_VAAPI_DEINTERLACE_METHOD_BOB dflags]))"
  unfolding set_best_deint_method_def
  using set_best_deint_loop_ladder[OF assms, of "deinterlace_method postprocess"]
        set_best_deint_loop_bob_only[OF assms]
  by simp

theorem set_best_deint_method_ladder_witness:
  "accepts bob_only_filter (Set_deinterlacing GST_VAAPI_DEINTERLACE_METHOD_BOB {})
   \<and> set_best_deint_method
        (example_postprocess\<lparr>deinterlace_method := GST_VAAPI_DEINTERLACE_METHOD_MOTION_COMPENSATED\<rparr>)
        bob_only_filter {} =
      (True, GST_VAAPI_DEINTERLACE_METHOD_BOB,
       [Set_deinterlacing GST_VAAPI_DEINTERLACE_METHOD_MOTION_COMPENSATED {},
        Set_deinterlacing GST_VAAPI_DEINTERLACE_METHOD_MOTION_ADAPTIVE {},
        Set_deinterlacing GST_VAAPI_DEINTERLACE_METHOD_BOB {}])"
proof -
  have bob: "accepts bob_only_filter (Set_deinterlacing GST_VAAPI_DEINTERLACE_METHOD_BOB {})"
    by (simp add: bob_only_filter_def)
  show ?thesis
    using bob set_best_deint_method_ladder[OF bob,
        of "example_postprocess\<lparr>deinterlace_method := GST_VAAPI_DEINTERLACE_METHOD_MOTION_COMPENSATED\<rparr>"]
    by (simp add: bob_only_filter_def)
qed

subsection \<open>The basic path\<close>

lemmas example_defs = example_ps_def example_env_def
       example_postprocess_def example_inbuf_def example_outbuf_def example_info_def

lemmas buffer_helper_defs = append_output_buffer_metadata_def gst_buffer_copy_into_def
       buffer_set_render_flags_def replace_to_dumb_buffer_if_required_def




lemma process_ok:
  assumes ok: "res_ret (gst_vaapipostprocess_process ps postprocess env inbuf outbuf) = GST_FLOW_OK"
  obtains meta fb0 fieldbuf where
    "buf_vaapi_meta inbuf = Some meta"
    "env_create_field_buffer env = Some fb0"
    "replace_to_dumb_buffer_if_required env
       ((buffer_set_render_flags (snd (append_output_buffer_metadata env fb0 inbuf False))
          ((meta_render_flags meta AND NOT (PICTURE_STRUCTURE_MASK ps)) OR
             (if should_deinterlace_buffer postprocess inbuf
              then (if buf_flag_tff inbuf then PICTURE_STRUCTURE_TOP_FIELD ps
                    else PICTURE_STRUCTURE_BOTTOM_FIELD ps)
              else PICTURE_STRUCTURE_FRAME ps)))
          \<lparr>buf_timestamp := buf_timestamp inbuf, buf_duration := field_duration postprocess\<rparr>)
       = Some fieldbuf"
    "res_pushed (gst_vaapipostprocess_process ps postprocess env inbuf outbuf) = [fieldbuf]"
    "res_outbuf (gst_vaapipostprocess_process ps postprocess env inbuf outbuf) =
       (buffer_set_render_flags (snd (append_output_buffer_metadata env outbuf inbuf False))
          ((meta_render_flags meta AND NOT (PICTURE_STRUCTURE_MASK ps)) OR
             (if should_deinterlace_buffer postprocess inbuf
              then (if buf_flag_tff inbuf then PICTURE_STRUCTURE_BOTTOM_FIELD ps
                    else PICTURE_STRUCTURE_TOP_FIELD ps)
              else PICTURE_STRUCTURE_FRAME ps)))
          \<lparr>buf_timestamp := buf_timestamp inbuf + field_duration postprocess,
           buf_duration := field_duration postprocess\<rparr>"
  using ok
  by (auto simp: gst_vaapipostprocess_process_def Let_def split: option.splits if_splits)





subsection \<open>Timestamps of the two fields\<close>

lemmas vpp_defs = gst_vaapipostprocess_process_vpp_def vpp_first_field_def vpp_second_field_def
  vpp_first_field_deint_def vpp_second_field_deint_def vpp_drop_references_def vpp_crop_rect_def
  use_vpp_crop_def ensure_surface_proxy_def set_best_deint_method_def should_deinterlace_buffer_def
  ds_reset_def ds_add_buffer_def ds_get_buffer_def ds_set_surfaces_def ds_references_def
  buffer_surface_def rotate_crop_meta_def

lemmas caps_defs = gst_vaapipostprocess_update_sink_caps_def video_info_update_def
  video_info_changed_def gst_video_info_changed_def sink_field_duration_def gint_mult_def
  gst_util_uint64_scale_def GST_SECOND_def

lemma vpp_first_field_deint_frame:
  "vpp_first_field_deint p flt deint deint_changed tff = (ok, p1, calls, m, refs) \<Longrightarrow>
   field_duration p1 = field_duration p \<and> flags p1 = flags p"
  by (auto simp: vpp_first_field_deint_def Let_def split: if_splits prod.splits)

lemma replace_keeps_times:
  "env_copy_output_frame env \<longrightarrow> copy_keeps_times env \<Longrightarrow>
   replace_to_dumb_buffer_if_required env fb = Some fieldbuf \<Longrightarrow>
   buf_timestamp fieldbuf = buf_timestamp fb \<and> buf_duration fieldbuf = buf_duration fb"
  by (auto simp: replace_to_dumb_buffer_if_required_def copy_keeps_times_def
           split: if_splits option.splits)

lemma vpp_first_field_times:
  assumes "vpp_first_field p0 flt env inbuf outbuf sfc crop rflags deint deint_changed =
             Inr (p1, calls, pushed, m, refs)"
    and "GST_VAAPI_POSTPROCESS_FLAG_DEINTERLACE \<in> flags p0"
    and "env_copy_output_frame env \<longrightarrow> copy_keeps_times env"
  shows "\<exists>fieldbuf. pushed = [fieldbuf] \<and> buf_timestamp fieldbuf = buf_timestamp inbuf
           \<and> buf_duration fieldbuf = field_duration p0
           \<and> field_duration p1 = field_duration p0 \<and> flags p1 = flags p0"
  using assms
  by (auto simp: vpp_first_field_def Let_def
           split: if_splits option.splits prod.splits
           dest!: vpp_first_field_deint_frame replace_keeps_times[rotated])

lemma vpp_second_field_default_hook:
  assumes "res_ret (vpp_second_field p1 flt env inbuf outbuf sfc crop rflags deint deint_changed
                      calls pushed m refs) = GST_FLOW_OK"
    and "env_copy_metadata env = base_transform_copy_metadata"
  shows "res_pushed (vpp_second_field p1 flt env inbuf outbuf sfc crop rflags deint deint_changed
                      calls pushed m refs) = pushed
         \<and> buf_timestamp (res_outbuf (vpp_second_field p1 flt env inbuf outbuf sfc crop rflags deint
                      deint_changed calls pushed m refs)) = buf_timestamp inbuf
         \<and> buf_duration (res_outbuf (vpp_second_field p1 flt env inbuf outbuf sfc crop rflags deint
                      deint_changed calls pushed m refs)) = buf_duration inbuf"
  using assms
  by (auto simp: vpp_second_field_def Let_def base_transform_copy_metadata_def
           gst_buffer_copy_into_def
           split: if_splits option.splits prod.splits)


lemma vpp_first_field_Inl:
  "vpp_first_field p0 flt env inbuf outbuf sfc crop rflags deint deint_changed = Inl r \<Longrightarrow>
   res_ret r \<noteq> GST_FLOW_OK"
  by (auto simp: vpp_first_field_def Let_def split: if_splits option.splits prod.splits)

lemma should_deinterlace_buffer_flag:
  "should_deinterlace_buffer p buf \<Longrightarrow> GST_VAAPI_POSTPROCESS_FLAG_DEINTERLACE \<in> flags p"
  by (simp add: should_deinterlace_buffer_def split: if_splits)

text \<open>
  With the hook of the base class, a frame for which the hardware path returns
  \<^verbatim>\<open>GST_FLOW_OK\<close> leaves the output buffer with the timestamp and the duration of the input
  buffer: the hook runs at line 1046, after lines 1038-1039 have stamped the buffer. The
  first field is stamped after the hook has run (lines 979-981).
\<close>

lemma process_vpp_times_default_hook:
  assumes ok: "res_ret (gst_vaapipostprocess_process_vpp ps p flt env inbuf outbuf) = GST_FLOW_OK"
    and deint: "should_deinterlace_buffer p inbuf"
    and hook: "env_copy_metadata env = base_transform_copy_metadata"
    and copy: "env_copy_output_frame env \<longrightarrow> copy_keeps_times env"
  shows "\<exists>fieldbuf.
      res_pushed (gst_vaapipostprocess_process_vpp ps p flt env inbuf outbuf) = [fieldbuf]
    \<and> buf_timestamp fieldbuf = buf_timestamp inbuf
    \<and> buf_duration fieldbuf = field_duration p
    \<and> buf_timestamp (res_outbuf (gst_vaapipostprocess_process_vpp ps p flt env inbuf outbuf))
        = buf_timestamp inbuf
    \<and> buf_duration (res_outbuf (gst_vaapipostprocess_process_vpp ps p flt env inbuf outbuf))
        = buf_duration inbuf"
proof -
  from ok obtain inbuf_meta where meta: "buf_vaapi_meta inbuf = Some inbuf_meta"
    by (cases "buf_vaapi_meta inbuf") (simp_all add: gst_vaapipostprocess_process_vpp_def)
  let ?p0 = "p\<lparr>deinterlace_state :=
               vpp_drop_references (deinterlace_state p) True (buf_flag_tff inbuf)\<rparr>"
  let ?sfc = "meta_surface inbuf_meta"
  let ?crop = "vpp_crop_rect p inbuf inbuf_meta"
  let ?rflags = "meta_render_flags inbuf_meta AND NOT (PICTURE_STRUCTURE_MASK ps)"
  let ?dc = "True \<noteq> ds_deint (deinterlace_state p)"
  let ?first = "vpp_first_field ?p0 flt env inbuf outbuf ?sfc ?crop ?rflags True ?dc"
  have flag: "GST_VAAPI_POSTPROCESS_FLAG_DEINTERLACE \<in> flags ?p0"
    using should_deinterlace_buffer_flag[OF deint] by simp
  show ?thesis
  proof (cases ?first)
    case (Inl r)
    then have "gst_vaapipostprocess_process_vpp ps p flt env inbuf outbuf = r"
      by (simp add: gst_vaapipostprocess_process_vpp_def meta deint Let_def)
    with ok vpp_first_field_Inl[OF Inl] show ?thesis by simp
  next
    case (Inr t)
    obtain p1 calls pushed m refs where t: "t = (p1, calls, pushed, m, refs)"
      by (cases t) auto
    let ?second = "vpp_second_field p1 flt env inbuf outbuf ?sfc ?crop ?rflags True ?dc
                     calls pushed m refs"
    have eq: "gst_vaapipostprocess_process_vpp ps p flt env inbuf outbuf = ?second"
      using Inr t by (simp add: gst_vaapipostprocess_process_vpp_def meta deint Let_def)
    from vpp_first_field_times[OF Inr[unfolded t] flag copy]
    obtain fieldbuf where fb: "pushed = [fieldbuf]" "buf_timestamp fieldbuf = buf_timestamp inbuf"
        "buf_duration fieldbuf = field_duration p"
      by auto
    from ok eq have ok2: "res_ret ?second = GST_FLOW_OK" by simp
    from vpp_second_field_default_hook[OF ok2 hook] fb show ?thesis
      by (simp add: eq)
  qed
qed

lemma process_times:
  assumes ok: "res_ret (gst_vaapipostprocess_process ps p env inbuf outbuf) = GST_FLOW_OK"
    and copy: "env_copy_output_frame env \<longrightarrow> copy_keeps_times env"
  shows "\<exists>fieldbuf.
      res_pushed (gst_vaapipostprocess_process ps p env inbuf outbuf) = [fieldbuf]
    \<and> buf_timestamp fieldbuf = buf_timestamp inbuf
    \<and> buf_duration fieldbuf = field_duration p
    \<and> buf_timestamp (res_outbuf (gst_vaapipostprocess_process ps p env inbuf outbuf))
        = buf_timestamp inbuf + field_duration p
    \<and> buf_duration (res_outbuf (gst_vaapipostprocess_process ps p env inbuf outbuf))
        = field_duration p"
proof -
  from ok obtain meta fb0 fieldbuf where
    "buf_vaapi_meta inbuf = Some meta"
    and "env_create_field_buffer env = Some fb0"
    and rep: "replace_to_dumb_buffer_if_required env
       ((buffer_set_render_flags (snd (append_output_buffer_metadata env fb0 inbuf False))
          ((meta_render_flags meta AND NOT (PICTURE_STRUCTURE_MASK ps)) OR
             (if should_deinterlace_buffer p inbuf
              then (if buf_flag_tff inbuf then PICTURE_STRUCTURE_TOP_FIELD ps
                    else PICTURE_STRUCTURE_BOTTOM_FIELD ps)
              else PICTURE_STRUCTURE_FRAME ps)))
          \<lparr>buf_timestamp := buf_timestamp inbuf, buf_duration := field_duration p\<rparr>)
       = Some fieldbuf"
    and pushed: "res_pushed (gst_vaapipostprocess_process ps p env inbuf outbuf) = [fieldbuf]"
    and out: "res_outbuf (gst_vaapipostprocess_process ps p env inbuf outbuf) =
       (buffer_set_render_flags (snd (append_output_buffer_metadata env outbuf inbuf False))
          ((meta_render_flags meta AND NOT (PICTURE_STRUCTURE_MASK ps)) OR
             (if should_deinterlace_buffer p inbuf
              then (if buf_flag_tff inbuf then PICTURE_STRUCTURE_BOTTOM_FIELD ps
                    else PICTURE_STRUCTURE_TOP_FIELD ps)
              else PICTURE_STRUCTURE_FRAME ps)))
          \<lparr>buf_timestamp := buf_timestamp inbuf + field_duration p,
           buf_duration := field_duration p\<rparr>"
    by (rule process_ok)
  from replace_keeps_times[OF copy rep] pushed out show ?thesis by simp
qed

lemma unat_word_of_int_64:
  "0 \<le> i \<Longrightarrow> i < 2 ^ 64 \<Longrightarrow> unat (word_of_int i :: 64 word) = nat i"
  by (simp add: unsigned_of_int take_bit_int_eq_self)

lemma unat_GST_SECOND: "unat GST_SECOND = 1000000000"
  by (simp add: GST_SECOND_def)

lemma scale_small:
  assumes n: "0 < n" "n < 2 ^ 31" and d: "0 \<le> d" "d < 2 ^ 31"
  shows "gst_util_uint64_scale GST_SECOND (word_of_int d) (word_of_int n) =
         word_of_nat (1000000000 * nat d div nat n)"
    and "1000000000 * nat d div nat n < 2 ^ 62"
proof -
  have un: "unat (word_of_int n :: 64 word) = nat n"
    using n by (intro unat_word_of_int_64) simp_all
  have ud: "unat (word_of_int d :: 64 word) = nat d"
    using d by (intro unat_word_of_int_64) simp_all
  have "nat d < 2 ^ 31" using d by simp
  then have "1000000000 * nat d < 2 ^ 30 * 2 ^ 31"
    by (intro mult_strict_mono) simp_all
  then have lt: "1000000000 * nat d < 2 ^ 62" by simp
  show b: "1000000000 * nat d div nat n < 2 ^ 62"
    by (rule le_less_trans[OF div_le_dividend lt])
  have nz: "(word_of_int n :: 64 word) \<noteq> 0"
    using un n by (metis nat_0_iff not_less unat_0 order_less_imp_le less_irrefl)
  from b have "1000000000 * nat d div nat n < (2 ^ 64 :: nat)" by simp
  then show "gst_util_uint64_scale GST_SECOND (word_of_int d) (word_of_int n) =
         word_of_nat (1000000000 * nat d div nat n)"
    using nz by (simp add: gst_util_uint64_scale_def un ud unat_GST_SECOND)
qed

lemma gint_mult_in_range:
  "- (2 ^ 31) \<le> a * b \<Longrightarrow> a * b < 2 ^ 31 \<Longrightarrow> gint_mult a b = a * b"
  by (simp add: gint_mult_def signed_take_bit_int_eq_self)

text \<open>
  The field duration that \<^verbatim>\<open>gst_vaapipostprocess_update_sink_caps\<close> computes from a frame
  rate \<^verbatim>\<open>fps_n / fps_d\<close> with \<^verbatim>\<open>0 < fps_n < 2^30\<close> and \<^verbatim>\<open>0 <= fps_d < 2^31\<close>: half the frame
  duration of the stream, rounded down, when deinterlacing is enabled, the frame duration
  otherwise.
\<close>

lemma sink_field_duration_halved:
  assumes n: "0 < vi_fps_n vi" "vi_fps_n vi < 2 ^ 30" and d: "0 \<le> vi_fps_d vi" "vi_fps_d vi < 2 ^ 31"
  shows "sink_field_duration vi deinterlace =
         (if deinterlace then stream_frame_duration vi div 2 else stream_frame_duration vi)"
proof (cases deinterlace)
  case False
  have "gint_mult 1 (vi_fps_n vi) = 1 * vi_fps_n vi"
    using n by (intro gint_mult_in_range) simp_all
  then show ?thesis
    using False n by (simp add: sink_field_duration_def stream_frame_duration_def)
next
  case True
  let ?a = "1000000000 * nat (vi_fps_d vi)"
  have n2: "0 < 2 * vi_fps_n vi" "2 * vi_fps_n vi < 2 ^ 31" using n by simp_all
  have n1: "vi_fps_n vi < 2 ^ 31" using n by simp
  have g: "gint_mult 2 (vi_fps_n vi) = 2 * vi_fps_n vi"
    using n by (intro gint_mult_in_range) simp_all
  have full: "stream_frame_duration vi = word_of_nat (?a div nat (vi_fps_n vi))"
    unfolding stream_frame_duration_def using scale_small(1)[OF n(1) n1 d] .
  have small: "?a div nat (vi_fps_n vi) < 2 ^ 62" using scale_small(2)[OF n(1) n1 d] .
  have half: "sink_field_duration vi True = word_of_nat (?a div nat (2 * vi_fps_n vi))"
    using n scale_small(1)[OF n2 d] by (simp add: sink_field_duration_def g)
  have "nat (2 * vi_fps_n vi) = nat (vi_fps_n vi) * 2" using n by simp
  then have "?a div nat (2 * vi_fps_n vi) = ?a div nat (vi_fps_n vi) div 2"
    by (simp only: div_mult2_eq)
  moreover have "(word_of_nat (?a div nat (vi_fps_n vi)) :: 64 word) div 2
                 = word_of_nat (?a div nat (vi_fps_n vi) div 2)"
  proof -
    from small have "?a div nat (vi_fps_n vi) < 2 ^ 64"
      by (rule less_trans) simp
    then have "unat (word_of_nat (?a div nat (vi_fps_n vi)) :: 64 word) = ?a div nat (vi_fps_n vi)"
      by (simp add: unat_of_nat)
    then show ?thesis
      by (simp add: word_arith_nat_div)
  qed
  ultimately show ?thesis using True half full by simp
qed

text \<open>
  The bound on \<^verbatim>\<open>fps_n\<close> is needed: at \<^verbatim>\<open>2^30 / 1000\<close> frames per second the \<^verbatim>\<open>gint\<close> product
  \<^verbatim>\<open>2 * fps_n\<close> wraps around to a negative number and the field duration comes out as 0,
  while the frame duration of the stream is 931 ns.
\<close>

lemma sink_field_duration_wraps:
  "stream_frame_duration (example_info\<lparr>vi_fps_n := 2 ^ 30, vi_fps_d := 1000\<rparr>) = 931
   \<and> sink_field_duration (example_info\<lparr>vi_fps_n := 2 ^ 30, vi_fps_d := 1000\<rparr>) True = 0"
  by (simp add: stream_frame_duration_def sink_field_duration_def gint_mult_def
        gst_util_uint64_scale_def GST_SECOND_def example_info_def)

text \<open>
  The frame rate is read from the stored sink video info (line 1258), and
  \<^verbatim>\<open>video_info_update\<close> stores the video info of new caps only when
  \<^verbatim>\<open>video_info_changed\<close> holds (lines 1237-1241): when the interlace mode changed or
  \<^verbatim>\<open>gst_video_info_changed\<close>, as modelled above, finds another format or size. New caps that
  differ from the old ones in the frame rate alone, here 50 instead of 25 frames per
  second, leave the field duration at the 20 ms of the old frame rate.
\<close>

lemma update_sink_caps_keeps_frame_rate:
  "gst_vaapipostprocess_update_sink_caps example_cenv example_postprocess
     (example_caps\<lparr>caps_video_info := Some (example_info\<lparr>vi_fps_n := 50\<rparr>)\<rparr>)
   = Some (False, example_postprocess)
   \<and> stream_frame_duration (example_info\<lparr>vi_fps_n := 50\<rparr>) = 20000000
   \<and> field_duration example_postprocess = 20000000"
  by (simp add: caps_defs stream_frame_duration_def example_cenv_def example_caps_def
        example_defs Let_def)

text \<open>
  C6. The hardware path stamps the second field with the input timestamp plus the field
  duration and with the field duration (lines 1038-1039), and then calls \<^verbatim>\<open>copy_metadata\<close>
  on it (line 1046). The hook is the one of the base class, which copies the timestamps of
  the input buffer: the stamp is overwritten. For the first field (lines 979-981) and in
  the basic path (lines 1133-1144 and 1154-1165) the hook runs before the buffer is
  stamped. Run on the example element (forced deinterlacing, field duration 20 ms) with an
  input frame stamped 1000 ns that lasts 40 ms: the hardware path returns \<^verbatim>\<open>GST_FLOW_OK\<close>,
  the first field is pushed with timestamp 1000 and duration 20 ms, and the second field
  comes out with timestamp 1000 and duration 40 ms, where timestamp 20001000 and duration
  20 ms are due. The basic path, on the same frame in the same environment, stamps the
  second field 20001000 with duration 20 ms.
\<close>

theorem second_field_stamp_overwritten:
  "should_deinterlace_buffer example_postprocess (example_inbuf 1 1000 True)
   \<and> field_duration example_postprocess = 20000000
   \<and> res_ret (gst_vaapipostprocess_process_vpp example_ps example_postprocess accept_all_filter
               base_class_env (example_inbuf 1 1000 True) example_outbuf) = GST_FLOW_OK
   \<and> map (\<lambda>b. (buf_timestamp b, buf_duration b))
        (res_pushed (gst_vaapipostprocess_process_vpp example_ps example_postprocess
           accept_all_filter base_class_env (example_inbuf 1 1000 True) example_outbuf))
      = [(1000, 20000000)]
   \<and> buf_timestamp (res_outbuf (gst_vaapipostprocess_process_vpp example_ps example_postprocess
           accept_all_filter base_class_env (example_inbuf 1 1000 True) example_outbuf)) = 1000
   \<and> buf_duration (res_outbuf (gst_vaapipostprocess_process_vpp example_ps example_postprocess
           accept_all_filter base_class_env (example_inbuf 1 1000 True) example_outbuf)) = 40000000
   \<and> res_ret (gst_vaapipostprocess_process example_ps example_postprocess
               base_class_env (example_inbuf 1 1000 True) example_outbuf) = GST_FLOW_OK
   \<and> buf_timestamp (res_outbuf (gst_vaapipostprocess_process example_ps example_postprocess
           base_class_env (example_inbuf 1 1000 True) example_outbuf)) = 20001000
   \<and> buf_duration (res_outbuf (gst_vaapipostprocess_process example_ps example_postprocess
           base_class_env (example_inbuf 1 1000 True) example_outbuf)) = 20000000"
  by (simp add: vpp_defs gst_vaapipostprocess_process_def example_defs base_class_env_def
        base_transform_copy_metadata_def accept_all_filter_def buffer_helper_defs Let_def
        set_best_deint_loop_accepted ds_collect_surfaces.simps)

theorem second_field_stamp_overwritten_witness:
  "buf_timestamp (res_outbuf (gst_vaapipostprocess_process_vpp example_ps example_postprocess
           accept_all_filter base_class_env (example_inbuf 1 1000 True) example_outbuf))
     \<noteq> buf_timestamp (example_inbuf 1 1000 True) + field_duration example_postprocess
   \<and> buf_duration (res_outbuf (gst_vaapipostprocess_process_vpp example_ps example_postprocess
           accept_all_filter base_class_env (example_inbuf 1 1000 True) example_outbuf))
     \<noteq> field_duration example_postprocess
   \<and> env_copy_metadata base_class_env = base_transform_copy_metadata"
  using second_field_stamp_overwritten
  by (simp add: example_inbuf_def base_class_env_def)

subsection \<open>The order of the paths\<close>

lemma vpp_first_field_deint_flags:
  "flags (fst (snd (vpp_first_field_deint p flt deint deint_changed tff))) = flags p"
  by (simp add: vpp_first_field_deint_def Let_def split_beta)

lemma vpp_first_field_flags_case:
  "(case vpp_first_field p0 flt env inbuf outbuf sfc crop rflags deint deint_changed of
      Inl r \<Rightarrow> flags (res_postprocess r)
    | Inr t \<Rightarrow> flags (fst t)) = flags p0"
  by (simp add: vpp_first_field_def Let_def split_beta vpp_first_field_deint_flags
           split: option.splits)

lemma vpp_first_field_flags:
  "vpp_first_field p0 flt env inbuf outbuf sfc crop rflags deint deint_changed = Inl r \<Longrightarrow>
   flags (res_postprocess r) = flags p0"
  using vpp_first_field_flags_case[of p0 flt env inbuf outbuf sfc crop rflags deint deint_changed]
  by simp

lemma vpp_first_field_flags_Inr:
  "vpp_first_field p0 flt env inbuf outbuf sfc crop rflags deint deint_changed
     = Inr (p1, calls, pushed, m, refs) \<Longrightarrow> flags p1 = flags p0"
  using vpp_first_field_flags_case[of p0 flt env inbuf outbuf sfc crop rflags deint deint_changed]
  by simp

lemma vpp_second_field_flags:
  "flags (res_postprocess (vpp_second_field p1 flt env inbuf outbuf sfc crop rflags deint
            deint_changed calls pushed m refs)) = flags p1"
  by (simp add: vpp_second_field_def Let_def split_beta split: option.splits)

lemma process_vpp_flags:
  "flags (res_postprocess (gst_vaapipostprocess_process_vpp ps p flt env inbuf outbuf)) = flags p"
proof (cases "buf_vaapi_meta inbuf")
  case None
  then show ?thesis by (simp add: gst_vaapipostprocess_process_vpp_def)
next
  case (Some inbuf_meta)
  let ?p0 = "p\<lparr>deinterlace_state :=
               vpp_drop_references (deinterlace_state p) (should_deinterlace_buffer p inbuf)
                 (buf_flag_tff inbuf)\<rparr>"
  let ?first = "vpp_first_field ?p0 flt env inbuf outbuf (meta_surface inbuf_meta)
                  (vpp_crop_rect p inbuf inbuf_meta)
                  (meta_render_flags inbuf_meta AND NOT (PICTURE_STRUCTURE_MASK ps))
                  (should_deinterlace_buffer p inbuf)
                  (should_deinterlace_buffer p inbuf \<noteq> ds_deint (deinterlace_state p))"
  show ?thesis
  proof (cases ?first)
    case (Inl r)
    from vpp_first_field_flags[OF Inl] have "flags (res_postprocess r) = flags p" by simp
    with Inl Some show ?thesis
      by (simp add: gst_vaapipostprocess_process_vpp_def Let_def)
  next
    case (Inr t)
    obtain p1 calls pushed m refs where t: "t = (p1, calls, pushed, m, refs)"
      by (cases t) auto
    from vpp_first_field_flags_Inr[OF Inr[unfolded t]] have "flags p1 = flags p" by simp
    with Inr t Some show ?thesis
      by (simp add: gst_vaapipostprocess_process_vpp_def Let_def vpp_second_field_flags)
  qed
qed

lemma passthrough_ret:
  "res_ret (gst_vaapipostprocess_passthrough p env buf outbuf) =
     (if buf_vaapi_meta buf = None then GST_FLOW_ERROR else GST_FLOW_OK)"
  by (simp add: gst_vaapipostprocess_passthrough_def split: option.splits)

lemma transform_fallback_paths:
  "res_paths (transform_fallback p env buf outbuf calls pushed paths) = paths @ [PATH_PASSTHROUGH]"
  "res_ret (transform_fallback p env buf outbuf calls pushed paths) =
     (if buf_vaapi_meta buf = None then GST_FLOW_ERROR else GST_FLOW_OK)"
  by (simp_all add: transform_fallback_def with_paths_def Let_def passthrough_ret)

lemma transform_basic_paths:
  "res_paths (transform_basic ps p env buf outbuf calls pushed paths) =
     paths @ (if GST_VAAPI_POSTPROCESS_FLAG_DEINTERLACE \<in> flags p then [PATH_BASIC] else [])
           @ (if GST_VAAPI_POSTPROCESS_FLAG_DEINTERLACE \<in> flags p \<longrightarrow>
                 res_ret (gst_vaapipostprocess_process ps p env buf outbuf) = GST_FLOW_NOT_SUPPORTED
              then [PATH_PASSTHROUGH] else [])"
  "res_ret (transform_basic ps p env buf outbuf calls pushed paths) =
     (if GST_VAAPI_POSTPROCESS_FLAG_DEINTERLACE \<in> flags p \<longrightarrow>
           res_ret (gst_vaapipostprocess_process ps p env buf outbuf) = GST_FLOW_NOT_SUPPORTED
      then (if buf_vaapi_meta buf = None then GST_FLOW_ERROR else GST_FLOW_OK)
      else res_ret (gst_vaapipostprocess_process ps p env buf outbuf))"
  by (simp_all add: transform_basic_def with_paths_def Let_def transform_fallback_paths)

lemma transform_paths_order:
  assumes "flags p \<noteq> {}"
  shows "res_paths (transform_paths ps p flt env buf outbuf) =
           (if has_vpp p then [PATH_VPP] else [])
           @ (if (has_vpp p \<longrightarrow>
                    res_ret (gst_vaapipostprocess_process_vpp ps p flt env buf outbuf)
                      = GST_FLOW_NOT_SUPPORTED)
                 \<and> GST_VAAPI_POSTPROCESS_FLAG_DEINTERLACE \<in> flags p
              then [PATH_BASIC] else [])
           @ (if (has_vpp p \<longrightarrow>
                    res_ret (gst_vaapipostprocess_process_vpp ps p flt env buf outbuf)
                      = GST_FLOW_NOT_SUPPORTED)
                 \<and> (GST_VAAPI_POSTPROCESS_FLAG_DEINTERLACE \<in> flags p \<longrightarrow>
                      res_ret (basic_after_vpp ps p flt env buf outbuf) = GST_FLOW_NOT_SUPPORTED)
              then [PATH_PASSTHROUGH] else [])"
    and "res_ret (transform_paths ps p flt env buf outbuf) =
           (if has_vpp p \<and> res_ret (gst_vaapipostprocess_process_vpp ps p flt env buf outbuf)
                              \<noteq> GST_FLOW_NOT_SUPPORTED
            then res_ret (gst_vaapipostprocess_process_vpp ps p flt env buf outbuf)
            else if GST_VAAPI_POSTPROCESS_FLAG_DEINTERLACE \<in> flags p
                    \<and> res_ret (basic_after_vpp ps p flt env buf outbuf) \<noteq> GST_FLOW_NOT_SUPPORTED
            then res_ret (basic_after_vpp ps p flt env buf outbuf)
            else if buf_vaapi_meta buf = None then GST_FLOW_ERROR else GST_FLOW_OK)"
  using assms
  by (simp_all add: transform_paths_def basic_after_vpp_def Let_def with_paths_def
        transform_basic_paths process_vpp_flags)


text \<open>
  C7, as the code has it. Take a frame with pending flags whose input buffer was obtained
  and, where the output frame has to be copied, whose VA output buffer was created. The
  paths the transform function calls are, in this order: the hardware path, if VPP is
  available (\<^verbatim>\<open>has_vpp\<close>); the basic path, if the hardware path was not available or
  returned \<^verbatim>\<open>GST_FLOW_NOT_SUPPORTED\<close>, and the deinterlace flag is set; the passthrough
  path, if the hardware path was not available or returned \<^verbatim>\<open>GST_FLOW_NOT_SUPPORTED\<close>, and
  the basic path was not called or returned \<^verbatim>\<open>GST_FLOW_NOT_SUPPORTED\<close>. So a path is followed
  by a simpler one if and only if it returned \<^verbatim>\<open>GST_FLOW_NOT_SUPPORTED\<close>; any other status
  of the hardware or the basic path is the status of the frame, unless the final copy of
  the output frame fails, which gives \<^verbatim>\<open>GST_FLOW_ERROR\<close>.
\<close>

theorem transform_path_order:
  assumes pending: "flags p \<noteq> {}"
    and input: "env_get_input_buffer env inbuf = Some buf"
    and va: "if env_copy_output_frame env then env_create_va_buffer env = Some ob else ob = outbuf"
  shows "res_paths (gst_vaapipostprocess_transform ps p flt env inbuf outbuf) =
           (if has_vpp p then [PATH_VPP] else [])
           @ (if (has_vpp p \<longrightarrow>
                    res_ret (gst_vaapipostprocess_process_vpp ps p flt env buf ob)
                      = GST_FLOW_NOT_SUPPORTED)
                 \<and> GST_VAAPI_POSTPROCESS_FLAG_DEINTERLACE \<in> flags p
              then [PATH_BASIC] else [])
           @ (if (has_vpp p \<longrightarrow>
                    res_ret (gst_vaapipostprocess_process_vpp ps p flt env buf ob)
                      = GST_FLOW_NOT_SUPPORTED)
                 \<and> (GST_VAAPI_POSTPROCESS_FLAG_DEINTERLACE \<in> flags p \<longrightarrow>
                      res_ret (basic_after_vpp ps p flt env buf ob) = GST_FLOW_NOT_SUPPORTED)
              then [PATH_PASSTHROUGH] else [])
       \<and> res_ret (gst_vaapipostprocess_transform ps p flt env inbuf outbuf) =
           (if env_copy_output_frame env
               \<and> env_copy_va_buffer env (res_outbuf (transform_paths ps p flt env buf ob)) outbuf = None
            then GST_FLOW_ERROR
            else if has_vpp p \<and> res_ret (gst_vaapipostprocess_process_vpp ps p flt env buf ob)
                              \<noteq> GST_FLOW_NOT_SUPPORTED
            then res_ret (gst_vaapipostprocess_process_vpp ps p flt env buf ob)
            else if GST_VAAPI_POSTPROCESS_FLAG_DEINTERLACE \<in> flags p
                    \<and> res_ret (basic_after_vpp ps p flt env buf ob) \<noteq> GST_FLOW_NOT_SUPPORTED
            then res_ret (basic_after_vpp ps p flt env buf ob)
            else if buf_vaapi_meta buf = None then GST_FLOW_ERROR else GST_FLOW_OK)"
proof (cases "env_copy_output_frame env")
  case False
  with va have ob: "ob = outbuf" by simp
  have "gst_vaapipostprocess_transform ps p flt env inbuf outbuf
          = transform_paths ps p flt env buf outbuf"
    using False input by (simp add: gst_vaapipostprocess_transform_def)
  then show ?thesis
    using False by (simp only: ob transform_paths_order[OF pending]) simp
next
  case True
  with va have ob: "env_create_va_buffer env = Some ob" by simp
  let ?r = "transform_paths ps p flt env buf ob"
  have eq: "gst_vaapipostprocess_transform ps p flt env inbuf outbuf =
          (case env_copy_va_buffer env (res_outbuf ?r) outbuf of
             None \<Rightarrow> ?r\<lparr>res_ret := GST_FLOW_ERROR, res_outbuf := outbuf\<rparr>
           | Some sys_buf \<Rightarrow> ?r\<lparr>res_outbuf := sys_buf\<rparr>)"
    using True input ob by (simp add: gst_vaapipostprocess_transform_def Let_def)
  have paths: "res_paths (gst_vaapipostprocess_transform ps p flt env inbuf outbuf) = res_paths ?r"
    by (simp add: eq split: option.splits)
  have ret: "res_ret (gst_vaapipostprocess_transform ps p flt env inbuf outbuf) =
          (if env_copy_va_buffer env (res_outbuf ?r) outbuf = None then GST_FLOW_ERROR
           else res_ret ?r)"
    by (simp add: eq split: option.splits)
  show ?thesis
    using True by (simp only: paths ret transform_paths_order[OF pending]) simp
qed


lemmas transform_defs = gst_vaapipostprocess_transform_def transform_paths_def
  transform_basic_def transform_fallback_def with_paths_def gst_vaapipostprocess_passthrough_def
  gst_vaapipostprocess_process_def

theorem transform_path_order_witness:
  "flags example_postprocess \<noteq> {}
   \<and> env_get_input_buffer example_env (example_inbuf 1 0 True) = Some (example_inbuf 1 0 True)
   \<and> \<not> env_copy_output_frame example_env
   \<and> has_vpp example_postprocess
   \<and> res_ret (gst_vaapipostprocess_process_vpp example_ps example_postprocess no_deint_filter
                example_env (example_inbuf 1 0 True) example_outbuf) = GST_FLOW_NOT_SUPPORTED
   \<and> res_paths (gst_vaapipostprocess_transform example_ps example_postprocess no_deint_filter
                  example_env (example_inbuf 1 0 True) example_outbuf) = [PATH_VPP, PATH_BASIC]
   \<and> res_ret (gst_vaapipostprocess_transform example_ps example_postprocess no_deint_filter
                example_env (example_inbuf 1 0 True) example_outbuf) = GST_FLOW_OK"
proof -
  have pending: "flags example_postprocess \<noteq> {}" by (simp add: example_postprocess_def)
  have input: "env_get_input_buffer example_env (example_inbuf 1 0 True) = Some (example_inbuf 1 0 True)"
    by (simp add: example_env_def)
  have nc: "\<not> env_copy_output_frame example_env" by (simp add: example_env_def)
  then have va: "if env_copy_output_frame example_env
                 then env_create_va_buffer example_env = Some example_outbuf
                 else example_outbuf = example_outbuf" by simp
  have vpp: "res_ret (gst_vaapipostprocess_process_vpp example_ps example_postprocess no_deint_filter
                example_env (example_inbuf 1 0 True) example_outbuf) = GST_FLOW_NOT_SUPPORTED"
    by (simp add: vpp_defs example_defs no_deint_filter_def accept_all_filter_def
          buffer_helper_defs Let_def set_best_deint_loop.simps)
  have basic: "res_ret (basic_after_vpp example_ps example_postprocess no_deint_filter
                example_env (example_inbuf 1 0 True) example_outbuf) = GST_FLOW_OK"
    by (simp add: basic_after_vpp_def gst_vaapipostprocess_process_def example_defs
          buffer_helper_defs Let_def)
  show ?thesis
    using transform_path_order[OF pending input va, of example_ps no_deint_filter]
          pending input nc vpp basic
    by (simp add: example_postprocess_def)
qed


text \<open>
  The claim C7 as stated says that every frame with pending flags goes to the hardware
  path first. On an element without VPP (\<^verbatim>\<open>has_vpp\<close> is false, as
  \<^verbatim>\<open>gst_vaapipostprocess_create\<close> leaves it when no filter can be made) a frame with the
  deinterlace flag pending goes to the basic path at once.
\<close>

theorem transform_vpp_first_counterexample:
  "flags (example_postprocess\<lparr>has_vpp := False\<rparr>) \<noteq> {}
   \<and> res_paths (gst_vaapipostprocess_transform example_ps (example_postprocess\<lparr>has_vpp := False\<rparr>)
                  accept_all_filter example_env (example_inbuf 1 0 True) example_outbuf) = [PATH_BASIC]
   \<and> res_ret (gst_vaapipostprocess_transform example_ps (example_postprocess\<lparr>has_vpp := False\<rparr>)
                  accept_all_filter example_env (example_inbuf 1 0 True) example_outbuf) = GST_FLOW_OK"
  by (simp add: transform_defs example_defs buffer_helper_defs Let_def
        should_deinterlace_buffer_def)

subsection \<open>Applying the pending operations\<close>

lemma and_then_TrueE:
  assumes "and_then r f = (True, s')"
  obtains s where "r = (True, s)" and "f s = (True, s')"
  using assms by (cases r) (auto simp: and_then_def split: if_splits)

lemma push_op_True:
  assumes "push_op flt flag call d s = (True, s')"
  shows "fst s' = (fst s)\<lparr>flags := flags (fst s')\<rparr>"
    and "\<And>f. f \<in> flags (fst s') \<longleftrightarrow> f \<in> flags (fst s) \<and> \<not> (f = flag \<and> d)"
    and "snd s' = snd s @ (if flag \<in> flags (fst s) then [call] else [])"
    and "flag \<in> flags (fst s) \<Longrightarrow> accepts flt call"
  using assms by (auto simp: push_op_def split: if_splits)

lemma push_format_True:
  assumes "push_format flt s = (True, s')"
  shows "fst s' = (fst s)\<lparr>flags := flags (fst s')\<rparr>"
    and "\<And>f. f \<in> flags (fst s') \<longleftrightarrow> f \<in> flags (fst s)"
    and "snd s' = snd s @ (if GST_VAAPI_POSTPROCESS_FLAG_FORMAT \<in> flags (fst s)
                           then [Set_format (format (fst s))] else [])"
    and "GST_VAAPI_POSTPROCESS_FLAG_FORMAT \<in> flags (fst s) \<Longrightarrow>
           accepts flt (Set_format (format (fst s)))"
  using assms by (auto simp: push_format_def split: if_splits)

lemma push_video_direction_True:
  assumes "push_video_direction flt s = (ok, s')"
  shows "ok"
    and "fst s' = (fst s)\<lparr>flags := flags (fst s')\<rparr>"
    and "\<And>f. f \<in> flags (fst s') \<longleftrightarrow> f \<in> flags (fst s)
            \<and> \<not> (f = GST_VAAPI_POSTPROCESS_FLAG_VIDEO_DIRECTION
                  \<and> video_direction_default flt = effective_video_direction (fst s))"
    and "snd s' = snd s @ (if GST_VAAPI_POSTPROCESS_FLAG_VIDEO_DIRECTION \<in> flags (fst s)
                           then [Set_video_direction (effective_video_direction (fst s))] else [])"
  using assms by (auto simp: push_video_direction_def Let_def split: if_splits)

lemma check_crop_True:
  assumes "check_crop s = (ok, s')"
  shows "ok"
    and "fst s' = (fst s)\<lparr>flags := flags (fst s')\<rparr>"
    and "\<And>f. f \<in> flags (fst s') \<longleftrightarrow> f \<in> flags (fst s)
            \<and> \<not> (f = GST_VAAPI_POSTPROCESS_FLAG_CROP
                  \<and> (crop_left (fst s) OR crop_right (fst s) OR crop_top (fst s)
                        OR crop_bottom (fst s)) = 0)"
    and "snd s' = snd s"
  using assms by (auto simp: check_crop_def split: if_splits)

lemma push_skintone_True:
  assumes "push_skintone flt s = (True, s')"
  shows "fst s' = (fst s)\<lparr>flags := flags (fst s')\<rparr>"
    and "\<And>f. f \<in> flags (fst s') \<longleftrightarrow> f \<in> flags (fst s)
            \<and> \<not> (f = GST_VAAPI_POSTPROCESS_FLAG_SKINTONE_LEVEL
                  \<and> skintone_level_default flt = skintone_value (fst s))
            \<and> \<not> (f = GST_VAAPI_POSTPROCESS_FLAG_SKINTONE
                  \<and> (GST_VAAPI_POSTPROCESS_FLAG_SKINTONE_LEVEL \<in> flags (fst s)
                     \<or> skintone_default flt = skintone_enhance (fst s)))"
    and "snd s' = snd s @
           (if GST_VAAPI_POSTPROCESS_FLAG_SKINTONE_LEVEL \<in> flags (fst s)
            then [Set_skintone_level (skintone_value (fst s))]
            else if GST_VAAPI_POSTPROCESS_FLAG_SKINTONE \<in> flags (fst s)
            then [Set_skintone (skintone_enhance (fst s))] else [])"
    and "GST_VAAPI_POSTPROCESS_FLAG_SKINTONE_LEVEL \<in> flags (fst s) \<Longrightarrow>
           accepts flt (Set_skintone_level (skintone_value (fst s)))"
    and "GST_VAAPI_POSTPROCESS_FLAG_SKINTONE_LEVEL \<notin> flags (fst s) \<Longrightarrow>
         GST_VAAPI_POSTPROCESS_FLAG_SKINTONE \<in> flags (fst s) \<Longrightarrow>
           accepts flt (Set_skintone (skintone_enhance (fst s)))"
  using assms by (auto simp: push_skintone_def push_op_def split: if_splits)


lemma same_values_refl: "same_values a a"
  by (simp add: same_values_def)

lemma same_values_step:
  "same_values a b \<Longrightarrow> c = b\<lparr>flags := F\<rparr> \<Longrightarrow> same_values a c"
  by (simp add: same_values_def)

lemma same_values_fields:
  assumes "same_values a b"
  shows "format b = format a" "denoise_level b = denoise_level a"
    "sharpen_level b = sharpen_level a" "hue b = hue a" "saturation b = saturation a"
    "brightness b = brightness a" "contrast b = contrast a" "scale_method b = scale_method a"
    "effective_video_direction b = effective_video_direction a"
    "crop_left b = crop_left a" "crop_right b = crop_right a" "crop_top b = crop_top a"
    "crop_bottom b = crop_bottom a" "skintone_value b = skintone_value a"
    "skintone_enhance b = skintone_enhance a"
proof -
  from assms have eq: "a\<lparr>flags := {}\<rparr> = b\<lparr>flags := {}\<rparr>" by (simp add: same_values_def)
  have sel: "\<And>g. (\<And>q F. g (q\<lparr>flags := F\<rparr>) = g q) \<Longrightarrow> g b = g a"
  proof -
    fix g :: "GstVaapiPostprocess \<Rightarrow> 'x" assume g: "\<And>q F. g (q\<lparr>flags := F\<rparr>) = g q"
    have "g b = g (b\<lparr>flags := {}\<rparr>)" by (rule g[symmetric])
    also have "\<dots> = g (a\<lparr>flags := {}\<rparr>)" by (simp only: eq)
    also have "\<dots> = g a" by (rule g)
    finally show "g b = g a" .
  qed
  show "format b = format a" by (rule sel) simp
  show "denoise_level b = denoise_level a" by (rule sel) simp
  show "sharpen_level b = sharpen_level a" by (rule sel) simp
  show "hue b = hue a" by (rule sel) simp
  show "saturation b = saturation a" by (rule sel) simp
  show "brightness b = brightness a" by (rule sel) simp
  show "contrast b = contrast a" by (rule sel) simp
  show "scale_method b = scale_method a" by (rule sel) simp
  show "effective_video_direction b = effective_video_direction a"
    by (rule sel) (simp add: effective_video_direction_def)
  show "crop_left b = crop_left a" by (rule sel) simp
  show "crop_right b = crop_right a" by (rule sel) simp
  show "crop_top b = crop_top a" by (rule sel) simp
  show "crop_bottom b = crop_bottom a" by (rule sel) simp
  show "skintone_value b = skintone_value a" by (rule sel) simp
  show "skintone_enhance b = skintone_enhance a" by (rule sel) simp
qed

lemma same_values_frame:
  assumes "same_values a b"
  shows "b = a\<lparr>flags := flags b\<rparr>"
proof -
  from assms have eq: "a\<lparr>flags := {}\<rparr> = b\<lparr>flags := {}\<rparr>" by (simp add: same_values_def)
  have "b = (b\<lparr>flags := {}\<rparr>)\<lparr>flags := flags b\<rparr>" by simp
  also have "\<dots> = (a\<lparr>flags := {}\<rparr>)\<lparr>flags := flags b\<rparr>" by (simp only: eq)
  also have "\<dots> = a\<lparr>flags := flags b\<rparr>" by simp
  finally show "b = a\<lparr>flags := flags b\<rparr>" .
qed

lemma update_filter_success:
  assumes "update_filter flt p = (True, p', calls)"
  shows "p' = p\<lparr>flags := flags p'\<rparr>"
    and "\<And>f. f \<in> flags p' \<longleftrightarrow> f \<in> flags p \<and> \<not> cleared_on_success flt p f"
    and "calls = pending_calls p"
    and "\<And>c. c \<in> set calls \<Longrightarrow> c \<noteq> Set_video_direction (effective_video_direction p) \<Longrightarrow>
           accepts flt c"
proof -
  from assms have "update_filter_blocks flt (p, []) = (True, (p', calls))"
    by (auto simp: update_filter_def split: prod.splits)
  then obtain s1 s2 s3 s4 s5 s6 s7 s8 s9 s10 where
    b1: "push_format flt (p, []) = (True, s1)" and
    b2: "push_op flt GST_VAAPI_POSTPROCESS_FLAG_DENOISE
           (Set_denoising_level (denoise_level (fst s1)))
           (denoising_level_default flt = denoise_level (fst s1)) s1 = (True, s2)" and
    b3: "push_op flt GST_VAAPI_POSTPROCESS_FLAG_SHARPEN
           (Set_sharpening_level (sharpen_level (fst s2)))
           (sharpening_level_default flt = sharpen_level (fst s2)) s2 = (True, s3)" and
    b4: "push_op flt GST_VAAPI_POSTPROCESS_FLAG_HUE
           (Set_hue (hue (fst s3))) (hue_default flt = hue (fst s3)) s3 = (True, s4)" and
    b5: "push_op flt GST_VAAPI_POSTPROCESS_FLAG_SATURATION
           (Set_saturation (saturation (fst s4)))
           (saturation_default flt = saturation (fst s4)) s4 = (True, s5)" and
    b6: "push_op flt GST_VAAPI_POSTPROCESS_FLAG_BRIGHTNESS
           (Set_brightness (brightness (fst s5)))
           (brightness_default flt = brightness (fst s5)) s5 = (True, s6)" and
    b7: "push_op flt GST_VAAPI_POSTPROCESS_FLAG_CONTRAST
           (Set_contrast (contrast (fst s6)))
           (contrast_default flt = contrast (fst s6)) s6 = (True, s7)" and
    b8: "push_op flt GST_VAAPI_POSTPROCESS_FLAG_SCALE
           (Set_scaling (scale_method (fst s7)))
           (scaling_default flt = scale_method (fst s7)) s7 = (True, s8)" and
    b9: "push_video_direction flt s8 = (True, s9)" and
    b10: "check_crop s9 = (True, s10)" and
    b11: "push_skintone flt s10 = (True, (p', calls))"
    unfolding update_filter_blocks_def
    by (elim and_then_TrueE) blast
  note f1 = push_format_True[OF b1] and f2 = push_op_True[OF b2] and f3 = push_op_True[OF b3]
    and f4 = push_op_True[OF b4] and f5 = push_op_True[OF b5] and f6 = push_op_True[OF b6]
    and f7 = push_op_True[OF b7] and f8 = push_op_True[OF b8]
    and f9 = push_video_direction_True[OF b9] and f10 = check_crop_True[OF b10]
    and f11 = push_skintone_True[OF b11]
  have v1: "same_values p (fst s1)"
    using same_values_step[OF same_values_refl f1(1)[simplified]] by simp
  have v2: "same_values p (fst s2)" by (rule same_values_step[OF v1 f2(1)])
  have v3: "same_values p (fst s3)" by (rule same_values_step[OF v2 f3(1)])
  have v4: "same_values p (fst s4)" by (rule same_values_step[OF v3 f4(1)])
  have v5: "same_values p (fst s5)" by (rule same_values_step[OF v4 f5(1)])
  have v6: "same_values p (fst s6)" by (rule same_values_step[OF v5 f6(1)])
  have v7: "same_values p (fst s7)" by (rule same_values_step[OF v6 f7(1)])
  have v8: "same_values p (fst s8)" by (rule same_values_step[OF v7 f8(1)])
  have v9: "same_values p (fst s9)" by (rule same_values_step[OF v8 f9(2)])
  have v10: "same_values p (fst s10)" by (rule same_values_step[OF v9 f10(2)])
  have v11: "same_values p p'" using same_values_step[OF v10 f11(1)] by simp
  note vals = same_values_fields[OF v1] same_values_fields[OF v2] same_values_fields[OF v3]
    same_values_fields[OF v4] same_values_fields[OF v5] same_values_fields[OF v6]
    same_values_fields[OF v7] same_values_fields[OF v8] same_values_fields[OF v9]
    same_values_fields[OF v10]
  show "p' = p\<lparr>flags := flags p'\<rparr>" by (rule same_values_frame[OF v11])
  have fl1: "\<And>f. f \<in> flags (fst s1) \<longleftrightarrow> f \<in> flags p" using f1(2) by simp
  have fl2: "\<And>f. f \<in> flags (fst s2) \<longleftrightarrow> f \<in> flags p
       \<and> \<not> (f = GST_VAAPI_POSTPROCESS_FLAG_DENOISE \<and> denoising_level_default flt = denoise_level p)"
    using f2(2) fl1 by (simp add: same_values_fields[OF v1])
  have fl3: "\<And>f. f \<in> flags (fst s3) \<longleftrightarrow> f \<in> flags (fst s2)
       \<and> \<not> (f = GST_VAAPI_POSTPROCESS_FLAG_SHARPEN \<and> sharpening_level_default flt = sharpen_level p)"
    using f3(2) by (simp add: same_values_fields[OF v2])
  have fl4: "\<And>f. f \<in> flags (fst s4) \<longleftrightarrow> f \<in> flags (fst s3)
       \<and> \<not> (f = GST_VAAPI_POSTPROCESS_FLAG_HUE \<and> hue_default flt = hue p)"
    using f4(2) by (simp add: same_values_fields[OF v3])
  have fl5: "\<And>f. f \<in> flags (fst s5) \<longleftrightarrow> f \<in> flags (fst s4)
       \<and> \<not> (f = GST_VAAPI_POSTPROCESS_FLAG_SATURATION \<and> saturation_default flt = saturation p)"
    using f5(2) by (simp add: same_values_fields[OF v4])
  have fl6: "\<And>f. f \<in> flags (fst s6) \<longleftrightarrow> f \<in> flags (fst s5)
       \<and> \<not> (f = GST_VAAPI_POSTPROCESS_FLAG_BRIGHTNESS \<and> brightness_default flt = brightness p)"
    using f6(2) by (simp add: same_values_fields[OF v5])
  have fl7: "\<And>f. f \<in> flags (fst s7) \<longleftrightarrow> f \<in> flags (fst s6)
       \<and> \<not> (f = GST_VAAPI_POSTPROCESS_FLAG_CONTRAST \<and> contrast_default flt = contrast p)"
    using f7(2) by (simp add: same_values_fields[OF v6])
  have fl8: "\<And>f. f \<in> flags (fst s8) \<longleftrightarrow> f \<in> flags (fst s7)
       \<and> \<not> (f = GST_VAAPI_POSTPROCESS_FLAG_SCALE \<and> scaling_default flt = scale_method p)"
    using f8(2) by (simp add: same_values_fields[OF v7])
  have fl9: "\<And>f. f \<in> flags (fst s9) \<longleftrightarrow> f \<in> flags (fst s8)
       \<and> \<not> (f = GST_VAAPI_POSTPROCESS_FLAG_VIDEO_DIRECTION
             \<and> video_direction_default flt = effective_video_direction p)"
    using f9(3) by (simp add: same_values_fields[OF v8])
  have fl10: "\<And>f. f \<in> flags (fst s10) \<longleftrightarrow> f \<in> flags (fst s9)
       \<and> \<not> (f = GST_VAAPI_POSTPROCESS_FLAG_CROP
             \<and> (crop_left p OR crop_right p OR crop_top p OR crop_bottom p) = 0)"
    using f10(3) by (simp add: same_values_fields[OF v9])
  have sl: "GST_VAAPI_POSTPROCESS_FLAG_SKINTONE_LEVEL \<in> flags (fst s10)
            \<longleftrightarrow> GST_VAAPI_POSTPROCESS_FLAG_SKINTONE_LEVEL \<in> flags p"
    by (simp add: fl10 fl9 fl8 fl7 fl6 fl5 fl4 fl3 fl2)
  have sk: "GST_VAAPI_POSTPROCESS_FLAG_SKINTONE \<in> flags (fst s10)
            \<longleftrightarrow> GST_VAAPI_POSTPROCESS_FLAG_SKINTONE \<in> flags p"
    by (simp add: fl10 fl9 fl8 fl7 fl6 fl5 fl4 fl3 fl2)
  have fl11: "\<And>f. f \<in> flags p' \<longleftrightarrow> f \<in> flags (fst s10)
            \<and> \<not> (f = GST_VAAPI_POSTPROCESS_FLAG_SKINTONE_LEVEL
                  \<and> skintone_level_default flt = skintone_value p)
            \<and> \<not> (f = GST_VAAPI_POSTPROCESS_FLAG_SKINTONE
                  \<and> (GST_VAAPI_POSTPROCESS_FLAG_SKINTONE_LEVEL \<in> flags p
                     \<or> skintone_default flt = skintone_enhance p))"
    using f11(2) by (simp add: same_values_fields[OF v10] sl)
  show "f \<in> flags p' \<longleftrightarrow> f \<in> flags p \<and> \<not> cleared_on_success flt p f" for f
    by (cases f) (simp_all add: fl11 fl10 fl9 fl8 fl7 fl6 fl5 fl4 fl3 fl2)
  have m1: "GST_VAAPI_POSTPROCESS_FLAG_DENOISE \<in> flags (fst s1)
            \<longleftrightarrow> GST_VAAPI_POSTPROCESS_FLAG_DENOISE \<in> flags p"
    and m2: "GST_VAAPI_POSTPROCESS_FLAG_SHARPEN \<in> flags (fst s2)
            \<longleftrightarrow> GST_VAAPI_POSTPROCESS_FLAG_SHARPEN \<in> flags p"
    and m3: "GST_VAAPI_POSTPROCESS_FLAG_HUE \<in> flags (fst s3)
            \<longleftrightarrow> GST_VAAPI_POSTPROCESS_FLAG_HUE \<in> flags p"
    and m4: "GST_VAAPI_POSTPROCESS_FLAG_SATURATION \<in> flags (fst s4)
            \<longleftrightarrow> GST_VAAPI_POSTPROCESS_FLAG_SATURATION \<in> flags p"
    and m5: "GST_VAAPI_POSTPROCESS_FLAG_BRIGHTNESS \<in> flags (fst s5)
            \<longleftrightarrow> GST_VAAPI_POSTPROCESS_FLAG_BRIGHTNESS \<in> flags p"
    and m6: "GST_VAAPI_POSTPROCESS_FLAG_CONTRAST \<in> flags (fst s6)
            \<longleftrightarrow> GST_VAAPI_POSTPROCESS_FLAG_CONTRAST \<in> flags p"
    and m7: "GST_VAAPI_POSTPROCESS_FLAG_SCALE \<in> flags (fst s7)
            \<longleftrightarrow> GST_VAAPI_POSTPROCESS_FLAG_SCALE \<in> flags p"
    and m8: "GST_VAAPI_POSTPROCESS_FLAG_VIDEO_DIRECTION \<in> flags (fst s8)
            \<longleftrightarrow> GST_VAAPI_POSTPROCESS_FLAG_VIDEO_DIRECTION \<in> flags p"
    by (simp_all add: fl8 fl7 fl6 fl5 fl4 fl3 fl2 fl1)
  have c1: "snd s1 = (if GST_VAAPI_POSTPROCESS_FLAG_FORMAT \<in> flags p
                      then [Set_format (format p)] else [])"
    using f1(3) by simp
  show calls: "calls = pending_calls p"
    using f11(3) f10(4) f9(4) f8(3) f7(3) f6(3) f5(3) f4(3) f3(3) f2(3) c1
    by (simp add: pending_calls_def vals m1 m2 m3 m4 m5 m6 m7 m8 sl sk)
  have acc: "GST_VAAPI_POSTPROCESS_FLAG_FORMAT \<in> flags p \<longrightarrow> accepts flt (Set_format (format p))"
    "GST_VAAPI_POSTPROCESS_FLAG_DENOISE \<in> flags p \<longrightarrow>
       accepts flt (Set_denoising_level (denoise_level p))"
    "GST_VAAPI_POSTPROCESS_FLAG_SHARPEN \<in> flags p \<longrightarrow>
       accepts flt (Set_sharpening_level (sharpen_level p))"
    "GST_VAAPI_POSTPROCESS_FLAG_HUE \<in> flags p \<longrightarrow> accepts flt (Set_hue (hue p))"
    "GST_VAAPI_POSTPROCESS_FLAG_SATURATION \<in> flags p \<longrightarrow>
       accepts flt (Set_saturation (saturation p))"
    "GST_VAAPI_POSTPROCESS_FLAG_BRIGHTNESS \<in> flags p \<longrightarrow>
       accepts flt (Set_brightness (brightness p))"
    "GST_VAAPI_POSTPROCESS_FLAG_CONTRAST \<in> flags p \<longrightarrow>
       accepts flt (Set_contrast (contrast p))"
    "GST_VAAPI_POSTPROCESS_FLAG_SCALE \<in> flags p \<longrightarrow>
       accepts flt (Set_scaling (scale_method p))"
    "GST_VAAPI_POSTPROCESS_FLAG_SKINTONE_LEVEL \<in> flags p \<longrightarrow>
       accepts flt (Set_skintone_level (skintone_value p))"
    "GST_VAAPI_POSTPROCESS_FLAG_SKINTONE_LEVEL \<notin> flags p \<longrightarrow>
     GST_VAAPI_POSTPROCESS_FLAG_SKINTONE \<in> flags p \<longrightarrow>
       accepts flt (Set_skintone (skintone_enhance p))"
    using f1(4) f2(4) f3(4) f4(4) f5(4) f6(4) f7(4) f8(4) f11(4) f11(5)
    by (simp_all add: vals m1 m2 m3 m4 m5 m6 m7 m8 sl sk)
  show "accepts flt c"
    if "c \<in> set calls" "c \<noteq> Set_video_direction (effective_video_direction p)" for c
    using that acc unfolding calls pending_calls_def
    by (auto split: if_splits)
qed

lemma op_push_pending:
  assumes "f \<in> flags p" and "op_push p f = Some c"
    and "f = GST_VAAPI_POSTPROCESS_FLAG_SKINTONE \<longrightarrow>
           GST_VAAPI_POSTPROCESS_FLAG_SKINTONE_LEVEL \<notin> flags p"
  shows "c \<in> set (pending_calls p)"
  using assms by (cases f) (auto simp: pending_calls_def)

lemma and_then_True: "and_then (True, s) f = f s"
  by (simp add: and_then_def)

lemma push_op_skip: "flag \<notin> flags (fst s) \<Longrightarrow> push_op flt flag call d s = (True, s)"
  by (simp add: push_op_def)

lemma update_filter_direction_only:
  assumes "flags p = {GST_VAAPI_POSTPROCESS_FLAG_VIDEO_DIRECTION}"
  shows "fst (update_filter flt p)"
    and "snd (snd (update_filter flt p)) = [Set_video_direction (effective_video_direction p)]"
proof -
  have b1: "push_format flt (p, []) = (True, (p, []))"
    using assms by (simp add: push_format_def)
  have skip: "\<And>flag call d. flag \<noteq> GST_VAAPI_POSTPROCESS_FLAG_VIDEO_DIRECTION \<Longrightarrow>
                 push_op flt flag call d (p, []) = (True, (p, []))"
    using assms by (intro push_op_skip) simp
  obtain s9 where b9: "push_video_direction flt (p, []) = (True, s9)"
    and c9: "snd s9 = [Set_video_direction (effective_video_direction p)]"
    and f9: "flags (fst s9) \<subseteq> {GST_VAAPI_POSTPROCESS_FLAG_VIDEO_DIRECTION}"
    using assms by (auto simp: push_video_direction_def Let_def)
  have b10: "check_crop s9 = (True, s9)"
    using f9 by (auto simp: check_crop_def)
  have b11: "push_skintone flt s9 = (True, s9)"
    using f9 by (auto simp: push_skintone_def push_op_def)
  have "update_filter_blocks flt (p, []) = (True, s9)"
    unfolding update_filter_blocks_def
    by (simp add: b1 skip b9 b10 b11 and_then_True)
  then show "fst (update_filter flt p)"
    and "snd (snd (update_filter flt p)) = [Set_video_direction (effective_video_direction p)]"
    using c9 by (simp_all add: update_filter_def split: prod.splits)
qed

lemma and_then_False: "and_then (False, s) f = (False, s)"
  by (simp add: and_then_def)

lemmas update_filter_defs = update_filter_def update_filter_blocks_def and_then_True and_then_False
  push_format_def push_op_def push_video_direction_def check_crop_def push_skintone_def
  effective_video_direction_def







lemma update_filter_direction_answer:
  assumes "\<forall>c. (\<forall>d. c \<noteq> Set_video_direction d) \<longrightarrow> answers c = accepts flt c"
  shows "update_filter (flt\<lparr>accepts := answers\<rparr>) p = update_filter flt p"
proof -
  have a: "answers c = accepts flt c" if "\<And>d. c \<noteq> Set_video_direction d" for c
    using assms that by blast
  have po: "push_op (flt\<lparr>accepts := answers\<rparr>) flag call d s = push_op flt flag call d s"
    if "\<And>dd. call \<noteq> Set_video_direction dd" for flag call d s
    using a[OF that] by (simp add: push_op_def)
  have pf: "push_format (flt\<lparr>accepts := answers\<rparr>) s = push_format flt s" for s
    using a[of "Set_format (format (fst s))"] by (simp add: push_format_def)
  have pd: "push_video_direction (flt\<lparr>accepts := answers\<rparr>) s = push_video_direction flt s" for s
    by (simp add: push_video_direction_def)
  have pk: "push_skintone (flt\<lparr>accepts := answers\<rparr>) s = push_skintone flt s" for s
    using a[of "Set_skintone_level (skintone_value (fst s))"]
    by (simp add: push_skintone_def po)
  have pk': "push_skintone (flt\<lparr>accepts := answers\<rparr>) = push_skintone flt"
    by (rule ext) (rule pk)
  have "update_filter_blocks (flt\<lparr>accepts := answers\<rparr>) s = update_filter_blocks flt s" for s
    unfolding update_filter_blocks_def by (simp add: po pf pd pk')
  then show ?thesis by (simp add: update_filter_def)
qed

text \<open>
  C2, as the code has it. If the filter refuses the value of a pending operation other
  than the direction (the deprecated skin tone property counts only when the skin tone
  level is not pending, since otherwise it is not pushed), \<^verbatim>\<open>update_filter\<close> returns
  \<^verbatim>\<open>FALSE\<close>. The answer of the filter to the direction does not count: whatever else is
  pending, \<^verbatim>\<open>update_filter\<close> returns the same result, leaves the same element and makes the
  same calls with a filter that differs only in its answers to
  \<^verbatim>\<open>gst_vaapi_filter_set_video_direction\<close>; with only the direction pending it returns
  \<^verbatim>\<open>TRUE\<close>.
\<close>

theorem update_filter_fails_on_refusal:
  "(f \<in> flags p \<and> op_push p f = Some c \<and> \<not> accepts flt c
     \<and> f \<noteq> GST_VAAPI_POSTPROCESS_FLAG_VIDEO_DIRECTION
     \<and> (f = GST_VAAPI_POSTPROCESS_FLAG_SKINTONE \<longrightarrow>
           GST_VAAPI_POSTPROCESS_FLAG_SKINTONE_LEVEL \<notin> flags p)
    \<longrightarrow> \<not> fst (update_filter flt p))
   \<and> (flags q = {GST_VAAPI_POSTPROCESS_FLAG_VIDEO_DIRECTION} \<longrightarrow>
        fst (update_filter g q)
        \<and> snd (snd (update_filter g q)) = [Set_video_direction (effective_video_direction q)])
   \<and> ((\<forall>c. (\<forall>d. c \<noteq> Set_video_direction d) \<longrightarrow> answers c = accepts h c) \<longrightarrow>
        update_filter (h\<lparr>accepts := answers\<rparr>) r = update_filter h r)"
proof (intro conjI impI)
  assume h: "f \<in> flags p \<and> op_push p f = Some c \<and> \<not> accepts flt c
     \<and> f \<noteq> GST_VAAPI_POSTPROCESS_FLAG_VIDEO_DIRECTION
     \<and> (f = GST_VAAPI_POSTPROCESS_FLAG_SKINTONE \<longrightarrow>
           GST_VAAPI_POSTPROCESS_FLAG_SKINTONE_LEVEL \<notin> flags p)"
  show "\<not> fst (update_filter flt p)"
  proof
    assume "fst (update_filter flt p)"
    then obtain p' calls where ok: "update_filter flt p = (True, p', calls)"
      by (cases "update_filter flt p") auto
    from h have "c \<in> set (pending_calls p)" by (intro op_push_pending[of f]) simp_all
    moreover from h have "c \<noteq> Set_video_direction (effective_video_direction p)"
      by (cases f) auto
    ultimately have "accepts flt c"
      using update_filter_success(3,4)[OF ok] by simp
    with h show False by simp
  qed
next
  assume "flags q = {GST_VAAPI_POSTPROCESS_FLAG_VIDEO_DIRECTION}"
  then show "fst (update_filter g q)"
    and "snd (snd (update_filter g q)) = [Set_video_direction (effective_video_direction q)]"
    by (rule update_filter_direction_only)+
next
  assume "\<forall>c. (\<forall>d. c \<noteq> Set_video_direction d) \<longrightarrow> answers c = accepts h c"
  then show "update_filter (h\<lparr>accepts := answers\<rparr>) r = update_filter h r"
    by (rule update_filter_direction_answer)
qed


theorem update_filter_fails_on_refusal_witness:
  "GST_VAAPI_POSTPROCESS_FLAG_HUE \<in> flags example_levels
   \<and> op_push example_levels GST_VAAPI_POSTPROCESS_FLAG_HUE = Some (Set_hue 10)
   \<and> \<not> accepts no_hue_filter (Set_hue 10)
   \<and> update_filter no_hue_filter example_levels =
       (False, example_levels\<lparr>flags := {GST_VAAPI_POSTPROCESS_FLAG_HUE}\<rparr>,
        [Set_denoising_level 0, Set_hue 10])
   \<and> flags example_direction = {GST_VAAPI_POSTPROCESS_FLAG_VIDEO_DIRECTION}
   \<and> fst (update_filter no_direction_filter example_direction)
   \<and> accept_all_filter\<lparr>accepts := accepts no_direction_filter\<rparr> = no_direction_filter
   \<and> \<not> accepts no_direction_filter (Set_video_direction GST_VIDEO_ORIENTATION_90R)
   \<and> update_filter no_direction_filter example_direction_hue =
       update_filter accept_all_filter example_direction_hue
   \<and> update_filter no_direction_filter example_direction_hue =
       (True, example_direction_hue,
        [Set_hue 10, Set_video_direction GST_VIDEO_ORIENTATION_90R])"
proof -
  have refusal: "GST_VAAPI_POSTPROCESS_FLAG_HUE \<in> flags example_levels
      \<and> op_push example_levels GST_VAAPI_POSTPROCESS_FLAG_HUE = Some (Set_hue 10)
      \<and> \<not> accepts no_hue_filter (Set_hue 10)"
    by (simp add: example_levels_def example_postprocess_def no_hue_filter_def
          accept_all_filter_def)
  have only: "flags example_direction = {GST_VAAPI_POSTPROCESS_FLAG_VIDEO_DIRECTION}"
    by (simp add: example_direction_def)
  have agree: "\<forall>c. (\<forall>d. c \<noteq> Set_video_direction d) \<longrightarrow>
                 accepts no_direction_filter c = accepts accept_all_filter c"
    by (auto simp: no_direction_filter_def accept_all_filter_def split: filter_call.splits)
  have same: "accept_all_filter\<lparr>accepts := accepts no_direction_filter\<rparr> = no_direction_filter"
    by (simp add: no_direction_filter_def)
  have refused: "\<not> accepts no_direction_filter (Set_video_direction GST_VIDEO_ORIENTATION_90R)"
    by (simp add: no_direction_filter_def accept_all_filter_def)
  have all: "update_filter accept_all_filter example_direction_hue =
       (True, example_direction_hue,
        [Set_hue 10, Set_video_direction GST_VIDEO_ORIENTATION_90R])"
    by (simp add: update_filter_defs example_direction_hue_def example_postprocess_def
          accept_all_filter_def Let_def insert_Diff_if)
  have levels: "update_filter no_hue_filter example_levels =
       (False, example_levels\<lparr>flags := {GST_VAAPI_POSTPROCESS_FLAG_HUE}\<rparr>,
        [Set_denoising_level 0, Set_hue 10])"
    by (simp add: update_filter_defs example_levels_def example_postprocess_def
          no_hue_filter_def accept_all_filter_def Let_def insert_Diff_if)
  from update_filter_fails_on_refusal[of GST_VAAPI_POSTPROCESS_FLAG_HUE example_levels
         "Set_hue 10" no_hue_filter example_direction no_direction_filter
         "accepts no_direction_filter" accept_all_filter example_direction_hue]
       refusal only agree
  have "\<not> fst (update_filter no_hue_filter example_levels)
        \<and> fst (update_filter no_direction_filter example_direction)
        \<and> update_filter (accept_all_filter\<lparr>accepts := accepts no_direction_filter\<rparr>)
            example_direction_hue = update_filter accept_all_filter example_direction_hue"
    by blast
  with refusal only same refused all levels show ?thesis by simp
qed


text \<open>
  The claim C2 as stated covers every pending operation. A direction that the filter
  refuses is only warned about (lines 698-706): \<^verbatim>\<open>update_filter\<close> returns \<^verbatim>\<open>TRUE\<close>.
\<close>

theorem update_filter_direction_counterexample:
  "GST_VAAPI_POSTPROCESS_FLAG_VIDEO_DIRECTION \<in> flags example_direction
   \<and> \<not> accepts no_direction_filter (Set_video_direction (video_direction example_direction))
   \<and> update_filter no_direction_filter example_direction =
       (True, example_direction, [Set_video_direction GST_VIDEO_ORIENTATION_90R])"
  by (simp add: update_filter_defs example_direction_def example_postprocess_def
        no_direction_filter_def accept_all_filter_def Let_def)

subsection \<open>Advanced deinterlacing needs a native format\<close>

lemma update_sink_caps_frame:
  assumes "gst_vaapipostprocess_update_sink_caps cenv p caps = Some (changed, p1)"
  shows "p1 = p\<lparr>sinkpad_info := sinkpad_info p1, flags := flags p1,
                  field_duration := field_duration p1, get_va_surfaces := get_va_surfaces p1\<rparr>"
    and "deinterlace_method p1 = deinterlace_method p"
  using assms
  by (auto simp: gst_vaapipostprocess_update_sink_caps_def Let_def split: option.splits if_splits)

text \<open>
  C8, as the code has it. When the configured deinterlacing method is advanced and the
  format of the new sink caps is not one of NV12, YV12 and I420,
  \<^verbatim>\<open>gst_vaapipostprocess_set_caps\<close> returns \<^verbatim>\<open>FALSE\<close>; the filter binding is neither torn
  down nor rebuilt, no pool is made and no filter call is made. The element it leaves is
  the one \<^verbatim>\<open>gst_vaapipostprocess_update_sink_caps\<close> has produced: it differs from the
  element before in nothing but the sink video info, the flags, the field duration and
  \<^verbatim>\<open>get_va_surfaces\<close>.
\<close>

theorem set_caps_rejects_advanced_on_non_native:
  assumes caps: "caps_video_info caps = Some vinfo"
    and non_native: "\<not> is_native_video_format (vi_format vinfo)"
    and advanced: "deint_method_is_advanced (deinterlace_method p)"
  shows "\<not> cr_ret (gst_vaapipostprocess_set_caps cenv p flt caps out_caps)
       \<and> cr_events (gst_vaapipostprocess_set_caps cenv p flt caps out_caps) = []
       \<and> cr_calls (gst_vaapipostprocess_set_caps cenv p flt caps out_caps) = []
       \<and> (\<exists>changed. gst_vaapipostprocess_update_sink_caps cenv p caps =
             Some (changed, cr_postprocess (gst_vaapipostprocess_set_caps cenv p flt caps out_caps)))
       \<and> cr_postprocess (gst_vaapipostprocess_set_caps cenv p flt caps out_caps) =
           p\<lparr>sinkpad_info :=
                sinkpad_info (cr_postprocess (gst_vaapipostprocess_set_caps cenv p flt caps out_caps)),
              flags := flags (cr_postprocess (gst_vaapipostprocess_set_caps cenv p flt caps out_caps)),
              field_duration :=
                field_duration (cr_postprocess (gst_vaapipostprocess_set_caps cenv p flt caps out_caps)),
              get_va_surfaces :=
                get_va_surfaces (cr_postprocess (gst_vaapipostprocess_set_caps cenv p flt caps out_caps))\<rparr>"
proof -
  obtain changed p1 where u: "gst_vaapipostprocess_update_sink_caps cenv p caps = Some (changed, p1)"
    using caps
    by (cases "video_info_changed (sinkpad_info p) vinfo")
       (simp_all add: gst_vaapipostprocess_update_sink_caps_def video_info_update_def Let_def)
  note fr = update_sink_caps_frame[OF u]
  have r: "gst_vaapipostprocess_set_caps cenv p flt caps out_caps =
             \<lparr>cr_ret = False, cr_postprocess = p1, cr_events = [], cr_calls = []\<rparr>"
    using caps non_native advanced
    by (simp add: gst_vaapipostprocess_set_caps_def u fr(2) Let_def)
  show ?thesis
    unfolding r using u fr(1) by simp
qed


lemmas caps_defs2 = gst_vaapipostprocess_set_caps_def gst_vaapipostprocess_update_sink_caps_def
  video_info_update_def video_info_changed_def gst_video_info_changed_def sink_field_duration_def
  gint_mult_def gst_util_uint64_scale_def GST_SECOND_def is_native_video_format_def
  native_formats_def

theorem set_caps_rejects_advanced_on_non_native_witness:
  "caps_video_info example_yuy2_caps = Some example_yuy2_info
   \<and> \<not> is_native_video_format (vi_format example_yuy2_info)
   \<and> deint_method_is_advanced (deinterlace_method example_postprocess)
   \<and> \<not> cr_ret (gst_vaapipostprocess_set_caps example_cenv example_postprocess accept_all_filter
               example_yuy2_caps example_yuy2_caps)
   \<and> cr_events (gst_vaapipostprocess_set_caps example_cenv example_postprocess accept_all_filter
               example_yuy2_caps example_yuy2_caps) = []
   \<and> have_filter (cr_postprocess (gst_vaapipostprocess_set_caps example_cenv example_postprocess
               accept_all_filter example_yuy2_caps example_yuy2_caps))"
proof -
  have caps: "caps_video_info example_yuy2_caps = Some example_yuy2_info"
    by (simp add: example_yuy2_caps_def)
  have nn: "\<not> is_native_video_format (vi_format example_yuy2_info)"
    by (simp add: is_native_video_format_def native_formats_def example_yuy2_info_def)
  have adv: "deint_method_is_advanced (deinterlace_method example_postprocess)"
    by (simp add: example_postprocess_def)
  show ?thesis
    using set_caps_rejects_advanced_on_non_native[OF caps nn adv, of example_cenv accept_all_filter
            example_yuy2_caps] caps nn adv
    by (simp add: caps_defs2 example_yuy2_caps_def example_yuy2_info_def example_postprocess_def
          example_info_def example_cenv_def Let_def)
qed


text \<open>
  The claim C8 as stated ends with the previous configuration being left in place. The
  format check comes after \<^verbatim>\<open>gst_vaapipostprocess_update_sink_caps\<close> (lines 1709-1722), which
  has by then stored the new sink format. Here the element was negotiated for NV12 640x480
  at 25 frames per second; after the failed step its sink video info is the refused
  1280x720 format, its field duration went from 20 ms to 16.67 ms, and
  \<^verbatim>\<open>get_va_surfaces\<close> is off.
\<close>

theorem set_caps_previous_configuration_counterexample:
  "deint_method_is_advanced (deinterlace_method example_postprocess)
   \<and> caps_video_info example_yuy2_caps = Some example_yuy2_info
   \<and> \<not> is_native_video_format (vi_format example_yuy2_info)
   \<and> \<not> cr_ret (gst_vaapipostprocess_set_caps example_cenv example_postprocess accept_all_filter
               example_yuy2_caps example_yuy2_caps)
   \<and> sinkpad_info example_postprocess = example_info
   \<and> sinkpad_info (cr_postprocess (gst_vaapipostprocess_set_caps example_cenv example_postprocess
               accept_all_filter example_yuy2_caps example_yuy2_caps)) = example_yuy2_info
   \<and> example_yuy2_info \<noteq> example_info
   \<and> field_duration example_postprocess = 20000000
   \<and> field_duration (cr_postprocess (gst_vaapipostprocess_set_caps example_cenv example_postprocess
               accept_all_filter example_yuy2_caps example_yuy2_caps)) = 16666666
   \<and> get_va_surfaces example_postprocess
   \<and> \<not> get_va_surfaces (cr_postprocess (gst_vaapipostprocess_set_caps example_cenv
               example_postprocess accept_all_filter example_yuy2_caps example_yuy2_caps))"
  by (simp add: caps_defs2 example_yuy2_caps_def example_yuy2_info_def example_postprocess_def
        example_info_def example_cenv_def Let_def)

subsection \<open>The deinterlacing history\<close>

text \<open>
  The capacity part of C4 holds: whatever the frames and whatever the filter and the
  environment answer, the history stays within the capacity it started with, and so does
  every list of references handed to the filter.
\<close>

lemma ds_collect_surfaces_length:
  "length (ds_collect_surfaces ds i) \<le> length (ds_buffers ds) - i"
proof (induction ds i rule: ds_collect_surfaces.induct)
  case (1 ds i)
  show ?case
  proof (cases "i < length (ds_buffers ds)")
    case False
    then show ?thesis by (subst ds_collect_surfaces.simps) simp
  next
    case True
    show ?thesis
    proof (cases "ds_get_buffer ds i")
      case None
      with True show ?thesis by (subst ds_collect_surfaces.simps) simp
    next
      case (Some buf)
      from "1.IH"[OF True Some] True Some show ?thesis
        by (subst ds_collect_surfaces.simps) simp
    qed
  qed
qed

lemma capacity_reset: "history_within_capacity n ds \<Longrightarrow> history_within_capacity n (ds_reset ds)"
  by (simp add: history_within_capacity_def ds_reset_def)

lemma capacity_set_surfaces:
  "history_within_capacity n ds \<Longrightarrow> history_within_capacity n (ds_set_surfaces ds)"
  using ds_collect_surfaces_length[of ds 0]
  by (simp add: history_within_capacity_def ds_set_surfaces_def Let_def)

lemma capacity_add_buffer:
  "history_within_capacity n ds \<Longrightarrow> history_within_capacity n (ds_add_buffer ds buf)"
  by (simp add: history_within_capacity_def ds_add_buffer_def)

lemma capacity_drop_references:
  "history_within_capacity n ds \<Longrightarrow> history_within_capacity n (vpp_drop_references ds deint tff)"
  using capacity_reset[of n ds]
  by (simp add: vpp_drop_references_def Let_def history_within_capacity_def)

lemma capacity_references:
  "history_within_capacity n ds \<Longrightarrow> length (ds_references ds) \<le> n"
  by (simp add: history_within_capacity_def ds_references_def min.coboundedI2)

lemma set_best_deint_loop_no_references:
  "references_of (snd (snd (set_best_deint_loop flt dflags m))) = []"
proof (induction flt dflags m rule: set_best_deint_loop.induct)
  case (1 flt dflags m)
  show ?case
  proof (cases "accepts flt (Set_deinterlacing m dflags) \<or> m = GST_VAAPI_DEINTERLACE_METHOD_BOB")
    case True
    then show ?thesis by (subst set_best_deint_loop.simps) simp
  next
    case False
    from "1.IH"[OF False] False show ?thesis
      by (subst set_best_deint_loop.simps) (simp add: split_beta)
  qed
qed

lemma references_of_append: "references_of (xs @ ys) = references_of xs @ references_of ys"
  by (induction xs rule: references_of.induct) simp_all


lemma capacity_first_field_deint:
  assumes cap: "history_within_capacity n (deinterlace_state p)"
  shows "history_within_capacity n
           (deinterlace_state (fst (snd (vpp_first_field_deint p flt deint deint_changed tff))))"
    and "\<forall>refs \<in> set (references_of
            (fst (snd (snd (vpp_first_field_deint p flt deint deint_changed tff))))).
           length refs \<le> n"
  using cap capacity_set_surfaces[OF cap] capacity_references[OF capacity_set_surfaces[OF cap]]
  by (simp_all add: vpp_first_field_deint_def set_best_deint_method_def Let_def split_beta
        references_of_append set_best_deint_loop_no_references)


lemma references_within_simps:
  "references_within n []"
  "references_within n (xs @ ys) \<longleftrightarrow> references_within n xs \<and> references_within n ys"
  "references_within n (Set_deinterlacing_references refs # xs) \<longleftrightarrow>
     length refs \<le> n \<and> references_within n xs"
  "references_within n (Set_deinterlacing m dflags # xs) \<longleftrightarrow> references_within n xs"
  "references_within n (Set_cropping_rectangle rect # xs) \<longleftrightarrow> references_within n xs"
  "references_within n (Process src dst rflags # xs) \<longleftrightarrow> references_within n xs"
  by (auto simp: references_within_def references_of_append)

lemma capacity_first_field:
  assumes cap: "history_within_capacity n (deinterlace_state p0)"
  shows "case vpp_first_field p0 flt env inbuf outbuf sfc crop rflags deint deint_changed of
           Inl r \<Rightarrow> history_within_capacity n (deinterlace_state (res_postprocess r))
                    \<and> references_within n (res_calls r)
         | Inr t \<Rightarrow> history_within_capacity n (deinterlace_state (fst t))
                    \<and> references_within n (fst (snd t))"
  using cap capacity_first_field_deint[OF cap, of flt deint deint_changed "buf_flag_tff inbuf"]
  by (simp add: vpp_first_field_def Let_def split_beta references_within_simps
        references_within_def[of n "fst (snd (snd (vpp_first_field_deint p0 flt deint deint_changed
                                                   (buf_flag_tff inbuf))))"]
        split: option.splits)

lemma capacity_second_field_deint:
  assumes cap: "history_within_capacity n (deinterlace_state p1)"
  shows "references_within n
           (snd (vpp_second_field_deint p1 flt deint deint_changed tff m refs))"
  using capacity_references[OF cap]
  by (simp add: vpp_second_field_deint_def Let_def references_within_simps)

lemma capacity_second_field:
  assumes cap: "history_within_capacity n (deinterlace_state p1)"
    and calls: "references_within n calls"
  shows "history_within_capacity n (deinterlace_state (res_postprocess
            (vpp_second_field p1 flt env inbuf outbuf sfc crop rflags deint deint_changed
               calls pushed m refs)))
         \<and> references_within n (res_calls
            (vpp_second_field p1 flt env inbuf outbuf sfc crop rflags deint deint_changed
               calls pushed m refs))"
  using cap calls
  by (simp add: vpp_second_field_def Let_def split_beta references_within_simps
        capacity_add_buffer[OF cap] capacity_second_field_deint[OF cap]
        split: option.splits)

lemma process_vpp_capacity:
  assumes cap: "history_within_capacity n (deinterlace_state p)"
  shows "history_within_capacity n (deinterlace_state (res_postprocess
            (gst_vaapipostprocess_process_vpp ps p flt env inbuf outbuf)))
         \<and> references_within n (res_calls
            (gst_vaapipostprocess_process_vpp ps p flt env inbuf outbuf))"
proof (cases "buf_vaapi_meta inbuf")
  case None
  with cap show ?thesis
    by (simp add: gst_vaapipostprocess_process_vpp_def references_within_simps)
next
  case (Some inbuf_meta)
  let ?deint = "should_deinterlace_buffer p inbuf"
  let ?dc = "?deint \<noteq> ds_deint (deinterlace_state p)"
  let ?p0 = "p\<lparr>deinterlace_state :=
               vpp_drop_references (deinterlace_state p) ?deint (buf_flag_tff inbuf)\<rparr>"
  let ?sfc = "meta_surface inbuf_meta"
  let ?crop = "vpp_crop_rect p inbuf inbuf_meta"
  let ?rflags = "meta_render_flags inbuf_meta AND NOT (PICTURE_STRUCTURE_MASK ps)"
  let ?first = "vpp_first_field ?p0 flt env inbuf outbuf ?sfc ?crop ?rflags ?deint ?dc"
  have cap0: "history_within_capacity n (deinterlace_state ?p0)"
    using capacity_drop_references[OF cap] by simp
  note first = capacity_first_field[OF cap0, of flt env inbuf outbuf ?sfc ?crop ?rflags ?deint ?dc]
  show ?thesis
  proof (cases ?first)
    case (Inl r)
    with first Some show ?thesis
      by (simp add: gst_vaapipostprocess_process_vpp_def Let_def)
  next
    case (Inr t)
    obtain p1 calls pushed m refs where t: "t = (p1, calls, pushed, m, refs)"
      by (cases t) auto
    from first Inr t have c1: "history_within_capacity n (deinterlace_state p1)"
      and c2: "references_within n calls" by simp_all
    from capacity_second_field[OF c1 c2] Inr t Some show ?thesis
      by (simp add: gst_vaapipostprocess_process_vpp_def Let_def)
  qed
qed

lemma process_frames_capacity:
  assumes "history_within_capacity n (deinterlace_state p)"
  shows "\<forall>r \<in> set (process_frames ps p flt env outbuf frames).
           history_within_capacity n (deinterlace_state (res_postprocess r))
           \<and> references_within n (res_calls r)"
  using assms
proof (induction frames arbitrary: p)
  case Nil
  show ?case by simp
next
  case (Cons inbuf rest)
  from process_vpp_capacity[OF Cons.prems, of ps flt env inbuf outbuf]
       Cons.IH[of "res_postprocess (gst_vaapipostprocess_process_vpp ps p flt env inbuf outbuf)"]
  show ?case by (simp add: Let_def)
qed

text \<open>
  C4, the part about the field order. Lines 899-902 reset the history on a change of the
  field order only when \<^verbatim>\<open>ds->num_surfaces > 0\<close>, but \<^verbatim>\<open>num_surfaces\<close> is the number of
  references that \<^verbatim>\<open>ds_set_surfaces\<close> counted for the frame before, taken before that frame
  was added to the ring. After a reset it is still zero when the second frame arrives,
  while the ring holds the first frame. Run on the three example frames with the
  motion-adaptive method and a filter that accepts everything: the first frame is top
  field first and gets no reference; the second is bottom field first, the history is not
  reset, and it gets surface 1 as its reference; the third gets the surfaces 2 and 1
  together, one from before and one from after the change of the field order.
\<close>

theorem history_keeps_references_across_parity_change:
  "map buf_flag_tff example_frames = [True, False, False]
   \<and> map res_ret (process_frames example_ps example_postprocess accept_all_filter example_env
                    example_outbuf example_frames) = [GST_FLOW_OK, GST_FLOW_OK, GST_FLOW_OK]
   \<and> map (\<lambda>r. references_of (res_calls r))
        (process_frames example_ps example_postprocess accept_all_filter example_env
           example_outbuf example_frames) =
      [[[], []], [[Some 1], [Some 1]], [[Some 2, Some 1], [Some 2, Some 1]]]"
  by (simp add: example_frames_def vpp_defs example_defs accept_all_filter_def buffer_helper_defs
        Let_def set_best_deint_loop_accepted ds_collect_surfaces.simps)


theorem history_keeps_references_across_parity_change_witness:
  "map (\<lambda>r. references_of (res_calls r))
     (process_frames example_ps example_postprocess accept_all_filter example_env
        example_outbuf example_frames) ! 2 = [[Some 2, Some 1], [Some 2, Some 1]]
   \<and> buf_flag_tff (example_frames ! 0) \<noteq> buf_flag_tff (example_frames ! 1)"
  using history_keeps_references_across_parity_change
  by (simp add: example_frames_def example_inbuf_def)

end
